(* ===== verification/Prelude.thy ===== *)
theory Prelude
  imports Main "HOL-Library.Word"
begin

text \<open>
  Shared vocabulary of the passenger-service development: the byte type of the
  BSON identifiers, ASCII character helpers that model Python's \<open>str.lower\<close>
  and \<open>str.strip\<close> on the characters the service sees, Python dictionaries as
  association lists with distinct keys (a dict keeps insertion order, which the
  handlers' dict literals and \<open>{**a, **b}\<close> depend on), and the lemma
  collections the component theories share.
\<close>

type_synonym byte = "8 word"

named_theorems handler_defs "definitions unfolded when a request handler of main.py is evaluated"
named_theorems store_simps "characteristic equations of the document-store primitives"
named_theorems dict_simps "lookups in the association lists that model Python dicts"

subsection \<open>Python strings\<close>

text \<open>
  The model's strings are strings of 8-bit characters (\<open>char\<close> is a byte):
  code points 0 to 255, Latin-1. \<open>ascii_lower\<close> is the ASCII-only case
  folding CPython applies to hexadecimal digits and to \<open>inf\<close>/\<open>nan\<close>;
  \<open>py_lower\<close> is \<open>str.lower\<close> on Latin-1 (also \<open>A\<close>-grave to
  \<open>Y\<close>-acute and the Icelandic capitals, but not the multiplication sign).
\<close>

definition ascii_lower :: "char \<Rightarrow> char" where
  "ascii_lower c =
     (let n = of_char c :: nat in if 65 \<le> n \<and> n \<le> 90 then char_of (n + 32) else c)"

definition py_lower :: "char \<Rightarrow> char" where
  "py_lower c =
     (let n = of_char c :: nat in
      if (65 \<le> n \<and> n \<le> 90) \<or> (192 \<le> n \<and> n \<le> 222 \<and> n \<noteq> 215) then char_of (n + 32) else c)"

text \<open>\<open>str.isspace\<close> on Latin-1: tab to carriage return, the four separator
  controls, the space, NEL (\<open>\x85\<close>) and the no-break space (\<open>\xa0\<close>).\<close>

definition is_py_space :: "char \<Rightarrow> bool" where
  "is_py_space c \<longleftrightarrow> (of_char c :: nat) \<in> {9..13} \<union> {28..32} \<union> {133, 160}"

text \<open>\<open>str.strip()\<close> with no argument: leading and trailing whitespace removed.\<close>

definition py_strip :: "string \<Rightarrow> string" where
  "py_strip s = rev (dropWhile is_py_space (rev (dropWhile is_py_space s)))"

text \<open>
  Facts about these helpers: lowering keeps whitespace and \<open>@\<close> where they
  are, and \<open>strip\<close> leaves a string that starts and ends with a visible
  character, so stripping twice is stripping once.
\<close>

lemma is_py_space_ascii_lower [simp]: "is_py_space (ascii_lower c) = is_py_space c"
  by (simp add: ascii_lower_def is_py_space_def Let_def)

lemma ascii_lower_idem [simp]: "ascii_lower (ascii_lower c) = ascii_lower c"
  by (simp add: ascii_lower_def Let_def)

lemma ascii_lower_at [simp]: "ascii_lower c = CHR ''@'' \<longleftrightarrow> c = CHR ''@''"
proof
  assume h: "ascii_lower c = CHR ''@''"
  show "c = CHR ''@''"
  proof (cases "65 \<le> (of_char c :: nat) \<and> (of_char c :: nat) \<le> 90")
    case True
    then have "(of_char (ascii_lower c) :: nat) = of_char c + 32"
      by (simp add: ascii_lower_def Let_def)
    with True h show ?thesis by simp
  next
    case False
    with h show ?thesis by (simp add: ascii_lower_def Let_def)
  qed
qed (simp add: ascii_lower_def)

lemma is_py_space_py_lower [simp]: "is_py_space (py_lower c) = is_py_space c"
  by (simp add: py_lower_def is_py_space_def Let_def)

lemma py_lower_idem [simp]: "py_lower (py_lower c) = py_lower c"
  by (simp add: py_lower_def Let_def)

lemma py_lower_below_A:
  assumes d: "(of_char d :: nat) < 65"
  shows "py_lower c = d \<longleftrightarrow> c = d"
proof (cases "(65 \<le> (of_char c :: nat) \<and> (of_char c :: nat) \<le> 90) \<or>
    (192 \<le> (of_char c :: nat) \<and> (of_char c :: nat) \<le> 222 \<and> (of_char c :: nat) \<noteq> 215)")
  case True
  then have "(of_char (py_lower c) :: nat) = of_char c + 32" by (auto simp: py_lower_def Let_def)
  with True d have "py_lower c \<noteq> d" "c \<noteq> d" by auto
  then show ?thesis by simp
next
  case False
  have "py_lower c = c" unfolding py_lower_def Let_def by (rule if_not_P [OF False])
  then show ?thesis by simp
qed

lemma py_lower_at [simp]: "py_lower c = CHR ''@'' \<longleftrightarrow> c = CHR ''@''"
  by (rule py_lower_below_A) simp

lemma py_lower_lt [simp]: "py_lower c = CHR ''<'' \<longleftrightarrow> c = CHR ''<''"
  by (rule py_lower_below_A) simp

lemma last_dropWhile: "dropWhile P xs \<noteq> [] \<Longrightarrow> last (dropWhile P xs) = last xs"
  by (induction xs) auto

lemma py_strip_fixed:
  assumes "x = [] \<or> (\<not> is_py_space (hd x) \<and> \<not> is_py_space (last x))"
  shows "py_strip x = x"
proof (cases "x = []")
  case False
  with assms have "dropWhile is_py_space x = x" and "dropWhile is_py_space (rev x) = rev x"
    by (simp_all add: dropWhile_eq_self_iff hd_rev)
  then show ?thesis by (simp add: py_strip_def)
qed (simp add: py_strip_def)

lemma py_strip_ends:
  "py_strip s = [] \<or> (\<not> is_py_space (hd (py_strip s)) \<and> \<not> is_py_space (last (py_strip s)))"
proof -
  let ?w = "dropWhile is_py_space s"
  let ?y = "dropWhile is_py_space (rev ?w)"
  show ?thesis
  proof (cases "?y = []")
    case False
    have w: "?w \<noteq> []"
    proof
      assume w0: "?w = []"
      have "?y = []" by (simp only: w0 rev.simps dropWhile.simps)
      with False show False by simp
    qed
    have "\<not> is_py_space (hd ?y)" using False by (rule hd_dropWhile)
    moreover have "last ?y = hd ?w" using False w by (simp add: last_dropWhile last_rev)
    moreover have "\<not> is_py_space (hd ?w)" using w by (rule hd_dropWhile)
    ultimately show ?thesis using False by (simp add: py_strip_def hd_rev last_rev)
  qed (simp add: py_strip_def)
qed

lemma py_strip_idem [simp]: "py_strip (py_strip s) = py_strip s"
  by (rule py_strip_fixed [OF py_strip_ends])

lemma length_py_strip: "length (py_strip s) \<le> length s"
  by (simp add: py_strip_def) (metis length_dropWhile_le length_rev order_trans)

subsection \<open>Python dictionaries\<close>

text \<open>
  A dict is an association list; \<open>map_of\<close> reads it. The lemmas below are the
  lookups the handlers need after a dict is rebuilt value by value or filtered
  by key.
\<close>

lemma map_of_map_values [dict_simps]:
  "map_of (map (\<lambda>(k, v). (k, f k v)) d) k = map_option (f k) (map_of d k)"
  by (induction d) auto

lemma map_of_filter_key [dict_simps]:
  "map_of (filter (\<lambda>(k, v). P k) d) k = (if P k then map_of d k else None)"
  by (induction d) auto

lemma map_of_map_key [dict_simps]:
  "map_of (map (\<lambda>k. (k, g k)) ks) k = (if k \<in> set ks then Some (g k) else None)"
  by (induction ks) auto

lemma map_keys_values [simp]:
  "map fst (map (\<lambda>(k, v). (k, f k v)) d) = map fst d"
  by (induction d) auto

lemma distinct_filter_keys [intro]:
  "distinct (map fst d) \<Longrightarrow> distinct (map fst (filter P d))"
  by (induction d) (auto simp: image_iff)

lemma map_of_SomeD_set: "map_of d k = Some v \<Longrightarrow> (k, v) \<in> set d"
  by (rule map_of_SomeD)

subsection \<open>Results paired with a state\<close>

text \<open>A handler returns its result beside the store; \<open>apfst\<close> maps the result only.\<close>

lemma apfst_eq_conv: "apfst f x = (a, b) \<longleftrightarrow> (\<exists>y. x = (y, b) \<and> a = f y)"
  by (cases x) auto

subsection \<open>Maps\<close>

lemma fun_upd_fold_other [simp]:
  "k \<notin> set (map fst ps) \<Longrightarrow> fold (\<lambda>(k', v) d. d(k' \<mapsto> v)) ps m k = m k"
  by (induction ps arbitrary: m) auto

lemma fold_upd_map_of:
  "distinct (map fst ps) \<Longrightarrow>
   fold (\<lambda>(k', v) d. d(k' \<mapsto> v)) ps m k =
     (case map_of ps k of Some v \<Rightarrow> Some v | None \<Rightarrow> m k)"
proof (induction ps arbitrary: m)
  case Nil
  then show ?case by simp
next
  case (Cons p ps)
  obtain k' v where p: "p = (k', v)" by (cases p)
  with Cons.prems have notin: "k' \<notin> set (map fst ps)" by simp
  then have "map_of ps k' = None" by (simp add: map_of_eq_None_iff)
  with Cons notin p show ?case by (cases "k = k'") (auto split: option.splits)
qed

end
