(* ===== verification/ObjectId.thy ===== *)
theory ObjectId
  imports Prelude
begin

text \<open>
  The store's identity type, BSON's \<open>ObjectId\<close> (bson/objectid.py, called by
  main.py as \<open>ObjectId(id)\<close> and \<open>str(passenger["_id"])\<close>): twelve bytes,
  printed by \<open>__str__\<close> as \<open>binascii.hexlify\<close> (24 lowercase hexadecimal
  digits) and parsed from a string by \<open>__validate\<close>, which accepts exactly the
  24-character strings that \<open>bytes.fromhex\<close> decodes. \<open>bytes.fromhex\<close> skips
  ASCII white space before each pair of digits, so a 24-character string with
  white space between pairs is accepted and gives fewer than twelve bytes (bson
  does not check the length of the result). The theory proves that printing
  then parsing is the identity, that parsing a string without white space then
  printing lowers the case of the input, that a string with white space parses
  to an identifier shorter than twelve bytes, and the nibble bounds of the byte
  printer.
\<close>

unbundle bit_operations_syntax

datatype oid = ObjectId "byte list"

primrec oid_binary :: "oid \<Rightarrow> byte list" where
  "oid_binary (ObjectId bs) = bs"

definition valid_oid :: "oid \<Rightarrow> bool" where
  "valid_oid oi \<longleftrightarrow> length (oid_binary oi) = 12"

subsection \<open>Printing: \<open>binascii.hexlify\<close>\<close>

text \<open>CPython's \<open>Py_hexdigits\<close> table, indexed by the high and the low nibble.\<close>

definition hexdigits :: string where
  "hexdigits = ''0123456789abcdef''"

definition hexlify_byte :: "byte \<Rightarrow> string" where
  "hexlify_byte b = [hexdigits ! unat (drop_bit 4 b), hexdigits ! unat (b AND 15)]"

definition objectid_str :: "oid \<Rightarrow> string" where
  "objectid_str oi = concat (map hexlify_byte (oid_binary oi))"

subsection \<open>Parsing: \<open>ObjectId(str)\<close>\<close>

text \<open>
  \<open>bytes.fromhex\<close> (\<open>_PyBytes_FromHex\<close>): digit values of \<open>0-9\<close>,
  \<open>a-f\<close> and \<open>A-F\<close>, two adjacent digits per byte, ASCII white space
  (\<open>Py_ISSPACE\<close>) skipped before each pair.
\<close>

definition is_hex_space :: "char \<Rightarrow> bool" where
  "is_hex_space c \<longleftrightarrow> (of_char c :: nat) \<in> {9..13} \<union> {32}"

definition hex_val :: "char \<Rightarrow> nat option" where
  "hex_val c =
     (let n = of_char c :: nat in
      if 48 \<le> n \<and> n \<le> 57 then Some (n - 48)
      else if 97 \<le> n \<and> n \<le> 102 then Some (n - 87)
      else if 65 \<le> n \<and> n \<le> 70 then Some (n - 55)
      else None)"

fun fromhex :: "string \<Rightarrow> byte list option" where
  "fromhex [] = Some []"
| "fromhex [c] = (if is_hex_space c then Some [] else None)"
| "fromhex (c1 # c2 # cs) =
     (if is_hex_space c1 then fromhex (c2 # cs)
      else
        (case (hex_val c1, hex_val c2) of
           (Some hi, Some lo) \<Rightarrow> map_option (\<lambda>bs. of_nat (16 * hi + lo) # bs) (fromhex cs)
         | _ \<Rightarrow> None))"

text \<open>
  \<open>ObjectId.__validate\<close> on a \<open>str\<close>: a length other than 24, or a string
  \<open>bytes.fromhex\<close> rejects, raises \<open>InvalidId\<close> (here \<open>None\<close>).
\<close>

definition objectid_of_str :: "string \<Rightarrow> oid option" where
  "objectid_of_str s = (if length s = 24 then map_option ObjectId (fromhex s) else None)"

subsection \<open>Nibbles\<close>

lemma unat_high_nibble: "unat (drop_bit 4 (b :: byte)) = unat b div 16"
  unfolding unat_drop_bit_eq by (simp add: drop_bit_eq_div)

lemma unat_low_nibble: "unat ((b :: byte) AND 15) = unat b mod 16"
proof -
  have "(15::nat) = mask 4" by (simp add: mask_eq_exp_minus_1)
  then have "unat b AND 15 = take_bit 4 (unat b)" by (simp add: take_bit_eq_mask)
  then show ?thesis by (simp add: unsigned_and_eq take_bit_eq_mod)
qed

lemma nibbles_bounded: "unat (drop_bit 4 (b :: byte)) < 16 \<and> unat (b AND 15) < 16"
proof -
  have "unat b < 256" using unsigned_less [of b] by simp
  then show ?thesis by (simp add: unat_high_nibble unat_low_nibble)
qed

lemma hexdigits_table: "\<forall>n < 16. hex_val (hexdigits ! n) = Some n"
  by (simp add: hexdigits_def hex_val_def less_Suc_eq numeral_eq_Suc)

lemma hex_val_hexdigits [simp]: "n < 16 \<Longrightarrow> hex_val (hexdigits ! n) = Some n"
  using hexdigits_table by blast

lemma hex_val_bound: "hex_val c = Some n \<Longrightarrow> n < 16"
  by (auto simp: hex_val_def Let_def split: if_splits)

lemma hex_val_not_space: "hex_val c = Some n \<Longrightarrow> \<not> is_hex_space c"
  by (auto simp: hex_val_def is_hex_space_def Let_def split: if_splits)

lemma hexdigits_not_space [simp]: "n < 16 \<Longrightarrow> \<not> is_hex_space (hexdigits ! n)"
  using hex_val_hexdigits hex_val_not_space by blast

lemma fromhex_hexlify_byte:
  "fromhex (hexlify_byte b @ cs) = map_option (\<lambda>bs. b # bs) (fromhex cs)"
proof -
  have "of_nat (16 * (unat b div 16) + unat b mod 16) = b" by simp
  with nibbles_bounded [of b] show ?thesis
    by (simp add: hexlify_byte_def unat_high_nibble unat_low_nibble)
qed

lemma hexlify_no_space: "c \<in> set (concat (map hexlify_byte bs)) \<Longrightarrow> \<not> is_hex_space c"
  using nibbles_bounded by (auto simp: hexlify_byte_def)

lemma fromhex_concat_hexlify: "fromhex (concat (map hexlify_byte bs)) = Some bs"
  by (induction bs) (simp_all add: fromhex_hexlify_byte)

lemma length_hexlify: "length (concat (map hexlify_byte bs)) = 2 * length bs"
  by (induction bs) (simp_all add: hexlify_byte_def)

lemma length_objectid_str: "length (objectid_str oi) = 2 * length (oid_binary oi)"
  by (simp add: objectid_str_def length_hexlify)

lemma of_char_hexdigits_table:
  "\<forall>n < 16. of_char (hexdigits ! n) = (if n < 10 then 48 + n else 87 + n :: nat)"
  by (simp add: hexdigits_def less_Suc_eq numeral_eq_Suc)

lemma of_char_ascii_lower:
  "(of_char (ascii_lower c) :: nat) =
     (if 65 \<le> (of_char c :: nat) \<and> (of_char c :: nat) \<le> 90 then of_char c + 32 else of_char c)"
  by (simp add: ascii_lower_def Let_def)

text \<open>A digit \<open>bytes.fromhex\<close> accepts is printed back by \<open>hexlify\<close> in lower case.\<close>

lemma hexdigits_hex_val: "hex_val c = Some n \<Longrightarrow> hexdigits ! n = ascii_lower c"
proof (rule of_char_eqI)
  assume h: "hex_val c = Some n"
  then have "n < 16" by (rule hex_val_bound)
  with of_char_hexdigits_table
  have "of_char (hexdigits ! n) = (if n < 10 then 48 + n else 87 + n :: nat)"
    by blast
  with h show "(of_char (hexdigits ! n) :: nat) = of_char (ascii_lower c)"
    by (auto simp: hex_val_def Let_def of_char_ascii_lower split: if_splits)
qed

lemma fromhex_lower:
  "fromhex s = Some bs \<Longrightarrow> \<forall>c\<in>set s. \<not> is_hex_space c \<Longrightarrow>
   concat (map hexlify_byte bs) = map ascii_lower s"
proof (induction s arbitrary: bs rule: fromhex.induct)
  case 1
  then show ?case by simp
next
  case (2 c)
  then show ?case by simp
next
  case (3 c1 c2 cs)
  from "3.prems" obtain hi lo rest where h1: "hex_val c1 = Some hi" and h2: "hex_val c2 = Some lo"
    and r: "fromhex cs = Some rest" and bs: "bs = of_nat (16 * hi + lo) # rest"
    by (auto split: option.splits)
  have ns: "\<forall>c\<in>set cs. \<not> is_hex_space c" using "3.prems"(2) by simp
  from h1 h2 have b: "hi < 16" "lo < 16" by (auto dest: hex_val_bound)
  define w :: byte where "w = of_nat (16 * hi + lo)"
  have u: "unat w = 16 * hi + lo"
    using b by (intro of_nat_inverse [OF w_def [symmetric]]) simp
  have "hexlify_byte w = [ascii_lower c1, ascii_lower c2]"
    using u b h1 h2
    by (simp add: hexlify_byte_def unat_high_nibble unat_low_nibble hexdigits_hex_val)
  with "3.IH"(2) [OF _ refl h1 h2 r ns] bs "3.prems"(2) show ?case by (simp add: w_def)
qed

lemma fromhex_length:
  "fromhex s = Some bs \<Longrightarrow> length s = 2 * length bs + length (filter is_hex_space s)"
  by (induction s arbitrary: bs rule: fromhex.induct)
     (auto split: option.splits if_splits dest: hex_val_not_space)

lemma set_hexlify: "set (concat (map hexlify_byte bs)) \<subseteq> set hexdigits"
proof -
  have "\<And>b. set (hexlify_byte b) \<subseteq> set hexdigits"
  proof -
    fix b
    have "length hexdigits = 16" by (simp add: hexdigits_def)
    with nibbles_bounded [of b] show "set (hexlify_byte b) \<subseteq> set hexdigits"
      by (simp add: hexlify_byte_def)
  qed
  then show ?thesis by auto
qed

subsection \<open>Round trips\<close>

text \<open>
  Printing a twelve-byte identifier with \<open>str\<close> and parsing the result with
  \<open>ObjectId(...)\<close>, as the handlers do with the id of a created record, gives
  back the same identifier.
\<close>

theorem objectid_roundtrip:
  "valid_oid oi \<Longrightarrow> objectid_of_str (objectid_str oi) = Some oi"
proof -
  assume "valid_oid oi"
  then have "length (objectid_str oi) = 24"
    by (simp add: valid_oid_def length_objectid_str)
  then show ?thesis
    by (cases oi) (simp add: objectid_of_str_def objectid_str_def fromhex_concat_hexlify)
qed

theorem objectid_roundtrip_witness:
  "valid_oid (ObjectId [0x65, 0x4a, 0x1f, 0, 0xff, 0x10, 9, 0xab, 0xcd, 0xef, 1, 2]) \<and>
   objectid_of_str (objectid_str (ObjectId [0x65, 0x4a, 0x1f, 0, 0xff, 0x10, 9, 0xab, 0xcd, 0xef, 1, 2]))
     = Some (ObjectId [0x65, 0x4a, 0x1f, 0, 0xff, 0x10, 9, 0xab, 0xcd, 0xef, 1, 2])"
  using objectid_roundtrip [of "ObjectId [0x65, 0x4a, 0x1f, 0, 0xff, 0x10, 9, 0xab, 0xcd, 0xef, 1, 2]"]
  by (simp add: valid_oid_def)

text \<open>
  Every string without white space that \<open>ObjectId(...)\<close> accepts is a
  24-digit hexadecimal spelling of a twelve-byte identifier, and \<open>str\<close> of
  that identifier is the input in lower case: an id given in upper case names
  the same record. A string with white space between the pairs is accepted too,
  but gives an identifier shorter than twelve bytes, which names no stored
  record.
\<close>

lemma objectid_parse_lowers:
  "objectid_of_str s = Some oi \<Longrightarrow> \<forall>c\<in>set s. \<not> is_hex_space c \<Longrightarrow>
   valid_oid oi \<and> objectid_str oi = map ascii_lower s"
proof -
  assume h: "objectid_of_str s = Some oi" and ns: "\<forall>c\<in>set s. \<not> is_hex_space c"
  then obtain bs where l: "length s = 24" and f: "fromhex s = Some bs" and oi: "oi = ObjectId bs"
    by (auto simp: objectid_of_str_def split: if_splits)
  have "filter is_hex_space s = []" using ns by (simp add: filter_empty_conv)
  with f l have "length bs = 12" by (auto dest: fromhex_length)
  with f oi ns show ?thesis by (simp add: valid_oid_def objectid_str_def fromhex_lower)
qed

lemma objectid_parse_spaced:
  "objectid_of_str s = Some oi \<Longrightarrow> \<exists>c\<in>set s. is_hex_space c \<Longrightarrow> \<not> valid_oid oi"
proof -
  assume h: "objectid_of_str s = Some oi" and sp: "\<exists>c\<in>set s. is_hex_space c"
  then obtain bs where l: "length s = 24" and f: "fromhex s = Some bs" and oi: "oi = ObjectId bs"
    by (auto simp: objectid_of_str_def split: if_splits)
  have "filter is_hex_space s \<noteq> []" using sp by (simp add: filter_empty_conv)
  then have "0 < length (filter is_hex_space s)" by simp
  moreover have "length s = 2 * length bs + length (filter is_hex_space s)" by (rule fromhex_length [OF f])
  ultimately have "length bs \<noteq> 12" using l by linarith
  with oi show ?thesis by (simp add: valid_oid_def)
qed

text \<open>
  \<open>str\<close> of a valid identifier is exactly 24 characters, all from the
  lowercase hexadecimal table: each byte is split into two nibbles below 16.
\<close>

theorem objectid_str_shape:
  "valid_oid oi \<Longrightarrow> length (objectid_str oi) = 24 \<and> set (objectid_str oi) \<subseteq> set hexdigits"
  using set_hexlify [of "oid_binary oi"] length_objectid_str [of oi]
  by (simp add: valid_oid_def objectid_str_def)

theorem objectid_str_shape_witness:
  "valid_oid (ObjectId (replicate 12 0xff)) \<and> length (objectid_str (ObjectId (replicate 12 0xff))) = 24 \<and>
   set (objectid_str (ObjectId (replicate 12 0xff))) \<subseteq> set hexdigits"
  using objectid_str_shape [of "ObjectId (replicate 12 0xff)"] by (simp add: valid_oid_def)

end
