(* ===== verification/Dates.thy ===== *)
theory Dates
  imports Prelude
begin

text \<open>
  Calendar dates as the service handles them: Python's \<open>datetime.date\<close> (the
  type of \<open>date_of_birth\<close> and \<open>date_of_expiration\<close> in schemas.py), its
  \<open>isoformat()\<close> (called by \<open>convert_dates_to_string\<close> in main.py and by
  FastAPI's \<open>jsonable_encoder\<close>), and pydantic's \<open>parse_date\<close> on a JSON
  string (the regular expression \<open>(\d{4})-(\d{1,2})-(\d{1,2})$\<close> followed by
  the \<open>date(...)\<close> constructor's range check). The theory proves that a valid
  date printed by \<open>isoformat\<close> is parsed back to itself and that the parser only
  yields valid dates.
\<close>

record pydate =
  year :: nat
  month :: nat
  day :: nat

subsection \<open>The \<open>date\<close> constructor's checks\<close>

definition is_leap :: "nat \<Rightarrow> bool" where
  "is_leap y \<longleftrightarrow> y mod 4 = 0 \<and> (y mod 100 \<noteq> 0 \<or> y mod 400 = 0)"

definition days_in_month :: "nat \<Rightarrow> nat \<Rightarrow> nat" where
  "days_in_month y m =
     (if m = 2 \<and> is_leap y then 29
      else [0, 31, 28, 31, 30, 31, 30, 31, 31, 30, 31, 30, 31] ! m)"

text \<open>\<open>datetime._check_date_fields\<close>: \<open>MINYEAR = 1\<close>, \<open>MAXYEAR = 9999\<close>.\<close>

definition valid_date :: "pydate \<Rightarrow> bool" where
  "valid_date d \<longleftrightarrow>
     1 \<le> year d \<and> year d \<le> 9999 \<and> 1 \<le> month d \<and> month d \<le> 12 \<and>
     1 \<le> day d \<and> day d \<le> days_in_month (year d) (month d)"

subsection \<open>\<open>date.isoformat()\<close>: \<open>"%04d-%02d-%02d"\<close>\<close>

definition digit_char :: "nat \<Rightarrow> char" where
  "digit_char n = ''0123456789'' ! n"

fun decimal :: "nat \<Rightarrow> string" where
  "decimal n = (if n < 10 then [digit_char n] else decimal (n div 10) @ [digit_char (n mod 10)])"

declare decimal.simps [simp del]

definition zero_pad :: "nat \<Rightarrow> string \<Rightarrow> string" where
  "zero_pad w s = replicate (w - length s) (CHR ''0'') @ s"

definition isoformat :: "pydate \<Rightarrow> string" where
  "isoformat d =
     zero_pad 4 (decimal (year d)) @ ''-'' @ zero_pad 2 (decimal (month d)) @ ''-'' @
     zero_pad 2 (decimal (day d))"

subsection \<open>pydantic's \<open>parse_date\<close> on a string\<close>

definition is_digit :: "char \<Rightarrow> bool" where
  "is_digit c \<longleftrightarrow> 48 \<le> (of_char c :: nat) \<and> (of_char c :: nat) \<le> 57"

text \<open>\<open>int()\<close> of a run of ASCII digits.\<close>

definition digits_val :: "string \<Rightarrow> nat" where
  "digits_val s = foldl (\<lambda>acc c. 10 * acc + (of_char c - 48)) 0 s"

text \<open>
  \<open>date_re.match(value)\<close>: four digits, a dash, one or two digits, a dash, one
  or two digits, then the end of the string or a final newline (what \<open>$\<close>
  accepts). Since each \<open>\d{1,2}\<close> is followed by a character that is not a
  digit, the match is the whole digit run, which \<open>span\<close> computes.
\<close>

definition date_re_match :: "string \<Rightarrow> (string \<times> string \<times> string) option" where
  "date_re_match s =
     (let y = take 4 s; r1 = drop 4 s in
      if length y = 4 \<and> list_all is_digit y \<and> r1 \<noteq> [] \<and> hd r1 = CHR ''-'' then
        (let (m, r2) = (takeWhile is_digit (tl r1), dropWhile is_digit (tl r1)) in
         if 1 \<le> length m \<and> length m \<le> 2 \<and> r2 \<noteq> [] \<and> hd r2 = CHR ''-'' then
           (let (dd, r3) = (takeWhile is_digit (tl r2), dropWhile is_digit (tl r2)) in
            if 1 \<le> length dd \<and> length dd \<le> 2 \<and> (r3 = [] \<or> r3 = [CHR 10]) then Some (y, m, dd)
            else None)
         else None)
      else None)"

text \<open>
  \<open>parse_date\<close>: the match, \<open>int()\<close> of each group, and \<open>date(**kw)\<close>, whose
  \<open>ValueError\<close> pydantic turns into a validation error (\<open>None\<close> here).
\<close>

definition parse_date_str :: "string \<Rightarrow> pydate option" where
  "parse_date_str s =
     (case date_re_match s of
        None \<Rightarrow> None
      | Some (y, m, dd) \<Rightarrow>
          (let d = \<lparr>year = digits_val y, month = digits_val m, day = digits_val dd\<rparr> in
           if valid_date d then Some d else None))"

subsection \<open>Digits\<close>

lemma of_char_digit_table: "\<forall>n < 10. (of_char (digit_char n) :: nat) = 48 + n"
  by (simp add: digit_char_def less_Suc_eq numeral_eq_Suc)

lemma is_digit_digit_char [simp]: "n < 10 \<Longrightarrow> is_digit (digit_char n)"
  using of_char_digit_table by (simp add: is_digit_def)

lemma digit_char_val [simp]: "n < 10 \<Longrightarrow> (of_char (digit_char n) :: nat) - 48 = n"
  using of_char_digit_table by simp

lemma not_digit_dash [simp]: "\<not> is_digit CHR ''-''"
  by (simp add: is_digit_def)

lemma not_digit_newline [simp]: "\<not> is_digit (CHR 10)"
  by (simp add: is_digit_def)

lemma decimal_digits: "list_all is_digit (decimal n)"
  by (induction n rule: decimal.induct) (subst decimal.simps; simp)

lemma digits_val_snoc [simp]:
  "digits_val (s @ [c]) = 10 * digits_val s + (of_char c - 48)"
  by (simp add: digits_val_def)

lemma digits_val_decimal: "digits_val (decimal n) = n"
proof (induction n rule: decimal.induct)
  case (1 n)
  show ?case
  proof (cases "n < 10")
    case True
    then show ?thesis by (subst decimal.simps) (simp add: digits_val_def)
  next
    case False
    with "1.IH" show ?thesis by (subst decimal.simps) simp
  qed
qed

lemma decimal_nonempty: "decimal n \<noteq> []"
  by (subst decimal.simps) simp

lemma length_decimal: "n < 10 ^ w \<Longrightarrow> 1 \<le> w \<Longrightarrow> length (decimal n) \<le> w"
proof (induction n arbitrary: w rule: decimal.induct)
  case (1 n)
  show ?case
  proof (cases "n < 10")
    case True
    with "1.prems" show ?thesis by (subst decimal.simps) simp
  next
    case False
    then obtain w' where w: "w = Suc w'" using "1.prems" by (cases w) auto
    have "10 ^ 1 \<le> n" using False by simp
    with "1.prems" w have "1 \<le> w'" by (cases w') auto
    moreover have "n div 10 < 10 ^ w'" using "1.prems" w by (simp add: div_less_iff_less_mult mult.commute)
    ultimately have "length (decimal (n div 10)) \<le> w'" using "1.IH" False by blast
    with False w show ?thesis by (subst decimal.simps) simp
  qed
qed

lemma digits_val_zeros: "foldl (\<lambda>acc c. 10 * acc + (of_char c - 48)) 0 (replicate k (CHR ''0'')) = (0::nat)"
  by (induction k) simp_all

lemma digits_val_zero_pad [simp]: "digits_val (zero_pad w s) = digits_val s"
  by (simp add: zero_pad_def digits_val_def digits_val_zeros)

lemma zero_pad_digits: "list_all is_digit s \<Longrightarrow> list_all is_digit (zero_pad w s)"
  by (auto simp: zero_pad_def is_digit_def list_all_iff set_replicate_conv_if)

lemma length_zero_pad: "length s \<le> w \<Longrightarrow> length (zero_pad w s) = w"
  by (simp add: zero_pad_def)

lemma padded_field:
  assumes "1 \<le> w" and "n < 10 ^ w"
  shows "length (zero_pad w (decimal n)) = w \<and> list_all is_digit (zero_pad w (decimal n)) \<and>
         digits_val (zero_pad w (decimal n)) = n"
  using assms length_decimal [OF assms(2,1)]
  by (simp add: length_zero_pad zero_pad_digits decimal_digits digits_val_decimal)


lemma days_in_month_le: "m \<le> 12 \<Longrightarrow> days_in_month y m \<le> 31"
proof -
  have "\<forall>m < 13. [0, 31, 28, 31, 30, 31, 30, 31, 31, 30, 31, 30, 31] ! m \<le> (31::nat)"
    by (simp add: less_Suc_eq numeral_eq_Suc)
  then show "m \<le> 12 \<Longrightarrow> ?thesis" by (simp add: days_in_month_def)
qed

subsection \<open>The regular expression on a printed date\<close>

lemma span_digits_stop:
  "list_all is_digit xs \<Longrightarrow> \<not> is_digit c \<Longrightarrow>
   takeWhile is_digit (xs @ c # ys) = xs \<and> dropWhile is_digit (xs @ c # ys) = c # ys"
  by (induction xs) auto

lemma span_digits_end:
  "list_all is_digit xs \<Longrightarrow> takeWhile is_digit xs = xs \<and> dropWhile is_digit xs = []"
  by (induction xs) auto

lemma date_re_match_fields:
  assumes y: "length Y = 4" "list_all is_digit Y"
    and m: "1 \<le> length M" "length M \<le> 2" "list_all is_digit M"
    and d: "1 \<le> length D" "length D \<le> 2" "list_all is_digit D"
  shows "date_re_match (Y @ ''-'' @ M @ ''-'' @ D) = Some (Y, M, D)"
proof -
  from span_digits_stop [OF m(3) not_digit_dash]
  have t: "takeWhile is_digit (M @ ''-'' @ D) = M" "dropWhile is_digit (M @ ''-'' @ D) = ''-'' @ D"
    by simp_all
  from span_digits_end [OF d(3)]
  have e: "takeWhile is_digit D = D" "dropWhile is_digit D = []" by simp_all
  have t': "takeWhile is_digit (M @ CHR ''-'' # D) = M" "dropWhile is_digit (M @ CHR ''-'' # D) = CHR ''-'' # D"
    using t by simp_all
  show ?thesis using y m d by (simp add: date_re_match_def Let_def t' e)
qed

subsection \<open>Round trip\<close>

text \<open>
  A valid date written by \<open>isoformat\<close> (as \<open>convert_dates_to_string\<close> and
  \<open>jsonable_encoder\<close> store it) is read back by pydantic's date parser as the
  same date, so the dates a client sends survive storage unchanged.
\<close>

theorem isoformat_roundtrip: "valid_date d \<Longrightarrow> parse_date_str (isoformat d) = Some d"
proof -
  assume v: "valid_date d"
  then have dm: "days_in_month (year d) (month d) \<le> 31"
    by (simp add: valid_date_def days_in_month_le)
  have yy: "length (zero_pad 4 (decimal (year d))) = 4 \<and> list_all is_digit (zero_pad 4 (decimal (year d))) \<and>
         digits_val (zero_pad 4 (decimal (year d))) = year d"
    using v by (intro padded_field) (auto simp: valid_date_def)
  have mm: "length (zero_pad 2 (decimal (month d))) = 2 \<and> list_all is_digit (zero_pad 2 (decimal (month d))) \<and>
         digits_val (zero_pad 2 (decimal (month d))) = month d"
    using v by (intro padded_field) (auto simp: valid_date_def)
  have dd: "length (zero_pad 2 (decimal (day d))) = 2 \<and> list_all is_digit (zero_pad 2 (decimal (day d))) \<and>
         digits_val (zero_pad 2 (decimal (day d))) = day d"
    using v dm by (intro padded_field) (auto simp: valid_date_def)
  have "date_re_match (isoformat d) =
          Some (zero_pad 4 (decimal (year d)), zero_pad 2 (decimal (month d)), zero_pad 2 (decimal (day d)))"
    unfolding isoformat_def using yy mm dd by (intro date_re_match_fields) simp_all
  with v show ?thesis by (cases d) (simp add: parse_date_str_def digits_val_decimal)
qed

theorem isoformat_roundtrip_witness:
  "valid_date \<lparr>year = 2024, month = 2, day = 29\<rparr> \<and>
   parse_date_str (isoformat \<lparr>year = 2024, month = 2, day = 29\<rparr>) = Some \<lparr>year = 2024, month = 2, day = 29\<rparr>"
proof -
  have v: "valid_date \<lparr>year = 2024, month = 2, day = 29\<rparr>"
    by (simp add: valid_date_def days_in_month_def is_leap_def)
  show ?thesis using v isoformat_roundtrip [OF v] by simp
qed

lemma parse_date_str_valid: "parse_date_str s = Some d \<Longrightarrow> valid_date d"
  by (auto simp: parse_date_str_def Let_def split: option.splits if_splits)

end
