(* ===== verification/Values.thy ===== *)
theory Values
  imports ObjectId Dates
begin

text \<open>
  The Python values the service moves between the request, the handlers and the
  store, and the exceptions its handlers can meet. A stored document and the
  dicts the handlers build hold strings, \<open>None\<close>, dates and ObjectIds only;
  \<open>py_str\<close> is Python's \<open>str()\<close> on them, and \<open>exc_str\<close> is \<open>str(e)\<close> on
  the exceptions, which main.py copies into the detail of its HTTP 500 answers.
\<close>

datatype pyval = PNone | PStr string | PDate pydate | POid oid

text \<open>A BSON document as the driver returns it, and a Python dict built by a handler.\<close>

type_synonym doc = "string \<rightharpoonup> pyval"
type_synonym pydict = "(string \<times> pyval) list"

fun py_str :: "pyval \<Rightarrow> string" where
  "py_str PNone = ''None''"
| "py_str (PStr s) = s"
| "py_str (PDate d) = isoformat d"
| "py_str (POid oi) = objectid_str oi"

text \<open>
  The exceptions: FastAPI's \<open>HTTPException\<close>, Python's \<open>KeyError\<close> (a
  subscript of a missing document field), bson's \<open>InvalidId\<close> (from
  \<open>ObjectId(id)\<close>), and the driver's errors (server unreachable, duplicate
  key, a write the server refuses), which carry the server's message.
\<close>

datatype exc =
    HTTPException nat string
  | KeyError string
  | InvalidId string
  | StoreError string

text \<open>
  Python's \<open>repr\<close> of a \<open>str\<close> (\<open>unicode_repr\<close>) on Latin-1: single quotes,
  or double quotes when the string holds a single quote and no double quote;
  a backslash and the chosen quote escaped; tab, newline and return as
  \<open>\t\<close>, \<open>\n\<close>, \<open>\r\<close>; every other character that is not printable
  (the C0 and C1 controls, DEL, the no-break space and the soft hyphen) as
  \<open>\xhh\<close>.
\<close>

definition repr_quote :: "string \<Rightarrow> char" where
  "repr_quote s = (if CHR 39 \<in> set s \<and> CHR 34 \<notin> set s then CHR 34 else CHR 39)"

definition repr_char :: "char \<Rightarrow> char \<Rightarrow> string" where
  "repr_char q c =
     (let n = of_char c :: nat in
      if c = q \<or> c = CHR 92 then [CHR 92, c]
      else if n = 9 then [CHR 92, CHR ''t'']
      else if n = 10 then [CHR 92, CHR ''n'']
      else if n = 13 then [CHR 92, CHR ''r'']
      else if n < 32 \<or> (127 \<le> n \<and> n \<le> 160) \<or> n = 173
      then [CHR 92, CHR ''x'', hexdigits ! (n div 16), hexdigits ! (n mod 16)]
      else [c])"

definition py_repr :: "string \<Rightarrow> string" where
  "py_repr s = (let q = repr_quote s in q # concat (map (repr_char q) s) @ [q])"

text \<open>
  \<open>str(e)\<close>: starlette's \<open>HTTPException.__str__\<close> is
  \<open>f"{status_code}: {detail}"\<close>; \<open>str\<close> of a \<open>KeyError\<close> is the \<open>repr\<close>
  of the key; bson raises \<open>InvalidId("%r is not a valid ObjectId, ..." % oid)\<close>.
\<close>

fun exc_str :: "exc \<Rightarrow> string" where
  "exc_str (HTTPException code detail) = decimal code @ '': '' @ detail"
| "exc_str (KeyError k) = py_repr k"
| "exc_str (InvalidId s) =
     py_repr s @ '' is not a valid ObjectId, it must be a 12-byte input or a 24-character hex string''"
| "exc_str (StoreError msg) = msg"

end
