(* ===== verification/DocStore.thy ===== *)
theory DocStore
  imports Values
begin

text \<open>
  The record store: database.py opens one MongoDB collection,
  \<open>passenger_collection\<close>, through Motor, and main.py calls four of its
  methods. The collection is a map from \<open>_id\<close> values to documents, plus
  whether the server can be reached (every call raises when it cannot). Each
  method is one atomic step on that state, with the server's semantics:
  \<open>insert_one\<close> adds \<open>_id\<close> when the document has none and refuses a
  duplicate key, \<open>find_one\<close> reads by \<open>_id\<close>, \<open>update_one\<close> with
  \<open>$set\<close> overwrites the given fields and reports a field as modified only if
  its value changes, \<open>delete_one\<close> removes and counts. The lemmas give each
  method's effect and prove that the modified count is 1 exactly when the
  document changes.
\<close>

record collection =
  docs :: "pyval \<rightharpoonup> doc"
  online :: bool

record update_result =
  matched_count :: nat
  modified_count :: nat

definition server_down :: exc where
  "server_down = StoreError ''ServerSelectionTimeoutError''"

subsection \<open>The collection methods\<close>

text \<open>
  \<open>insert_one(document)\<close>: the driver sets \<open>document["_id"] = ObjectId()\<close>
  when the key is absent; \<open>fresh\<close> is that generated identifier.
\<close>

definition insert_one :: "oid \<Rightarrow> pydict \<Rightarrow> collection \<Rightarrow> exc + (pyval \<times> collection)" where
  "insert_one fresh d c =
     (let k = (case map_of d ''_id'' of Some v \<Rightarrow> v | None \<Rightarrow> POid fresh) in
      if \<not> online c then Inl server_down
      else if k \<in> dom (docs c) then Inl (StoreError ''E11000 duplicate key error'')
      else Inr (k, c\<lparr>docs := (docs c)(k \<mapsto> (map_of d)(''_id'' \<mapsto> k))\<rparr>))"

definition find_one :: "pyval \<Rightarrow> collection \<Rightarrow> exc + doc option" where
  "find_one k c = (if \<not> online c then Inl server_down else Inr (docs c k))"

text \<open>\<open>{"$set": payload}\<close> applied to one document, field by field in order.\<close>

definition set_fields :: "doc \<Rightarrow> pydict \<Rightarrow> doc" where
  "set_fields d payload = fold (\<lambda>(f, v) d'. d'(f \<mapsto> v)) payload d"

text \<open>The server counts a document as modified when some \<open>$set\<close> field changes its value.\<close>

definition set_changes :: "doc \<Rightarrow> pydict \<Rightarrow> bool" where
  "set_changes d payload = list_ex (\<lambda>(f, v). d f \<noteq> Some v) payload"

definition update_one :: "pyval \<Rightarrow> pydict \<Rightarrow> collection \<Rightarrow> exc + (update_result \<times> collection)" where
  "update_one k payload c =
     (if \<not> online c then Inl server_down
      else case docs c k of
        None \<Rightarrow> Inr (\<lparr>matched_count = 0, modified_count = 0\<rparr>, c)
      | Some d \<Rightarrow>
          if list_ex (\<lambda>(f, v). f = ''_id'' \<and> d f \<noteq> Some v) payload
          then Inl (StoreError (''Performing an update on the path '' @ [CHR 39] @ ''_id'' @ [CHR 39] @
                                '' would modify the immutable field '' @ [CHR 39] @ ''_id'' @ [CHR 39]))
          else if set_changes d payload
          then Inr (\<lparr>matched_count = 1, modified_count = 1\<rparr>,
                    c\<lparr>docs := (docs c)(k \<mapsto> set_fields d payload)\<rparr>)
          else Inr (\<lparr>matched_count = 1, modified_count = 0\<rparr>, c))"

definition delete_one :: "pyval \<Rightarrow> collection \<Rightarrow> exc + (nat \<times> collection)" where
  "delete_one k c =
     (if \<not> online c then Inl server_down
      else case docs c k of
        None \<Rightarrow> Inr (0, c)
      | Some _ \<Rightarrow> Inr (1, c\<lparr>docs := (docs c)(k := None)\<rparr>))"

subsection \<open>Effects of the methods\<close>

lemma set_fields_lookup [store_simps]:
  "distinct (map fst p) \<Longrightarrow>
   set_fields d p f = (case map_of p f of Some v \<Rightarrow> Some v | None \<Rightarrow> d f)"
  unfolding set_fields_def by (rule fold_upd_map_of)

lemma set_changes_iff:
  assumes dist: "distinct (map fst p)"
  shows "set_changes d p \<longleftrightarrow> set_fields d p \<noteq> d"
proof
  assume "set_changes d p"
  then obtain f v where fv: "(f, v) \<in> set p" and ne: "d f \<noteq> Some v"
    by (auto simp: set_changes_def list_ex_iff)
  from dist fv have "map_of p f = Some v" by (rule map_of_is_SomeI)
  with dist ne have "set_fields d p f \<noteq> d f" by (simp add: set_fields_lookup)
  then show "set_fields d p \<noteq> d" by auto
next
  assume "set_fields d p \<noteq> d"
  then obtain f where ne: "set_fields d p f \<noteq> d f" by auto
  show "set_changes d p"
  proof (cases "map_of p f")
    case None
    with dist ne show ?thesis by (simp add: set_fields_lookup)
  next
    case (Some v)
    with dist ne have "d f \<noteq> Some v" by (simp add: set_fields_lookup)
    moreover from Some have "(f, v) \<in> set p" by (rule map_of_SomeD)
    ultimately show ?thesis by (auto simp: set_changes_def list_ex_iff)
  qed
qed

lemma find_one_online [store_simps]: "online c \<Longrightarrow> find_one k c = Inr (docs c k)"
  by (simp add: find_one_def)

lemma insert_one_online [store_simps]:
  "online c \<Longrightarrow> map_of d ''_id'' = None \<Longrightarrow> POid fresh \<notin> dom (docs c) \<Longrightarrow>
   insert_one fresh d c = Inr (POid fresh, c\<lparr>docs := (docs c)(POid fresh \<mapsto> (map_of d)(''_id'' \<mapsto> POid fresh))\<rparr>)"
  by (simp add: insert_one_def Let_def)

lemma delete_one_online [store_simps]:
  "online c \<Longrightarrow> delete_one k c = (case docs c k of None \<Rightarrow> Inr (0, c) | Some _ \<Rightarrow> Inr (1, c\<lparr>docs := (docs c)(k := None)\<rparr>))"
  by (simp add: delete_one_def)

lemma update_one_found [store_simps]:
  "online c \<Longrightarrow> docs c k = Some d \<Longrightarrow> \<not> list_ex (\<lambda>(f, v). f = ''_id'' \<and> d f \<noteq> Some v) p \<Longrightarrow>
   update_one k p c =
     (if set_changes d p then Inr (\<lparr>matched_count = 1, modified_count = 1\<rparr>, c\<lparr>docs := (docs c)(k \<mapsto> set_fields d p)\<rparr>)
      else Inr (\<lparr>matched_count = 1, modified_count = 0\<rparr>, c))"
  by (simp add: update_one_def)

lemma update_one_missing [store_simps]:
  "online c \<Longrightarrow> docs c k = None \<Longrightarrow> update_one k p c = Inr (\<lparr>matched_count = 0, modified_count = 0\<rparr>, c)"
  by (simp add: update_one_def)

lemma store_offline [store_simps]:
  "\<not> online c \<Longrightarrow> find_one k c = Inl server_down \<and> update_one k p c = Inl server_down \<and>
     delete_one k c = Inl server_down \<and> insert_one fresh d c = Inl server_down"
  by (simp add: find_one_def update_one_def delete_one_def insert_one_def Let_def)

lemma store_keeps_online:
  "insert_one fresh d c = Inr (k, c') \<Longrightarrow> online c' = online c"
  "update_one k p c = Inr (r, c') \<Longrightarrow> online c' = online c"
  "delete_one k c = Inr (n, c') \<Longrightarrow> online c' = online c"
  by (auto simp: insert_one_def update_one_def delete_one_def Let_def split: if_splits option.splits)

end
