(* ===== verification/Numbers.thy ===== *)
theory Numbers
  imports Dates
begin

text \<open>
  Numbers where pydantic v1 meets them in this service. A \<open>str\<close> field given
  a JSON integer or boolean stores its Python \<open>str()\<close>
  (\<open>str_validator\<close>). A \<open>date\<close> field is read by \<open>parse_date\<close>, which
  first tries \<open>get_numeric\<close>: a JSON number, or a string that Python's
  \<open>float()\<close> accepts, is taken as a Unix timestamp by
  \<open>from_unix_seconds\<close> (beyond \<open>MAX_NUMBER\<close> the extreme datetimes; above
  \<open>MS_WATERSHED\<close> divided by 1000 until it is not; then
  \<open>EPOCH + timedelta(seconds=...)\<close>, rounded to microseconds half to even);
  only a string \<open>float()\<close> refuses goes to the regular expression of
  Dates.thy. A literal's value is kept exact (\<open>n / d\<close>), not rounded to the
  nearest double.
\<close>

subsection \<open>\<open>str()\<close> of an integer\<close>

definition int_str :: "int \<Rightarrow> string" where
  "int_str i = (if i < 0 then CHR ''-'' # decimal (nat (- i)) else decimal (nat i))"

definition bool_str :: "bool \<Rightarrow> string" where
  "bool_str b = (if b then ''True'' else ''False'')"

subsection \<open>\<open>float()\<close> and \<open>int()\<close> of a string\<close>

text \<open>What \<open>float(s)\<close> returns: a finite value \<open>n / d\<close>, an infinity (its sign), or NaN.\<close>

datatype pyfloat = Finite int nat | Inf bool | NaN

text \<open>
  \<open>_Py_string_to_number_with_underscores\<close>: an underscore is allowed only
  between two digits, and is then dropped.
\<close>

definition underscores_ok :: "string \<Rightarrow> bool" where
  "underscores_ok s =
     list_all (\<lambda>i. s ! i = CHR ''_'' \<longrightarrow>
                   0 < i \<and> i + 1 < length s \<and> is_digit (s ! (i - 1)) \<and> is_digit (s ! (i + 1)))
       [0..<length s]"

definition sign_split :: "string \<Rightarrow> bool \<times> string" where
  "sign_split s =
     (case s of
        c # r \<Rightarrow> if c = CHR ''-'' then (True, r) else if c = CHR ''+'' then (False, r) else (False, s)
      | [] \<Rightarrow> (False, []))"

text \<open>An exponent part: empty, or \<open>e\<close>/\<open>E\<close>, an optional sign and digits.\<close>

definition exponent_part :: "string \<Rightarrow> int option" where
  "exponent_part r =
     (if r = [] then Some 0
      else if hd r = CHR ''e'' \<or> hd r = CHR ''E'' then
        (case sign_split (tl r) of
           (neg, ds) \<Rightarrow>
             if ds \<noteq> [] \<and> list_all is_digit ds
             then Some (if neg then - int (digits_val ds) else int (digits_val ds)) else None)
      else None)"

text \<open>\<open>int(s)\<close> in base 10: white space, a sign, digits (underscores between them).\<close>

definition py_int :: "string \<Rightarrow> int option" where
  "py_int s0 =
     (let s = py_strip s0 in
      if \<not> underscores_ok s then None
      else
        (case sign_split (filter (\<lambda>c. c \<noteq> CHR ''_'') s) of
           (neg, ds) \<Rightarrow>
             if ds \<noteq> [] \<and> list_all is_digit ds
             then Some (if neg then - int (digits_val ds) else int (digits_val ds)) else None))"

text \<open>\<open>N \<cdot> 10^e\<close> as a numerator and a denominator.\<close>

definition scale10 :: "nat \<Rightarrow> int \<Rightarrow> nat \<times> nat" where
  "scale10 n e = (if 0 \<le> e then (n * 10 ^ nat e, 1) else (n, 10 ^ nat (- e)))"

text \<open>
  \<open>_Py_dg_strtod\<close> on an unsigned decimal literal: digits, an optional
  fraction, an optional exponent, at least one digit before the exponent, and
  nothing after.
\<close>

definition decimal_literal :: "string \<Rightarrow> (nat \<times> nat) option" where
  "decimal_literal u =
     (let ip = takeWhile is_digit u; r1 = dropWhile is_digit u;
          (fp, r2) = (if r1 \<noteq> [] \<and> hd r1 = CHR ''.''
                      then (takeWhile is_digit (tl r1), dropWhile is_digit (tl r1)) else ([], r1))
      in if ip @ fp = [] then None
         else map_option (\<lambda>e. scale10 (digits_val (ip @ fp)) (e - int (length fp))) (exponent_part r2))"

text \<open>
  \<open>float(s)\<close> (\<open>PyFloat_FromString\<close>): surrounding white space is
  stripped, then a sign and \<open>inf\<close>, \<open>infinity\<close>, \<open>nan\<close> in any case, or a
  decimal literal.
\<close>

definition py_float :: "string \<Rightarrow> pyfloat option" where
  "py_float s0 =
     (let s = py_strip s0 in
      if \<not> underscores_ok s then None
      else
        (case sign_split (filter (\<lambda>c. c \<noteq> CHR ''_'') s) of
           (neg, u) \<Rightarrow>
             if map ascii_lower u = ''inf'' \<or> map ascii_lower u = ''infinity'' then Some (Inf (\<not> neg))
             else if map ascii_lower u = ''nan'' then Some NaN
             else map_option (\<lambda>(n, d). Finite (if neg then - int n else int n) d) (decimal_literal u)))"

subsection \<open>Days to a date\<close>

definition year_len :: "nat \<Rightarrow> nat" where
  "year_len y = (if is_leap y then 366 else 365)"

text \<open>The year and the 0-based day in it, \<open>k\<close> days after 1 January of \<open>y\<close>.\<close>

function ymd_fwd :: "nat \<Rightarrow> nat \<Rightarrow> nat \<times> nat" where
  "ymd_fwd y k = (if k < year_len y then (y, k) else ymd_fwd (Suc y) (k - year_len y))"
  by pat_completeness auto
termination
  by (relation "measure snd") (auto simp: year_len_def)

text \<open>The year and the 0-based day in it, \<open>k \<ge> 1\<close> days before 1 January of \<open>y + 1\<close>.\<close>

function ymd_bwd :: "nat \<Rightarrow> nat \<Rightarrow> nat \<times> nat" where
  "ymd_bwd y k = (if k \<le> year_len y then (y, year_len y - k) else ymd_bwd (y - 1) (k - year_len y))"
  by pat_completeness auto
termination
  by (relation "measure snd") (auto simp: year_len_def)

text \<open>Month and day of month of the 0-based day \<open>k\<close> of year \<open>y\<close>, from month \<open>m\<close> on.\<close>

function month_day :: "nat \<Rightarrow> nat \<Rightarrow> nat \<Rightarrow> nat \<times> nat" where
  "month_day y m k =
     (if m < 12 \<and> days_in_month y m \<le> k then month_day y (Suc m) (k - days_in_month y m) else (m, Suc k))"
  by pat_completeness auto
termination
  by (relation "measure (\<lambda>(y, m, k). 12 - m)") auto

declare month_day.simps [simp del]

text \<open>\<open>date(1970, 1, 1) + timedelta(days=n)\<close>.\<close>

definition date_of_days :: "int \<Rightarrow> pydate" where
  "date_of_days n =
     (case (if 0 \<le> n then ymd_fwd 1970 (nat n) else ymd_bwd 1969 (nat (- n))) of
        (y, doy) \<Rightarrow> (case month_day y 1 doy of (m, dd) \<Rightarrow> \<lparr>year = y, month = m, day = dd\<rparr>))"

subsection \<open>\<open>from_unix_seconds\<close>\<close>

definition max_number :: int where "max_number = 3 * 10 ^ 20"

definition ms_watershed :: int where "ms_watershed = 2 * 10 ^ 10"

text \<open>\<open>while abs(seconds) > MS_WATERSHED: seconds /= 1000\<close>, on \<open>n / d\<close>.\<close>

function watershed :: "int \<Rightarrow> nat \<Rightarrow> int \<times> nat" where
  "watershed n d = (if 0 < d \<and> ms_watershed * int d < \<bar>n\<bar> then watershed n (1000 * d) else (n, d))"
  by pat_completeness auto
termination
  by (relation "measure (\<lambda>(n, d). nat (\<bar>n\<bar> - ms_watershed * int d))") (auto simp: ms_watershed_def)

text \<open>\<open>timedelta\<close> rounds to whole microseconds, half to even.\<close>

definition round_half_even :: "int \<Rightarrow> nat \<Rightarrow> int" where
  "round_half_even p q =
     (let f = p div int q; r = p mod int q in
      if 2 * r < int q then f else if int q < 2 * r then f + 1 else if even f then f else f + 1)"

definition date_max :: pydate where "date_max = \<lparr>year = 9999, month = 12, day = 31\<rparr>"

definition date_min :: pydate where "date_min = \<lparr>year = 1, month = 1, day = 1\<rparr>"

text \<open>
  \<open>from_unix_seconds(seconds).date()\<close>; NaN passes the comparisons and makes
  \<open>timedelta\<close> raise \<open>ValueError\<close>, which pydantic reports as an invalid date.
\<close>

definition from_unix_seconds :: "pyfloat \<Rightarrow> pydate option" where
  "from_unix_seconds x =
     (case x of
        NaN \<Rightarrow> None
      | Inf pos \<Rightarrow> Some (if pos then date_max else date_min)
      | Finite n d \<Rightarrow>
          if max_number * int d < n then Some date_max
          else if n < - max_number * int d then Some date_min
          else (case watershed n d of
                  (n', d') \<Rightarrow> Some (date_of_days (round_half_even (n' * 10 ^ 6) d' div (86400 * 10 ^ 6)))))"

text \<open>\<open>parse_date\<close> on a string: a number first, else the regular expression.\<close>

definition parse_date_text :: "string \<Rightarrow> pydate option" where
  "parse_date_text s = (case py_float s of Some x \<Rightarrow> from_unix_seconds x | None \<Rightarrow> parse_date_str s)"

subsection \<open>Every number gives a valid date\<close>

lemma year_len_months: "year_len y = sum_list (map (days_in_month y) [1..<13])"
  by (simp add: year_len_def days_in_month_def upt_rec)

lemma year_len_ge: "365 \<le> year_len y"
  by (simp add: year_len_def)

lemma ymd_fwd_bounds: "ymd_fwd y k = (y', d) \<Longrightarrow> y \<le> y' \<and> y' \<le> y + k div 365 \<and> d < year_len y'"
proof (induction y k rule: ymd_fwd.induct)
  case (1 y k)
  show ?case
  proof (cases "k < year_len y")
    case True
    then show ?thesis using "1.prems" by simp
  next
    case False
    then have r: "ymd_fwd (Suc y) (k - year_len y) = (y', d)" using "1.prems" by simp
    have "(k - year_len y) div 365 + 1 \<le> k div 365"
      using False year_len_ge [of y] by (simp add: div_le_mono le_div_geq)
    then show ?thesis using "1.IH" [OF False r] by linarith
  qed
qed

lemma ymd_bwd_bounds:
  "ymd_bwd y k = (y', d) \<Longrightarrow> 1 \<le> k \<Longrightarrow> y' \<le> y \<and> y \<le> y' + (k - 1) div 365 \<and> d < year_len y'"
proof (induction y k rule: ymd_bwd.induct)
  case (1 y k)
  show ?case
  proof (cases "k \<le> year_len y")
    case True
    then show ?thesis using "1.prems" by auto
  next
    case False
    then have r: "ymd_bwd (y - 1) (k - year_len y) = (y', d)" using "1.prems" by simp
    have q: "(k - year_len y - 1) div 365 + 1 \<le> (k - 1) div 365"
      using False year_len_ge [of y] by (simp add: div_le_mono le_div_geq)
    have "y' \<le> y - 1 \<and> y - 1 \<le> y' + (k - year_len y - 1) div 365 \<and> d < year_len y'"
      using "1.IH" [OF False r] False by simp
    with q show ?thesis by (cases y) auto
  qed
qed

lemma month_day_valid:
  "month_day y m k = (m', dd) \<Longrightarrow> 1 \<le> m \<Longrightarrow> m \<le> 12 \<Longrightarrow>
   k < sum_list (map (days_in_month y) [m..<13]) \<Longrightarrow>
   1 \<le> m' \<and> m' \<le> 12 \<and> 1 \<le> dd \<and> dd \<le> days_in_month y m'"
proof (induction y m k rule: month_day.induct)
  case (1 y m k)
  have split: "sum_list (map (days_in_month y) [m..<13]) =
      days_in_month y m + sum_list (map (days_in_month y) [Suc m..<13])"
    using "1.prems"(3) by (simp add: upt_conv_Cons)
  show ?case
  proof (cases "m < 12 \<and> days_in_month y m \<le> k")
    case True
    have r: "month_day y (Suc m) (k - days_in_month y m) = (m', dd)"
      using "1.prems"(1) True by (subst (asm) month_day.simps) simp
    have "k - days_in_month y m < sum_list (map (days_in_month y) [Suc m..<13])"
      using "1.prems"(4) split True by linarith
    then show ?thesis using "1.IH" [OF True r] True by simp
  next
    case False
    have r: "(m, Suc k) = (m', dd)"
      using "1.prems"(1) False by (subst (asm) month_day.simps) simp
    show ?thesis
    proof (cases "m = 12")
      case True
      then show ?thesis using "1.prems" r by simp
    next
      case m12: False
      then show ?thesis using False "1.prems" r by auto
    qed
  qed
qed

lemma doy_date_valid:
  assumes "1 \<le> y" "y \<le> 9999" "doy < year_len y"
  shows "valid_date (case month_day y 1 doy of (m, dd) \<Rightarrow> \<lparr>year = y, month = m, day = dd\<rparr>)"
proof -
  obtain m dd where md: "month_day y 1 doy = (m, dd)" by fastforce
  have "1 \<le> m \<and> m \<le> 12 \<and> 1 \<le> dd \<and> dd \<le> days_in_month y m"
    using assms(3) by (intro month_day_valid [OF md]) (simp_all add: year_len_months)
  with assms md show ?thesis by (simp add: valid_date_def)
qed

lemma date_of_days_valid: "- 700000 \<le> n \<Longrightarrow> n \<le> 2900000 \<Longrightarrow> valid_date (date_of_days n)"
proof (cases "0 \<le> n")
  case True
  assume "n \<le> 2900000"
  obtain y doy where f: "ymd_fwd 1970 (nat n) = (y, doy)" by fastforce
  have "nat n div 365 \<le> 7945" using \<open>n \<le> 2900000\<close> by simp
  then have "1 \<le> y" "y \<le> 9999" "doy < year_len y" using ymd_fwd_bounds [OF f] by simp_all
  then show ?thesis using True f doy_date_valid by (simp add: date_of_days_def)
next
  case False
  assume "- 700000 \<le> n"
  obtain y doy where b: "ymd_bwd 1969 (nat (- n)) = (y, doy)" by fastforce
  have "(nat (- n) - 1) div 365 \<le> 1917" using \<open>- 700000 \<le> n\<close> by simp
  moreover have "1 \<le> nat (- n)" using False by simp
  ultimately have "1 \<le> y" "y \<le> 9999" "doy < year_len y" using ymd_bwd_bounds [OF b] by linarith+
  then show ?thesis using False b doy_date_valid by (simp add: date_of_days_def)
qed

lemma watershed_bound: "0 < d \<Longrightarrow> watershed n d = (n', d') \<Longrightarrow> 0 < d' \<and> \<bar>n'\<bar> \<le> ms_watershed * int d'"
proof (induction n d rule: watershed.induct)
  case (1 n d)
  show ?case
  proof (cases "ms_watershed * int d < \<bar>n\<bar>")
    case True
    then have "watershed n (1000 * d) = (n', d')" using "1.prems" by simp
    then show ?thesis using "1.IH" "1.prems"(1) True by simp
  next
    case False
    then show ?thesis using "1.prems" by simp
  qed
qed

lemma round_half_even_bound:
  assumes q: "0 < q" and p: "\<bar>p\<bar> \<le> M * int q"
  shows "- M \<le> round_half_even p q \<and> round_half_even p q \<le> M + 1"
proof -
  have "p div int q \<le> (M * int q) div int q" using p q by (intro zdiv_mono1) (simp_all add: abs_le_iff)
  moreover have "(- M * int q) div int q \<le> p div int q" using p q by (intro zdiv_mono1) (simp_all add: abs_le_iff)
  moreover have "(- M * int q) div int q = - M"
    using q nonzero_mult_div_cancel_right [of "int q" "- M"] by simp
  ultimately have "p div int q \<le> M" "- M \<le> p div int q" using q by simp_all
  then show ?thesis by (auto simp: round_half_even_def Let_def)
qed

lemma date_extremes_valid: "valid_date date_max" "valid_date date_min"
  by (simp_all add: valid_date_def date_max_def date_min_def days_in_month_def)

lemma from_unix_seconds_valid: "from_unix_seconds x = Some dt \<Longrightarrow> valid_date dt"
proof (cases x)
  case (Finite n d)
  assume r: "from_unix_seconds x = Some dt"
  show ?thesis
  proof (cases "max_number * int d < n \<or> n < - max_number * int d")
    case True
    then show ?thesis using r Finite date_extremes_valid by (auto simp: from_unix_seconds_def split: if_splits)
  next
    case False
    obtain n' d' where w: "watershed n d = (n', d')" by fastforce
    let ?us = "round_half_even (n' * 10 ^ 6) d'"
    have dt: "dt = date_of_days (?us div (86400 * 10 ^ 6))"
      using r Finite False w by (simp add: from_unix_seconds_def)
    show ?thesis
    proof (cases "d = 0")
      case True
      then have "n = 0" using False by simp
      then have "?us = 0" using w True by (simp add: round_half_even_def)
      then show ?thesis using dt date_of_days_valid [of 0] by simp
    next
      case d: False
      from watershed_bound w d have d': "0 < d'" and b: "\<bar>n'\<bar> \<le> ms_watershed * int d'" by auto
      have "\<bar>n' * 10 ^ 6\<bar> \<le> (ms_watershed * 10 ^ 6) * int d'"
        using b by (simp add: abs_mult mult.commute mult.left_commute)
      from round_half_even_bound [OF d' this]
      have "- (ms_watershed * 10 ^ 6) \<le> ?us" "?us \<le> ms_watershed * 10 ^ 6 + 1" by simp_all
      then have "(- (ms_watershed * 10 ^ 6)) div (86400 * 10 ^ 6) \<le> ?us div (86400 * 10 ^ 6)"
          "?us div (86400 * 10 ^ 6) \<le> (ms_watershed * 10 ^ 6 + 1) div (86400 * 10 ^ 6)"
        by (simp_all add: zdiv_mono1)
      then have "- 700000 \<le> ?us div (86400 * 10 ^ 6)" "?us div (86400 * 10 ^ 6) \<le> 2900000"
        by (simp_all add: ms_watershed_def)
      then show ?thesis using dt date_of_days_valid by simp
    qed
  qed
qed (auto simp: from_unix_seconds_def date_extremes_valid)

lemma parse_date_text_valid: "parse_date_text s = Some d \<Longrightarrow> valid_date d"
  by (auto simp: parse_date_text_def from_unix_seconds_valid parse_date_str_valid split: option.splits)

subsection \<open>Printed dates are not numbers\<close>

lemma no_underscore_ok:
  assumes h: "CHR ''_'' \<notin> set s"
  shows "underscores_ok s"
proof -
  have "s ! i \<noteq> CHR ''_''" if "i < length s" for i using h nth_mem [OF that] by metis
  then show ?thesis by (simp add: underscores_ok_def list_all_iff)
qed

lemma plain_strip:
  assumes p: "\<forall>c\<in>set s. \<not> is_py_space c \<and> c \<noteq> CHR ''_''"
  shows "py_strip s = s \<and> underscores_ok s \<and> filter (\<lambda>c. c \<noteq> CHR ''_'') s = s"
proof -
  have "s = [] \<or> (\<not> is_py_space (hd s) \<and> \<not> is_py_space (last s))"
    using p by (cases "s = []") (simp_all add: hd_in_set last_in_set)
  then have "py_strip s = s" by (rule py_strip_fixed)
  moreover have "CHR ''_'' \<notin> set s" using p by blast
  moreover have "filter (\<lambda>c. c \<noteq> CHR ''_'') s = s" using p by (simp add: filter_id_conv)
  ultimately show ?thesis by (simp add: no_underscore_ok)
qed

lemma py_float_plain:
  assumes h: "s \<noteq> []" "is_digit (hd s)" and p: "\<forall>c\<in>set s. \<not> is_py_space c \<and> c \<noteq> CHR ''_''"
  shows "py_float s = map_option (\<lambda>(n, d). Finite (int n) d) (decimal_literal s)"
proof -
  from plain_strip [OF p] have st: "py_strip s = s" and us: "underscores_ok s"
    and fl: "filter (\<lambda>c. c \<noteq> CHR ''_'') s = s" by simp_all
  obtain c r where s: "s = c # r" using h by (cases s) auto
  have dc: "is_digit c" using h s by simp
  then have lc: "ascii_lower c = c" by (simp add: ascii_lower_def is_digit_def Let_def)
  have "c \<noteq> CHR ''i''" "c \<noteq> CHR ''n''" "c \<noteq> CHR ''-''" "c \<noteq> CHR ''+''"
    using dc by (auto simp: is_digit_def)
  then have sg: "sign_split s = (False, s)"
    and low: "map ascii_lower s \<noteq> ''inf'' \<and> map ascii_lower s \<noteq> ''infinity'' \<and> map ascii_lower s \<noteq> ''nan''"
    using s lc by (simp_all add: sign_split_def)
  show ?thesis using st us fl sg low by (simp add: py_float_def)
qed

lemma digit_or_dash_plain: "is_digit c \<or> c = CHR ''-'' \<Longrightarrow> \<not> is_py_space c \<and> c \<noteq> CHR ''_''"
  by (auto simp: is_digit_def is_py_space_def)

lemma digits_dashes_not_float:
  assumes a: "list_all (\<lambda>c. is_digit c \<or> c = CHR ''-'') s" and h: "s \<noteq> []" "is_digit (hd s)"
    and m: "CHR ''-'' \<in> set s"
  shows "py_float s = None"
proof -
  have p: "\<forall>c\<in>set s. \<not> is_py_space c \<and> c \<noteq> CHR ''_''"
    using a digit_or_dash_plain by (auto simp: list_all_iff)
  have ne: "dropWhile is_digit s \<noteq> []"
    using m not_digit_dash by (simp only: dropWhile_eq_Nil_conv) blast
  have "hd (dropWhile is_digit s) \<in> set s" using ne by (meson hd_in_set set_dropWhileD)
  moreover have "\<not> is_digit (hd (dropWhile is_digit s))" by (rule hd_dropWhile [OF ne])
  ultimately have hd: "hd (dropWhile is_digit s) = CHR ''-''" using a unfolding list_all_iff by blast
  have tw: "takeWhile is_digit s \<noteq> []" using h by (cases s) auto
  have "decimal_literal s = None"
    using ne hd tw by (simp add: decimal_literal_def exponent_part_def Let_def)
  then show ?thesis using py_float_plain [OF h p] by simp
qed

lemma py_float_digits:
  assumes h: "s \<noteq> []" and d: "list_all is_digit s"
  shows "py_float s = Some (Finite (int (digits_val s)) 1)"
proof -
  have hd: "is_digit (hd s)" using h d by (cases s) auto
  have p: "\<forall>c\<in>set s. \<not> is_py_space c \<and> c \<noteq> CHR ''_''"
    using d digit_or_dash_plain by (auto simp: list_all_iff)
  have tw: "takeWhile is_digit s = s" and dw: "dropWhile is_digit s = []"
    using span_digits_end [OF d] by simp_all
  have "decimal_literal s = Some (digits_val s, 1)"
    using h by (simp add: decimal_literal_def exponent_part_def scale10_def Let_def tw dw)
  then show ?thesis using py_float_plain [OF h hd p] by simp
qed

lemma isoformat_not_float: "py_float (isoformat d) = None"
proof (rule digits_dashes_not_float)
  have "list_all is_digit (zero_pad w (decimal n))" for w n
    by (intro zero_pad_digits decimal_digits)
  then show "list_all (\<lambda>c. is_digit c \<or> c = CHR ''-'') (isoformat d)"
    by (auto simp: isoformat_def list_all_iff)
  have "zero_pad 4 (decimal (year d)) \<noteq> []"
    using decimal_nonempty [of "year d"] by (simp add: zero_pad_def)
  moreover have "list_all is_digit (zero_pad 4 (decimal (year d)))"
    by (intro zero_pad_digits decimal_digits)
  ultimately show "isoformat d \<noteq> []" "is_digit (hd (isoformat d))"
    by (auto simp: isoformat_def list_all_iff neq_Nil_conv)
  show "CHR ''-'' \<in> set (isoformat d)" by (simp add: isoformat_def)
qed

lemma parse_date_text_iso: "parse_date_text (isoformat d) = parse_date_str (isoformat d)"
  by (simp add: parse_date_text_def isoformat_not_float)

subsection \<open>\<open>int(str(i)) = i\<close>\<close>


lemma py_int_plain:
  "\<forall>c\<in>set s. \<not> is_py_space c \<and> c \<noteq> CHR ''_'' \<Longrightarrow>
   py_int s = (case sign_split s of (neg, ds) \<Rightarrow>
     if ds \<noteq> [] \<and> list_all is_digit ds then Some (if neg then - int (digits_val ds) else int (digits_val ds))
     else None)"
  using plain_strip [of s] by (simp add: py_int_def)

lemma py_int_signed:
  assumes dd: "list_all is_digit ds" "ds \<noteq> []"
  shows "py_int (if neg then CHR ''-'' # ds else ds) =
    Some (if neg then - int (digits_val ds) else int (digits_val ds))"
proof -
  have p: "\<forall>c\<in>set ds. \<not> is_py_space c \<and> c \<noteq> CHR ''_''"
    using dd(1) digit_or_dash_plain by (auto simp: list_all_iff)
  obtain c r where cr: "ds = c # r" using dd(2) by (cases ds) auto
  have "c \<noteq> CHR ''-'' \<and> c \<noteq> CHR ''+''" using dd(1) cr by (auto simp: is_digit_def)
  then have sg: "sign_split ds = (False, ds)" using cr by (simp add: sign_split_def)
  show ?thesis
  proof (cases neg)
    case True
    have "\<forall>c\<in>set (CHR ''-'' # ds). \<not> is_py_space c \<and> c \<noteq> CHR ''_''"
      using p by (simp add: is_py_space_def)
    from py_int_plain [OF this] True dd show ?thesis by (simp add: sign_split_def)
  next
    case False
    from py_int_plain [OF p] False dd sg show ?thesis by simp
  qed
qed

lemma int_str_roundtrip: "py_int (int_str i) = Some i"
proof -
  have istr: "int_str i = (if i < 0 then CHR ''-'' # decimal (nat \<bar>i\<bar>) else decimal (nat \<bar>i\<bar>))"
    by (simp add: int_str_def)
  show ?thesis
    unfolding istr
    by (subst py_int_signed) (simp_all add: decimal_digits decimal_nonempty digits_val_decimal)
qed


subsection \<open>Strings of digits are timestamps\<close>

lemma seconds_timestamp:
  assumes t: "\<bar>t\<bar> \<le> ms_watershed"
  shows "from_unix_seconds (Finite t 1) = Some (date_of_days (t div 86400))"
proof -
  have nm: "\<not> max_number < t" "\<not> t < - max_number" using t by (auto simp: ms_watershed_def max_number_def)
  have w: "watershed t 1 = (t, 1)" using t by (subst watershed.simps) simp
  have r: "round_half_even (t * 10 ^ 6) 1 = t * 10 ^ 6" by (simp add: round_half_even_def)
  have "(t * 10 ^ 6) div (86400 * 10 ^ 6) = t div 86400" by (rule div_mult_mult2) simp
  then show ?thesis using nm w r by (simp add: from_unix_seconds_def)
qed

end
