(* ===== verification/Schemas.thy ===== *)
theory Schemas
  imports Values Numbers
begin

text \<open>
  The request schema of schemas.py, \<open>PassengerCreate\<close>, as pydantic (v1, which
  the source's \<open>orm_mode\<close> and \<open>.dict(exclude_unset=True)\<close> use) builds and
  reads it. FastAPI validates the JSON body of \<open>POST /passenger/create\<close> and
  of \<open>PUT /passenger/{id}/update\<close> against it before a handler runs: a
  \<open>str\<close> or \<open>EmailStr\<close> field without a default is required and may not be
  null; an \<open>Optional[...]\<close> field defaults to \<open>None\<close> and may be null; a
  date is parsed by \<open>parse_date\<close>; an e-mail is checked by the
  email-validator library (the parameter \<open>email_ok\<close>) and returned with its
  domain in lower case. The model keeps pydantic's \<open>__fields_set__\<close>, the
  body keys it saw, which \<open>.dict(exclude_unset=True)\<close> reads.
  A JSON integer or boolean in a \<open>str\<close> field becomes its Python
  \<open>str()\<close>; in a \<open>date\<close> field it is a Unix timestamp, and so is a string
  \<open>float()\<close> accepts (Numbers.thy). \<open>JOther\<close> stands for arrays and
  objects; JSON numbers with a fraction or an exponent (Python floats) are not
  modelled.
\<close>

datatype json = JNull | JStr string | JInt int | JBool bool | JOther

type_synonym json_obj = "string \<rightharpoonup> json"

record passenger_create =
  title :: string
  given_name :: string
  surname :: string
  passport_number :: "string option"
  date_of_birth :: "pydate option"
  date_of_expiration :: "pydate option"
  email :: string
  mobile :: string
  emergency_contact :: "string option"
  organization_name :: "string option"
  designation :: "string option"
  frequent_flyer_number :: "string option"
  recent_route :: "string option"
  favourite_carrier :: "string option"
  meal_preference :: "string option"
  accessibility :: "string option"
  baggage_preference :: "string option"
  fields_set :: "string list"

text \<open>The declared fields, in declaration order, and the required ones.\<close>

definition passenger_fields :: "string list" where
  "passenger_fields =
     [''title'', ''given_name'', ''surname'', ''passport_number'', ''date_of_birth'',
      ''date_of_expiration'', ''email'', ''mobile'', ''emergency_contact'',
      ''organization_name'', ''designation'', ''frequent_flyer_number'', ''recent_route'',
      ''favourite_carrier'', ''meal_preference'', ''accessibility'', ''baggage_preference'']"

definition required_fields :: "string list" where
  "required_fields = [''title'', ''given_name'', ''surname'', ''email'', ''mobile'']"

subsection \<open>Field validation\<close>

text \<open>pydantic's error types, each with the field it is about.\<close>

datatype val_error =
    FieldRequired string
  | NoneNotAllowed string
  | StrTypeExpected string
  | DateInvalid string
  | EmailInvalid string

text \<open>
  \<open>str_validator\<close>: a string is kept; an \<open>int\<close> (and so a \<open>bool\<close>) becomes
  \<open>str(v)\<close>; anything else is a \<open>StrError\<close>.
\<close>

definition str_validator :: "json \<Rightarrow> string option" where
  "str_validator v =
     (case v of
        JStr s \<Rightarrow> Some s
      | JInt i \<Rightarrow> Some (int_str i)
      | JBool b \<Rightarrow> Some (bool_str b)
      | _ \<Rightarrow> None)"

definition req_str :: "json_obj \<Rightarrow> string \<Rightarrow> val_error + string" where
  "req_str b k =
     (case b k of
        None \<Rightarrow> Inl (FieldRequired k)
      | Some JNull \<Rightarrow> Inl (NoneNotAllowed k)
      | Some v \<Rightarrow> (case str_validator v of Some s \<Rightarrow> Inr s | None \<Rightarrow> Inl (StrTypeExpected k)))"

definition opt_str :: "json_obj \<Rightarrow> string \<Rightarrow> val_error + string option" where
  "opt_str b k =
     (case b k of
        None \<Rightarrow> Inr None
      | Some JNull \<Rightarrow> Inr None
      | Some v \<Rightarrow> (case str_validator v of Some s \<Rightarrow> Inr (Some s) | None \<Rightarrow> Inl (StrTypeExpected k)))"

text \<open>
  \<open>parse_date\<close>: an \<open>int\<close> or \<open>bool\<close> is a timestamp, a string goes
  through \<open>get_numeric\<close> and then the regular expression; a list or a dict
  makes \<open>float()\<close> raise.
\<close>

definition parse_date_json :: "json \<Rightarrow> pydate option" where
  "parse_date_json v =
     (case v of
        JStr s \<Rightarrow> parse_date_text s
      | JInt i \<Rightarrow> from_unix_seconds (Finite i 1)
      | JBool b \<Rightarrow> from_unix_seconds (Finite (of_bool b) 1)
      | _ \<Rightarrow> None)"

definition opt_date :: "json_obj \<Rightarrow> string \<Rightarrow> val_error + pydate option" where
  "opt_date b k =
     (case b k of
        None \<Rightarrow> Inr None
      | Some JNull \<Rightarrow> Inr None
      | Some v \<Rightarrow> (case parse_date_json v of None \<Rightarrow> Inl (DateInvalid k) | Some d \<Rightarrow> Inr (Some d)))"

text \<open>
  \<open>\w\<close> of Python's \<open>re\<close> on a \<open>str\<close> pattern, on Latin-1: the
  characters \<open>str.isalnum\<close> accepts (ASCII letters and digits, the ordinal
  indicators, superscript digits, micro sign, vulgar fractions and the
  accented letters) and the underscore.
\<close>

definition is_word_char :: "char \<Rightarrow> bool" where
  "is_word_char c \<longleftrightarrow>
     (let n = of_char c :: nat in
      (48 \<le> n \<and> n \<le> 57) \<or> (65 \<le> n \<and> n \<le> 90) \<or> n = 95 \<or> (97 \<le> n \<and> n \<le> 122) \<or>
      n \<in> {170, 178, 179, 181, 185, 186, 188, 189, 190} \<or>
      (192 \<le> n \<and> n \<le> 255 \<and> n \<noteq> 215 \<and> n \<noteq> 247))"

text \<open>
  \<open>pretty_email_regex.fullmatch(value)\<close> for
  \<open>([\w ]*?) *<(.*)> *\<close>, returning the second group. What precedes the
  \<open><\<close> may only be word characters and spaces, so the \<open><\<close> is the first
  one; the greedy group ends at the last \<open>>\<close> that only spaces follow, and
  \<open>.\<close> matches no newline.
\<close>

definition pretty_email_match :: "string \<Rightarrow> string option" where
  "pretty_email_match s =
     (let pre = takeWhile (\<lambda>c. c \<noteq> CHR ''<'') s; rest = dropWhile (\<lambda>c. c \<noteq> CHR ''<'') s in
      if rest = [] \<or> \<not> list_all (\<lambda>c. is_word_char c \<or> c = CHR '' '') pre then None
      else
        (let r = rev (dropWhile (\<lambda>c. c = CHR '' '') (rev (tl rest))) in
         if r \<noteq> [] \<and> last r = CHR ''>'' \<and> CHR 10 \<notin> set (butlast r) then Some (butlast r) else None))"

text \<open>The address \<open>validate_email\<close> checks: the group when the pretty form matches, else the value.\<close>

definition email_address :: "string \<Rightarrow> string" where
  "email_address s = (case pretty_email_match s of Some a \<Rightarrow> a | None \<Rightarrow> s)"

text \<open>
  The address as \<open>validate_email\<close> returns it: the part before the first
  \<open>@\<close> kept, the rest lowered (\<open>local_part + email[at_index:].lower()\<close>).
\<close>

definition email_normalize :: "string \<Rightarrow> string" where
  "email_normalize e =
     takeWhile (\<lambda>c. c \<noteq> CHR ''@'') e @ map py_lower (dropWhile (\<lambda>c. c \<noteq> CHR ''@'') e)"

text \<open>
  \<open>EmailStr\<close> (pydantic v1): \<open>str_validator\<close>, then \<open>validate_email\<close>:
  at most 2048 characters, the pretty form \<open>Name <addr>\<close> reduced to
  \<open>addr\<close>, stripped, accepted by email-validator (the parameter
  \<open>email_ok\<close>; it has an \<open>@\<close>), and normalised.
\<close>

definition req_email :: "(string \<Rightarrow> bool) \<Rightarrow> json_obj \<Rightarrow> string \<Rightarrow> val_error + string" where
  "req_email email_ok b k =
     (case req_str b k of
        Inl err \<Rightarrow> Inl err
      | Inr s \<Rightarrow>
          (let e = py_strip (email_address s) in
           if length s \<le> 2048 \<and> email_ok e \<and> CHR ''@'' \<in> set e then Inr (email_normalize e)
           else Inl (EmailInvalid k)))"

definition err_of :: "'e + 'a \<Rightarrow> 'e list" where
  "err_of r = (case r of Inl e \<Rightarrow> [e] | Inr _ \<Rightarrow> [])"

text \<open>
  \<open>PassengerCreate(**body)\<close>: every field is validated, all errors are
  reported together (FastAPI answers 422 with them), extra keys are ignored.
\<close>

definition validate_passenger_create ::
  "(string \<Rightarrow> bool) \<Rightarrow> json_obj \<Rightarrow> val_error list + passenger_create" where
  "validate_passenger_create email_ok b =
     (let t = req_str b ''title''; g = req_str b ''given_name''; s = req_str b ''surname'';
          pn = opt_str b ''passport_number''; db = opt_date b ''date_of_birth'';
          de = opt_date b ''date_of_expiration''; e = req_email email_ok b ''email'';
          m = req_str b ''mobile''; ec = opt_str b ''emergency_contact'';
          org = opt_str b ''organization_name''; des = opt_str b ''designation'';
          ff = opt_str b ''frequent_flyer_number''; rr = opt_str b ''recent_route'';
          fc = opt_str b ''favourite_carrier''; mp = opt_str b ''meal_preference'';
          ac = opt_str b ''accessibility''; bp = opt_str b ''baggage_preference'';
          errs = err_of t @ err_of g @ err_of s @ err_of pn @ err_of db @ err_of de @ err_of e @
                 err_of m @ err_of ec @ err_of org @ err_of des @ err_of ff @ err_of rr @
                 err_of fc @ err_of mp @ err_of ac @ err_of bp
      in if errs \<noteq> [] then Inl errs
         else Inr \<lparr>title = projr t, given_name = projr g, surname = projr s,
                   passport_number = projr pn, date_of_birth = projr db,
                   date_of_expiration = projr de, email = projr e, mobile = projr m,
                   emergency_contact = projr ec, organization_name = projr org,
                   designation = projr des, frequent_flyer_number = projr ff,
                   recent_route = projr rr, favourite_carrier = projr fc,
                   meal_preference = projr mp, accessibility = projr ac,
                   baggage_preference = projr bp,
                   fields_set = filter (\<lambda>k. k \<in> dom b) passenger_fields\<rparr>)"

subsection \<open>Reading the model back as a dict\<close>

definition opt_pystr :: "string option \<Rightarrow> pyval" where
  "opt_pystr v = (case v of None \<Rightarrow> PNone | Some s \<Rightarrow> PStr s)"

definition opt_pydate :: "pydate option \<Rightarrow> pyval" where
  "opt_pydate v = (case v of None \<Rightarrow> PNone | Some d \<Rightarrow> PDate d)"

text \<open>\<open>passenger.dict()\<close>: every field, in declaration order, dates as dates.\<close>

definition passenger_dict :: "passenger_create \<Rightarrow> pydict" where
  "passenger_dict p =
     [(''title'', PStr (title p)), (''given_name'', PStr (given_name p)),
      (''surname'', PStr (surname p)), (''passport_number'', opt_pystr (passport_number p)),
      (''date_of_birth'', opt_pydate (date_of_birth p)),
      (''date_of_expiration'', opt_pydate (date_of_expiration p)),
      (''email'', PStr (email p)), (''mobile'', PStr (mobile p)),
      (''emergency_contact'', opt_pystr (emergency_contact p)),
      (''organization_name'', opt_pystr (organization_name p)),
      (''designation'', opt_pystr (designation p)),
      (''frequent_flyer_number'', opt_pystr (frequent_flyer_number p)),
      (''recent_route'', opt_pystr (recent_route p)),
      (''favourite_carrier'', opt_pystr (favourite_carrier p)),
      (''meal_preference'', opt_pystr (meal_preference p)),
      (''accessibility'', opt_pystr (accessibility p)),
      (''baggage_preference'', opt_pystr (baggage_preference p))]"

text \<open>\<open>passenger.dict(exclude_unset=True)\<close>: only the fields the body set.\<close>

definition dict_exclude_unset :: "passenger_create \<Rightarrow> pydict" where
  "dict_exclude_unset p = filter (\<lambda>(k, v). k \<in> set (fields_set p)) (passenger_dict p)"

text \<open>
  FastAPI's \<open>jsonable_encoder(passenger)\<close>: the full dict with every date
  replaced by its \<open>isoformat()\<close>.
\<close>

definition json_encode_value :: "pyval \<Rightarrow> pyval" where
  "json_encode_value v = (case v of PDate d \<Rightarrow> PStr (isoformat d) | _ \<Rightarrow> v)"

definition jsonable_encode :: "passenger_create \<Rightarrow> pydict" where
  "jsonable_encode p = map (\<lambda>(k, v). (k, json_encode_value v)) (passenger_dict p)"

text \<open>The dates a validated model holds are real calendar dates.\<close>

definition valid_dates :: "passenger_create \<Rightarrow> bool" where
  "valid_dates p \<longleftrightarrow>
     pred_option valid_date (date_of_birth p) \<and> pred_option valid_date (date_of_expiration p)"

subsection \<open>Validation results\<close>

lemma err_of_Nil [simp]: "err_of r = [] \<longleftrightarrow> (\<exists>v. r = Inr v)"
  by (cases r) (simp_all add: err_of_def)

lemma str_validator_simps [simp]:
  "str_validator (JStr s) = Some s" "str_validator (JInt i) = Some (int_str i)"
  "str_validator (JBool b) = Some (bool_str b)" "str_validator JOther = None" "str_validator JNull = None"
  by (simp_all add: str_validator_def)

lemma parse_date_json_simps [simp]:
  "parse_date_json (JStr s) = parse_date_text s" "parse_date_json (JInt i) = from_unix_seconds (Finite i 1)"
  "parse_date_json (JBool b) = from_unix_seconds (Finite (of_bool b) 1)"
  "parse_date_json JOther = None" "parse_date_json JNull = None"
  by (simp_all add: parse_date_json_def)

lemma pred_date_parsers [simp]:
  "pred_option valid_date (parse_date_text s)" "pred_option valid_date (from_unix_seconds x)"
  by (cases "parse_date_text s"; auto dest: parse_date_text_valid)
     (cases "from_unix_seconds x"; auto dest: from_unix_seconds_valid)

lemma opt_date_valid: "opt_date b k = Inr x \<Longrightarrow> pred_option valid_date x"
  by (auto simp: opt_date_def split: option.splits json.splits)

lemma validate_fields:
  assumes "validate_passenger_create email_ok b = Inr p"
  shows "req_str b ''title'' = Inr (title p) \<and> req_str b ''given_name'' = Inr (given_name p) \<and>
    req_str b ''surname'' = Inr (surname p) \<and> req_email email_ok b ''email'' = Inr (email p) \<and>
    req_str b ''mobile'' = Inr (mobile p) \<and>
    opt_date b ''date_of_birth'' = Inr (date_of_birth p) \<and>
    opt_date b ''date_of_expiration'' = Inr (date_of_expiration p) \<and>
    opt_str b ''meal_preference'' = Inr (meal_preference p) \<and>
    fields_set p = filter (\<lambda>k. k \<in> dom b) passenger_fields"
  using assms by (auto simp: validate_passenger_create_def Let_def split: if_splits)

lemma validate_valid_dates: "validate_passenger_create email_ok b = Inr p \<Longrightarrow> valid_dates p"
  by (auto simp: valid_dates_def dest!: validate_fields opt_date_valid)

lemma req_str_missing: "b k = None \<Longrightarrow> req_str b k = Inl (FieldRequired k)"
  by (simp add: req_str_def)

lemma req_email_missing: "b k = None \<Longrightarrow> req_email email_ok b k = Inl (FieldRequired k)"
  by (simp add: req_email_def req_str_def)

text \<open>
  C7: Every field of \<open>PassengerCreate\<close> without a default is required: a body
  that omits one is rejected by validation (FastAPI answers 422 before any
  handler runs), also on \<open>PUT /passenger/{id}/update\<close>, so a partial update
  that sends only the changed optional fields never reaches the handler.
\<close>

theorem missing_required_rejected:
  "k \<in> set required_fields \<Longrightarrow> b k = None \<Longrightarrow>
   \<exists>errs. validate_passenger_create email_ok b = Inl errs \<and> FieldRequired k \<in> set errs"
  by (auto simp: required_fields_def validate_passenger_create_def Let_def req_str_missing
      req_email_missing err_of_def)

theorem missing_required_rejected_witness:
  "''title'' \<in> set required_fields \<and> [''meal_preference'' \<mapsto> JStr ''vegan''] ''title'' = None \<and>
   (\<exists>errs. validate_passenger_create (\<lambda>_. True) [''meal_preference'' \<mapsto> JStr ''vegan''] = Inl errs \<and>
      FieldRequired ''title'' \<in> set errs)"
proof -
  have k: "''title'' \<in> set required_fields" by (simp add: required_fields_def)
  have b: "[''meal_preference'' \<mapsto> JStr ''vegan''] ''title'' = None" by simp
  show ?thesis
    using k b missing_required_rejected [where k = "''title''" and b = "[''meal_preference'' \<mapsto> JStr ''vegan'']"
        and email_ok = "\<lambda>_. True"]
    by blast
qed

lemma partial_update_body:
  "validate_passenger_create email_ok [''meal_preference'' \<mapsto> JStr ''vegan''] =
     Inl [FieldRequired ''title'', FieldRequired ''given_name'', FieldRequired ''surname'',
          FieldRequired ''email'', FieldRequired ''mobile'']"
  by (simp add: validate_passenger_create_def Let_def req_str_def req_email_def opt_str_def
      opt_date_def err_of_def)

lemma pretty_ex: "pretty_email_match ''Jane <Jane@Example.COM>'' = Some ''Jane@Example.COM''"
  by (simp add: pretty_email_match_def is_word_char_def)

text \<open>
  C8: The stored e-mail is not the one sent: validation reduces the pretty
  form \<open>Name <addr>\<close> to \<open>addr\<close>, strips surrounding whitespace and lowers
  everything from the first \<open>@\<close> on.
\<close>

theorem email_domain_lowered:
  "validate_passenger_create email_ok b = Inr p \<Longrightarrow> b ''email'' = Some (JStr s) \<Longrightarrow>
   email p = takeWhile (\<lambda>c. c \<noteq> CHR ''@'') (py_strip (email_address s)) @
             map py_lower (dropWhile (\<lambda>c. c \<noteq> CHR ''@'') (py_strip (email_address s)))"
  by (drule validate_fields)
     (auto simp: req_email_def req_str_def email_normalize_def Let_def split: if_splits)

theorem email_domain_lowered_witness:
  "validate_passenger_create (\<lambda>_. True) [''title'' \<mapsto> JStr ''Mr'', ''given_name'' \<mapsto> JStr ''Jane'',
      ''surname'' \<mapsto> JStr ''Doe'', ''email'' \<mapsto> JStr ''Jane <Jane@Example.COM>'', ''mobile'' \<mapsto> JStr ''+1'']
     = Inr (projr (validate_passenger_create (\<lambda>_. True) [''title'' \<mapsto> JStr ''Mr'', ''given_name'' \<mapsto> JStr ''Jane'',
      ''surname'' \<mapsto> JStr ''Doe'', ''email'' \<mapsto> JStr ''Jane <Jane@Example.COM>'', ''mobile'' \<mapsto> JStr ''+1''])) \<and>
   email (projr (validate_passenger_create (\<lambda>_. True) [''title'' \<mapsto> JStr ''Mr'', ''given_name'' \<mapsto> JStr ''Jane'',
      ''surname'' \<mapsto> JStr ''Doe'', ''email'' \<mapsto> JStr ''Jane <Jane@Example.COM>'', ''mobile'' \<mapsto> JStr ''+1''])) =
     ''Jane@example.com''"
proof -
  let ?b = "[''title'' \<mapsto> JStr ''Mr'', ''given_name'' \<mapsto> JStr ''Jane'',
      ''surname'' \<mapsto> JStr ''Doe'', ''email'' \<mapsto> JStr ''Jane <Jane@Example.COM>'', ''mobile'' \<mapsto> JStr ''+1'']"
  have a: "email_address ''Jane <Jane@Example.COM>'' = ''Jane@Example.COM''"
    by (simp add: email_address_def pretty_ex)
  have st: "py_strip ''Jane@Example.COM'' = ''Jane@Example.COM''" by (simp add: py_strip_def is_py_space_def)
  have v: "validate_passenger_create (\<lambda>_. True) ?b = Inr (projr (validate_passenger_create (\<lambda>_. True) ?b))"
    by (simp add: validate_passenger_create_def Let_def req_str_def req_email_def opt_str_def
        opt_date_def err_of_def a st)
  have e: "?b ''email'' = Some (JStr ''Jane <Jane@Example.COM>'')" by simp
  have lw: "takeWhile (\<lambda>c. c \<noteq> CHR ''@'') ''Jane@Example.COM'' @
      map py_lower (dropWhile (\<lambda>c. c \<noteq> CHR ''@'') ''Jane@Example.COM'') = ''Jane@example.com''"
    by code_simp
  show ?thesis using v email_domain_lowered [OF v e] a st lw by simp
qed

subsection \<open>Validating a validated e-mail\<close>

text \<open>
  Lowering the domain keeps the whitespace pattern, the length and the \<open>@\<close>
  of an address and is idempotent; so is the whole normalisation of a stripped
  address.
\<close>

lemma email_normalize_spaces: "map is_py_space (email_normalize x) = map is_py_space x"
proof -
  have sp: "map is_py_space (map py_lower ys) = map is_py_space ys" for ys by (induction ys) simp_all
  have "map is_py_space (email_normalize x) =
      map is_py_space (takeWhile (\<lambda>c. c \<noteq> CHR ''@'') x) @ map is_py_space (dropWhile (\<lambda>c. c \<noteq> CHR ''@'') x)"
    by (simp only: email_normalize_def map_append sp)
  also have "\<dots> = map is_py_space x"
    by (simp only: map_append [symmetric] takeWhile_dropWhile_id)
  finally show ?thesis .
qed

lemma length_email_normalize [simp]: "length (email_normalize x) = length x"
proof -
  have "length (map is_py_space (email_normalize x)) = length (map is_py_space x)"
    by (simp only: email_normalize_spaces)
  then show ?thesis by (simp only: length_map)
qed

lemma email_normalize_at: "CHR ''@'' \<in> set x \<Longrightarrow> CHR ''@'' \<in> set (email_normalize x)"
proof -
  let ?dw = "dropWhile (\<lambda>c. c \<noteq> CHR ''@'') x"
  assume "CHR ''@'' \<in> set x"
  then have ne: "?dw \<noteq> []" by (simp only: dropWhile_eq_Nil_conv) blast
  then have "\<not> hd ?dw \<noteq> CHR ''@''" by (rule hd_dropWhile)
  then have "py_lower (hd ?dw) = CHR ''@''" by simp
  moreover have "py_lower (hd ?dw) \<in> set (map py_lower ?dw)" using ne by simp
  ultimately have "CHR ''@'' \<in> set (map py_lower ?dw)" by (simp only:)
  then show ?thesis unfolding email_normalize_def set_append by blast
qed

lemma email_normalize_idem [simp]: "email_normalize (email_normalize x) = email_normalize x"
proof (cases "dropWhile (\<lambda>c. c \<noteq> CHR ''@'') x")
  case Nil
  have "email_normalize x = x"
    using takeWhile_dropWhile_id [of "\<lambda>c. c \<noteq> CHR ''@''" x] Nil
    by (simp only: email_normalize_def list.map append_Nil2)
  then show ?thesis by (simp only:)
next
  case (Cons a rest)
  let ?tw = "takeWhile (\<lambda>c. c \<noteq> CHR ''@'') x"
  have a: "a = CHR ''@''" using hd_dropWhile [of "\<lambda>c. c \<noteq> CHR ''@''" x] Cons by fastforce
  have e: "email_normalize x = ?tw @ CHR ''@'' # map py_lower rest"
    using Cons a by (simp add: email_normalize_def py_lower_def)
  have tw: "\<And>c. c \<in> set ?tw \<Longrightarrow> c \<noteq> CHR ''@''" by (auto dest: set_takeWhileD)
  have "takeWhile (\<lambda>c. c \<noteq> CHR ''@'') (?tw @ CHR ''@'' # map py_lower rest) = ?tw"
    by (simp add: takeWhile_append2 tw)
  moreover have "dropWhile (\<lambda>c. c \<noteq> CHR ''@'') (?tw @ CHR ''@'' # map py_lower rest) =
      CHR ''@'' # map py_lower rest"
    by (simp add: dropWhile_append2 tw)
  ultimately show ?thesis
    by (simp only: e) (simp add: email_normalize_def py_lower_def [of "CHR ''@''"] comp_def)
qed

lemma py_strip_email_normalize:
  "py_strip (email_normalize (py_strip s)) = email_normalize (py_strip s)"
proof (rule py_strip_fixed)
  let ?x = "py_strip s"
  let ?e = "email_normalize ?x"
  have m: "map is_py_space ?e = map is_py_space ?x" by (rule email_normalize_spaces)
  show "?e = [] \<or> \<not> is_py_space (hd ?e) \<and> \<not> is_py_space (last ?e)"
  proof (cases "?x = []")
    case False
    then have ne: "?e \<noteq> []" using length_email_normalize [of ?x] by (metis length_0_conv)
    have "is_py_space (hd ?e) = is_py_space (hd ?x)"
      using arg_cong [OF m, of hd] ne False by (simp add: hd_map)
    moreover have "is_py_space (last ?e) = is_py_space (last ?x)"
      using arg_cong [OF m, of last] ne False by (simp add: last_map)
    moreover have "\<not> is_py_space (hd ?x) \<and> \<not> is_py_space (last ?x)"
      using py_strip_ends [of s] False by blast
    ultimately show ?thesis by blast
  qed (simp add: email_normalize_def)
qed

lemma pretty_email_match_no_lt: "CHR ''<'' \<notin> set s \<Longrightarrow> pretty_email_match s = None"
proof -
  assume "CHR ''<'' \<notin> set s"
  then have "dropWhile (\<lambda>c. c \<noteq> CHR ''<'') s = []" by (simp only: dropWhile_eq_Nil_conv) blast
  then show ?thesis by (simp add: pretty_email_match_def Let_def)
qed

lemma length_email_address: "length (email_address s) \<le> length s"
proof (cases "pretty_email_match s")
  case (Some a)
  let ?rest = "dropWhile (\<lambda>c. c \<noteq> CHR ''<'') s"
  let ?r = "rev (dropWhile (\<lambda>c. c = CHR '' '') (rev (tl ?rest)))"
  have a: "a = butlast ?r" using Some by (auto simp: pretty_email_match_def Let_def split: if_splits)
  have "length ?r \<le> length (tl ?rest)"
    using length_dropWhile_le [of "\<lambda>c. c = CHR '' ''" "rev (tl ?rest)"] by simp
  moreover have "length (tl ?rest) \<le> length s"
    using length_dropWhile_le [of "\<lambda>c. c \<noteq> CHR ''<''" s] by simp
  ultimately show ?thesis using Some a by (simp add: email_address_def)
qed (simp add: email_address_def)

lemma email_normalize_no_lt:
  assumes n: "CHR ''<'' \<notin> set x"
  shows "CHR ''<'' \<notin> set (email_normalize x)"
proof -
  have "CHR ''<'' \<notin> set (map py_lower (dropWhile (\<lambda>c. c \<noteq> CHR ''@'') x))"
  proof
    assume "CHR ''<'' \<in> set (map py_lower (dropWhile (\<lambda>c. c \<noteq> CHR ''@'') x))"
    then obtain y where y: "y \<in> set (dropWhile (\<lambda>c. c \<noteq> CHR ''@'') x)" and l: "CHR ''<'' = py_lower y"
      by auto
    from l have "y = CHR ''<''" by (metis py_lower_lt)
    with y n show False by (auto dest: set_dropWhileD)
  qed
  moreover have "CHR ''<'' \<notin> set (takeWhile (\<lambda>c. c \<noteq> CHR ''@'') x)" using n by (auto dest: set_takeWhileD)
  ultimately show ?thesis by (simp add: email_normalize_def)
qed

text \<open>
  What the development assumes of the address checker of \<open>email_validator\<close>:
  lowering the domain of an address it accepts gives an address it accepts,
  and it accepts no address containing \<open><\<close> (RFC 5322 allows no \<open><\<close>
  outside a quoted local part, which email-validator refuses).
\<close>

lemma req_email_refix:
  assumes ok: "\<And>x. email_ok x \<Longrightarrow> email_ok (email_normalize x) \<and> CHR ''<'' \<notin> set x"
    and v: "req_email email_ok b k = Inr e" and b': "b' k' = Some (JStr e)"
  shows "req_email email_ok b' k' = Inr e"
proof -
  from v obtain s where len: "length s \<le> 2048" and eo: "email_ok (py_strip (email_address s))"
    and at: "CHR ''@'' \<in> set (py_strip (email_address s))"
    and e: "e = email_normalize (py_strip (email_address s))"
    by (auto simp: req_email_def Let_def split: sum.splits if_splits)
  have nl: "CHR ''<'' \<notin> set e" using ok [OF eo] e email_normalize_no_lt by blast
  then have ea: "email_address e = e" by (simp add: email_address_def pretty_email_match_no_lt)
  have "py_strip e = e" using e py_strip_email_normalize by simp
  moreover have "length e \<le> 2048"
    using e len length_py_strip [of "email_address s"] length_email_address [of s] by simp
  moreover have "email_ok e" using ok [OF eo] e by simp
  moreover have "CHR ''@'' \<in> set e" using email_normalize_at [OF at] e by simp
  moreover have "email_normalize e = e" using e by simp
  ultimately show ?thesis using b' ea by (simp add: req_email_def req_str_def Let_def)
qed

end
