(* ===== verification/Service.thy ===== *)
theory Service
  imports DocStore Schemas
begin

text \<open>
  The handlers of main.py. Each endpoint is the body of its \<open>try\<close> block
  (\<open>*_try\<close>: the collection calls in the order the code makes them, every
  \<open>raise\<close> and early return as an \<open>Inl\<close> branch) wrapped by the
  \<open>except Exception as e: raise HTTPException(status_code=500, detail=str(e))\<close>
  clause (\<open>reraise_500\<close>). Since FastAPI's \<open>HTTPException\<close> is an
  \<open>Exception\<close>, that clause also catches the 404 raised inside the block. The
  state is the collection, passed explicitly; \<open>ObjectId(id)\<close>, evaluated up to
  three times by \<open>update_passenger\<close>, is pure and parsed once here.
\<close>

subsection \<open>Helpers\<close>

text \<open>\<open>passenger.get(k)\<close>: \<open>None\<close> for a missing field.\<close>

definition doc_get :: "doc \<Rightarrow> string \<Rightarrow> pyval" where
  "doc_get d k = (case d k of Some v \<Rightarrow> v | None \<Rightarrow> PNone)"

text \<open>The fields \<open>passenger_helper\<close> subscripts, in evaluation order.\<close>

definition helper_subscripts :: "string list" where
  "helper_subscripts = [''_id'', ''title'', ''given_name'', ''surname'', ''email'', ''mobile'']"

text \<open>
  \<open>passenger_helper\<close> (main.py lines 20-40): the first subscripted field that
  is missing raises \<open>KeyError\<close>; otherwise the response dict, \<open>"id"\<close> first.
\<close>

definition passenger_helper :: "doc \<Rightarrow> exc + pydict" where
  "passenger_helper p =
     (case find (\<lambda>k. p k = None) helper_subscripts of
        Some k \<Rightarrow> Inl (KeyError k)
      | None \<Rightarrow> Inr
          [(''id'', PStr (py_str (doc_get p ''_id''))),
           (''title'', doc_get p ''title''), (''given_name'', doc_get p ''given_name''),
           (''surname'', doc_get p ''surname''),
           (''passport_number'', doc_get p ''passport_number''),
           (''date_of_birth'', doc_get p ''date_of_birth''),
           (''date_of_expiration'', doc_get p ''date_of_expiration''),
           (''email'', doc_get p ''email''), (''mobile'', doc_get p ''mobile''),
           (''emergency_contact'', doc_get p ''emergency_contact''),
           (''organization_name'', doc_get p ''organization_name''),
           (''designation'', doc_get p ''designation''),
           (''frequent_flyer_number'', doc_get p ''frequent_flyer_number''),
           (''recent_route'', doc_get p ''recent_route''),
           (''favourite_carrier'', doc_get p ''favourite_carrier''),
           (''meal_preference'', doc_get p ''meal_preference''),
           (''accessibility'', doc_get p ''accessibility''),
           (''baggage_preference'', doc_get p ''baggage_preference'')])"

text \<open>
  \<open>convert_dates_to_string\<close> (lines 61-68): each of the two date keys, if
  present and holding a \<open>datetime.date\<close>, is replaced in place by its
  \<open>isoformat()\<close>.
\<close>

definition convert_date_key :: "string \<Rightarrow> pydict \<Rightarrow> pydict" where
  "convert_date_key key d =
     map (\<lambda>(k, v). (k, if k = key then (case v of PDate dt \<Rightarrow> PStr (isoformat dt) | _ \<Rightarrow> v) else v)) d"

definition convert_dates_to_string :: "pydict \<Rightarrow> pydict" where
  "convert_dates_to_string d =
     convert_date_key ''date_of_expiration'' (convert_date_key ''date_of_birth'' d)"

text \<open>
  \<open>{**a, **b}\<close> (line 105): the keys of \<open>a\<close> in order, with the values of
  \<open>b\<close> where \<open>b\<close> has the key, then the keys only \<open>b\<close> has.
\<close>

definition dict_merge :: "pydict \<Rightarrow> pydict \<Rightarrow> pydict" where
  "dict_merge a b =
     map (\<lambda>(k, v). (k, case map_of b k of Some v' \<Rightarrow> v' | None \<Rightarrow> v)) a @
     filter (\<lambda>(k, v). k \<notin> set (map fst a)) b"

text \<open>The truth value of \<open>find_one\<close>'s result: \<open>None\<close> and the empty dict are false.\<close>

definition doc_truthy :: "doc option \<Rightarrow> bool" where
  "doc_truthy r = (case r of None \<Rightarrow> False | Some p \<Rightarrow> p \<noteq> Map.empty)"

definition not_found :: exc where
  "not_found = HTTPException 404 ''Passenger not found''"

text \<open>The \<open>except Exception\<close> clause shared by the four passenger endpoints.\<close>

definition reraise_500 :: "exc + 'a \<Rightarrow> exc + 'a" where
  "reraise_500 r = (case r of Inl e \<Rightarrow> Inl (HTTPException 500 (exc_str e)) | Inr v \<Rightarrow> Inr v)"

subsection \<open>Endpoints\<close>

text \<open>\<open>GET /\<close> (lines 15-17).\<close>

definition root :: pydict where
  "root = [(''message'', PStr ''Welcome to the Passenger API!'')]"

text \<open>\<open>POST /passenger/create\<close> (lines 43-58); \<open>fresh\<close> is the driver's new ObjectId.\<close>

definition create_passenger_try ::
  "oid \<Rightarrow> passenger_create \<Rightarrow> collection \<Rightarrow> (exc + pydict) \<times> collection" where
  "create_passenger_try fresh passenger c =
     (let passenger_data = jsonable_encode passenger in
      case insert_one fresh passenger_data c of
        Inl e \<Rightarrow> (Inl e, c)
      | Inr (new_id, c1) \<Rightarrow>
          (case find_one new_id c1 of
             Inl e \<Rightarrow> (Inl e, c1)
           | Inr None \<Rightarrow> (Inl (HTTPException 404 ''Passenger not found after creation''), c1)
           | Inr (Some created) \<Rightarrow> (passenger_helper created, c1)))"

definition create_passenger ::
  "oid \<Rightarrow> passenger_create \<Rightarrow> collection \<Rightarrow> (exc + pydict) \<times> collection" where
  "create_passenger fresh passenger c = apfst reraise_500 (create_passenger_try fresh passenger c)"

text \<open>\<open>GET /passenger/{id}\<close> (lines 71-85).\<close>

definition get_passenger_try :: "string \<Rightarrow> collection \<Rightarrow> (exc + pydict) \<times> collection" where
  "get_passenger_try pid c =
     (case objectid_of_str pid of
        None \<Rightarrow> (Inl (InvalidId pid), c)
      | Some oi \<Rightarrow>
          (case find_one (POid oi) c of
             Inl e \<Rightarrow> (Inl e, c)
           | Inr found \<Rightarrow>
               (case found of
                  Some passenger \<Rightarrow>
                    if doc_truthy found then (passenger_helper passenger, c) else (Inl not_found, c)
                | None \<Rightarrow> (Inl not_found, c))))"

definition get_passenger :: "string \<Rightarrow> collection \<Rightarrow> (exc + pydict) \<times> collection" where
  "get_passenger pid c = apfst reraise_500 (get_passenger_try pid c)"

text \<open>\<open>PUT /passenger/{id}/update\<close> (lines 88-123).\<close>

definition update_passenger_try ::
  "string \<Rightarrow> passenger_create \<Rightarrow> collection \<Rightarrow> (exc + pydict) \<times> collection" where
  "update_passenger_try pid passenger c =
     (case objectid_of_str pid of
        None \<Rightarrow> (Inl (InvalidId pid), c)
      | Some oi \<Rightarrow>
          (case find_one (POid oi) c of
             Inl e \<Rightarrow> (Inl e, c)
           | Inr found \<Rightarrow>
               (case found of
                  None \<Rightarrow> (Inl not_found, c)
                | Some existing_passenger \<Rightarrow>
                    if \<not> doc_truthy found then (Inl not_found, c)
                    else
                      (case passenger_helper existing_passenger of
                         Inl e \<Rightarrow> (Inl e, c)
                       | Inr existing_passenger_data \<Rightarrow>
                           (let update_data = dict_exclude_unset passenger;
                                merged_data = convert_dates_to_string
                                                (dict_merge existing_passenger_data update_data)
                            in case update_one (POid oi) merged_data c of
                                 Inl e \<Rightarrow> (Inl e, c)
                               | Inr (update_result, c1) \<Rightarrow>
                                   if modified_count update_result = 1 then
                                     (case find_one (POid oi) c1 of
                                        Inl e \<Rightarrow> (Inl e, c1)
                                      | Inr found' \<Rightarrow>
                                          (case found' of
                                             Some updated_passenger \<Rightarrow>
                                               if doc_truthy found'
                                               then (passenger_helper updated_passenger, c1)
                                               else (Inl not_found, c1)
                                           | None \<Rightarrow> (Inl not_found, c1)))
                                   else (Inl not_found, c1))))))"

definition update_passenger ::
  "string \<Rightarrow> passenger_create \<Rightarrow> collection \<Rightarrow> (exc + pydict) \<times> collection" where
  "update_passenger pid passenger c = apfst reraise_500 (update_passenger_try pid passenger c)"

text \<open>\<open>DELETE /passenger/{id}/delete\<close> (lines 126-139).\<close>

definition delete_passenger_try :: "string \<Rightarrow> collection \<Rightarrow> (exc + pydict) \<times> collection" where
  "delete_passenger_try pid c =
     (case objectid_of_str pid of
        None \<Rightarrow> (Inl (InvalidId pid), c)
      | Some oi \<Rightarrow>
          (case delete_one (POid oi) c of
             Inl e \<Rightarrow> (Inl e, c)
           | Inr (deleted_count, c1) \<Rightarrow>
               if deleted_count = 1
               then (Inr [(''message'', PStr ''Passenger deleted successfully'')], c1)
               else (Inl not_found, c1)))"

definition delete_passenger :: "string \<Rightarrow> collection \<Rightarrow> (exc + pydict) \<times> collection" where
  "delete_passenger pid c = apfst reraise_500 (delete_passenger_try pid c)"

subsection \<open>Well-formed stored documents\<close>

text \<open>
  What every document this service writes looks like: its key is a twelve-byte
  ObjectId also stored under \<open>_id\<close>; the five required fields hold strings;
  the ten optional string fields hold a string or \<open>None\<close>; the two date fields
  hold \<open>None\<close> or the ISO form of a valid date; the \<open>id\<close> field that
  \<open>update_passenger\<close> writes, if present, is \<open>str(_id)\<close>; no other field.
\<close>

definition optional_str_fields :: "string list" where
  "optional_str_fields =
     [''passport_number'', ''emergency_contact'', ''organization_name'', ''designation'',
      ''frequent_flyer_number'', ''recent_route'', ''favourite_carrier'', ''meal_preference'',
      ''accessibility'', ''baggage_preference'']"

definition date_fields :: "string list" where
  "date_fields = [''date_of_birth'', ''date_of_expiration'']"

definition is_str_val :: "pyval \<Rightarrow> bool" where
  "is_str_val v = (case v of PStr _ \<Rightarrow> True | _ \<Rightarrow> False)"

definition is_opt_str_val :: "pyval \<Rightarrow> bool" where
  "is_opt_str_val v = (case v of PNone \<Rightarrow> True | PStr _ \<Rightarrow> True | _ \<Rightarrow> False)"

definition iso_date_val :: "pyval \<Rightarrow> bool" where
  "iso_date_val v =
     (case v of
        PNone \<Rightarrow> True
      | PStr s \<Rightarrow> (case parse_date_str s of Some dt \<Rightarrow> isoformat dt = s | None \<Rightarrow> False)
      | _ \<Rightarrow> False)"

definition field_ok :: "(pyval \<Rightarrow> bool) \<Rightarrow> doc \<Rightarrow> string \<Rightarrow> bool" where
  "field_ok P d f = (case d f of Some v \<Rightarrow> P v | None \<Rightarrow> False)"

definition wf_doc :: "pyval \<Rightarrow> doc \<Rightarrow> bool" where
  "wf_doc k d \<longleftrightarrow>
     (case k of POid oi \<Rightarrow> valid_oid oi | _ \<Rightarrow> False) \<and> d ''_id'' = Some k \<and>
     list_all (field_ok is_str_val d) required_fields \<and>
     list_all (field_ok is_opt_str_val d) optional_str_fields \<and>
     list_all (field_ok iso_date_val d) date_fields \<and>
     (case d ''id'' of None \<Rightarrow> True | Some v \<Rightarrow> v = PStr (py_str k)) \<and>
     dom d \<subseteq> set (''_id'' # ''id'' # passenger_fields)"

definition wf_store :: "collection \<Rightarrow> bool" where
  "wf_store c \<longleftrightarrow> (\<forall>k d. docs c k = Some d \<longrightarrow> wf_doc k d)"


subsection \<open>Derived notions\<close>

text \<open>
  The document \<open>create_passenger\<close> stores: the encoded input with the
  generated \<open>_id\<close>; and what \<open>convert_dates_to_string\<close> does to one entry.
\<close>

definition created_doc :: "oid \<Rightarrow> passenger_create \<Rightarrow> doc" where
  "created_doc fresh p = (map_of (jsonable_encode p))(''_id'' \<mapsto> POid fresh)"

definition date_to_str :: "string \<Rightarrow> pyval \<Rightarrow> pyval" where
  "date_to_str k v =
     (if k \<in> {''date_of_birth'', ''date_of_expiration''} then json_encode_value v else v)"

subsection \<open>Sample data\<close>

text \<open>The example of the specification's section 8: Jane Doe, no optional field.\<close>

definition ex_oid :: oid where
  "ex_oid = ObjectId [0x65, 0x4a, 0x1f, 0, 0xff, 0x10, 9, 0xab, 0xcd, 0xef, 1, 2]"

definition ex_passenger :: passenger_create where
  "ex_passenger =
     \<lparr>title = ''Mr'', given_name = ''Jane'', surname = ''Doe'', passport_number = None,
      date_of_birth = None, date_of_expiration = None, email = ''jane@example.com'',
      mobile = ''+10000000000'', emergency_contact = None, organization_name = None,
      designation = None, frequent_flyer_number = None, recent_route = None,
      favourite_carrier = None, meal_preference = None, accessibility = None,
      baggage_preference = None, fields_set = required_fields\<rparr>"

definition empty_coll :: collection where
  "empty_coll = \<lparr>docs = Map.empty, online = True\<rparr>"

subsection \<open>Basic facts\<close>

lemma ex_oid_valid: "valid_oid ex_oid"
  by (simp add: valid_oid_def ex_oid_def)

lemma ex_pid_parse: "objectid_of_str ''654a1f00ff1009abcdef0102'' = Some ex_oid"
  by (simp add: objectid_of_str_def hex_val_def is_hex_space_def ex_oid_def)

lemma exc_str_not_found: "exc_str not_found = ''404: Passenger not found''"
  by (simp add: not_found_def decimal.simps digit_char_def)

lemma reraise_500_simps [simp]:
  "reraise_500 (Inl e) = Inl (HTTPException 500 (exc_str e))"
  "reraise_500 (Inr v) = Inr v"
  by (simp_all add: reraise_500_def)

lemma reraise_500_Inr: "apfst reraise_500 x = (Inr r, c') \<longleftrightarrow> x = (Inr r, c')"
  by (cases x) (auto simp: reraise_500_def split: sum.splits)

lemma passenger_dict_keys: "map fst (passenger_dict p) = passenger_fields"
  by (simp add: passenger_dict_def passenger_fields_def)

lemma distinct_passenger_fields: "distinct passenger_fields"
  by (simp add: passenger_fields_def)

lemma id_notin_fields [simp]: "''id'' \<notin> set passenger_fields" "''_id'' \<notin> set passenger_fields"
  by (simp_all add: passenger_fields_def)

lemma jsonable_encode_keys: "map fst (jsonable_encode p) = passenger_fields"
  by (simp add: jsonable_encode_def passenger_dict_def passenger_fields_def)

lemma jsonable_encode_no_id: "map_of (jsonable_encode p) ''_id'' = None"
  by (simp add: jsonable_encode_def passenger_dict_def)

lemma map_of_helper_view:
  "map_of ((''id'', v) # map (\<lambda>f. (f, g f)) passenger_fields) f =
     (if f = ''id'' then Some v else if f \<in> set passenger_fields then Some (g f) else None)"
  by (auto simp: dict_simps)

subsection \<open>passenger_helper\<close>

lemma passenger_helper_fields:
  "list_all (\<lambda>k. d k \<noteq> None) helper_subscripts \<Longrightarrow>
   passenger_helper d = Inr ((''id'', PStr (py_str (doc_get d ''_id''))) # map (\<lambda>f. (f, doc_get d f)) passenger_fields)"
proof -
  assume "list_all (\<lambda>k. d k \<noteq> None) helper_subscripts"
  then have "find (\<lambda>k. d k = None) helper_subscripts = None"
    by (simp add: find_None_iff list_all_iff)
  then show ?thesis by (simp add: passenger_helper_def passenger_fields_def)
qed

lemma passenger_helper_Inr:
  "passenger_helper d = Inr old \<Longrightarrow>
   list_all (\<lambda>k. d k \<noteq> None) helper_subscripts \<and>
   old = (''id'', PStr (py_str (doc_get d ''_id''))) # map (\<lambda>f. (f, doc_get d f)) passenger_fields"
proof -
  assume h: "passenger_helper d = Inr old"
  then have "find (\<lambda>k. d k = None) helper_subscripts = None"
    by (auto simp: passenger_helper_def split: option.splits)
  then have l: "list_all (\<lambda>k. d k \<noteq> None) helper_subscripts"
    by (simp add: find_None_iff list_all_iff)
  with h passenger_helper_fields [OF l] show ?thesis by simp
qed

lemma helper_keys: "passenger_helper d = Inr old \<Longrightarrow> map fst old = ''id'' # passenger_fields"
  by (auto dest!: passenger_helper_Inr simp: comp_def)

lemma helper_truthy: "passenger_helper d = Inr old \<Longrightarrow> doc_truthy (Some d) \<and> d ''_id'' \<noteq> None"
  by (auto dest!: passenger_helper_Inr simp: doc_truthy_def helper_subscripts_def)

lemma map_of_old_field:
  "passenger_helper d = Inr old \<Longrightarrow> f \<in> set passenger_fields \<Longrightarrow> map_of old f = Some (doc_get d f)"
proof -
  assume h: "passenger_helper d = Inr old" and f: "f \<in> set passenger_fields"
  from h have "old = (''id'', PStr (py_str (doc_get d ''_id''))) # map (\<lambda>f. (f, doc_get d f)) passenger_fields"
    by (auto dest: passenger_helper_Inr)
  moreover from f have "f \<noteq> ''id''" by auto
  ultimately show ?thesis using f by (simp only: map_of_helper_view) simp
qed

lemma map_of_old_id:
  "passenger_helper d = Inr old \<Longrightarrow> map_of old ''id'' = Some (PStr (py_str (doc_get d ''_id'')))"
proof -
  assume h: "passenger_helper d = Inr old"
  from h have "old = (''id'', PStr (py_str (doc_get d ''_id''))) # map (\<lambda>f. (f, doc_get d f)) passenger_fields"
    by (auto dest: passenger_helper_Inr)
  then show ?thesis by simp
qed

subsection \<open>Create\<close>

lemma created_doc_view:
  "map (\<lambda>f. (f, doc_get (created_doc fresh p) f)) passenger_fields = jsonable_encode p"
  by (simp add: created_doc_def doc_get_def jsonable_encode_def passenger_dict_def passenger_fields_def)

lemma created_doc_required: "list_all (\<lambda>k. created_doc fresh p k \<noteq> None) helper_subscripts"
  by (simp add: created_doc_def jsonable_encode_def passenger_dict_def helper_subscripts_def)

lemma passenger_helper_created:
  "passenger_helper (created_doc fresh p) = Inr ((''id'', PStr (objectid_str fresh)) # jsonable_encode p)"
proof -
  have "doc_get (created_doc fresh p) ''_id'' = POid fresh"
    by (simp add: doc_get_def created_doc_def)
  with passenger_helper_fields [OF created_doc_required] created_doc_view show ?thesis
    by simp
qed

lemma created_doc_truthy: "doc_truthy (Some (created_doc fresh p))"
  by (simp add: doc_truthy_def created_doc_def)

lemma create_stores_new:
  "online c \<Longrightarrow> POid fresh \<notin> dom (docs c) \<Longrightarrow>
   create_passenger fresh p c =
     (Inr ((''id'', PStr (objectid_str fresh)) # jsonable_encode p),
      c\<lparr>docs := (docs c)(POid fresh \<mapsto> created_doc fresh p)\<rparr>)"
  by (simp add: create_passenger_def create_passenger_try_def insert_one_online jsonable_encode_no_id
      find_one_online passenger_helper_created flip: created_doc_def)

text \<open>
  C1: Create. When the store is reachable and the generated identifier is new,
  \<open>create_passenger\<close> stores the encoded input under that identifier and answers
  with \<open>"id"\<close> (the identifier printed in hexadecimal) followed by every field of
  the input in declaration order, dates in ISO form.
\<close>

theorem create_returns_input:
  "online c \<Longrightarrow> POid fresh \<notin> dom (docs c) \<Longrightarrow>
   create_passenger fresh p c =
     (Inr ((''id'', PStr (objectid_str fresh)) # jsonable_encode p),
      c\<lparr>docs := (docs c)(POid fresh \<mapsto> created_doc fresh p)\<rparr>)"
  by (rule create_stores_new)

theorem create_returns_input_witness:
  "online empty_coll \<and> POid ex_oid \<notin> dom (docs empty_coll) \<and>
   create_passenger ex_oid ex_passenger empty_coll =
     (Inr ((''id'', PStr (objectid_str ex_oid)) # jsonable_encode ex_passenger),
      empty_coll\<lparr>docs := (docs empty_coll)(POid ex_oid \<mapsto> created_doc ex_oid ex_passenger)\<rparr>)"
  using create_returns_input [of empty_coll ex_oid ex_passenger] by (simp add: empty_coll_def)

text \<open>
  C2: Read after create. Reading the identifier that a successful create
  returned (a valid twelve-byte ObjectId) answers with exactly the record the
  create answered with, and leaves the store as the create left it.
\<close>

theorem read_after_create:
  "online c \<Longrightarrow> valid_oid fresh \<Longrightarrow> POid fresh \<notin> dom (docs c) \<Longrightarrow>
   create_passenger fresh p c = (r, c') \<Longrightarrow> get_passenger (objectid_str fresh) c' = (r, c')"
proof -
  assume on: "online c" and v: "valid_oid fresh" and fr: "POid fresh \<notin> dom (docs c)"
    and cr: "create_passenger fresh p c = (r, c')"
  from cr create_stores_new [OF on fr]
  have r: "r = Inr ((''id'', PStr (objectid_str fresh)) # jsonable_encode p)"
    and c': "c' = c\<lparr>docs := (docs c)(POid fresh \<mapsto> created_doc fresh p)\<rparr>" by simp_all
  show ?thesis
    using on r c' objectid_roundtrip [OF v] created_doc_truthy [of fresh p]
    by (simp add: get_passenger_def get_passenger_try_def find_one_online passenger_helper_created)
qed

theorem read_after_create_witness:
  "get_passenger (objectid_str ex_oid) (snd (create_passenger ex_oid ex_passenger empty_coll)) =
     create_passenger ex_oid ex_passenger empty_coll"
  using read_after_create [of empty_coll ex_oid ex_passenger
      "fst (create_passenger ex_oid ex_passenger empty_coll)"
      "snd (create_passenger ex_oid ex_passenger empty_coll)"] ex_oid_valid
  by (simp add: empty_coll_def)

subsection \<open>Read\<close>

text \<open>
  C3: Reading a well-formed identifier that names no record does not answer
  404: the \<open>HTTPException(404)\<close> raised inside the \<open>try\<close> block is caught by
  \<open>except Exception\<close> and re-raised as a 500 whose detail is
  \<open>"404: Passenger not found"\<close>.
\<close>

theorem get_missing_is_500:
  "objectid_of_str pid = Some oi \<Longrightarrow> online c \<Longrightarrow> docs c (POid oi) = None \<Longrightarrow>
   get_passenger pid c = (Inl (HTTPException 500 ''404: Passenger not found''), c)"
  by (simp add: get_passenger_def get_passenger_try_def find_one_online exc_str_not_found)

theorem get_missing_is_500_witness:
  "get_passenger ''654a1f00ff1009abcdef0102'' empty_coll =
     (Inl (HTTPException 500 ''404: Passenger not found''), empty_coll)"
  using get_missing_is_500 [OF ex_pid_parse] by (simp add: empty_coll_def)

subsection \<open>Update\<close>

lemma exclude_unset_keys: "set (map fst (dict_exclude_unset p)) \<subseteq> set passenger_fields"
proof -
  have "set (map fst (dict_exclude_unset p)) \<subseteq> set (map fst (passenger_dict p))"
    unfolding dict_exclude_unset_def by (induction "passenger_dict p") auto
  then show ?thesis by (simp add: passenger_dict_keys)
qed

lemma map_of_exclude_unset:
  "map_of (dict_exclude_unset p) f =
     (if f \<in> set (fields_set p) then map_of (passenger_dict p) f else None)"
  unfolding dict_exclude_unset_def by (simp add: dict_simps)

lemma dict_merge_sub:
  "set (map fst b) \<subseteq> set (map fst a) \<Longrightarrow>
   dict_merge a b = map (\<lambda>(k, v). (k, case map_of b k of Some v' \<Rightarrow> v' | None \<Rightarrow> v)) a"
proof -
  assume sub: "set (map fst b) \<subseteq> set (map fst a)"
  have "filter (\<lambda>(k, v). k \<notin> set (map fst a)) b = []"
    using sub by (force simp: filter_empty_conv)
  then show ?thesis by (simp add: dict_merge_def)
qed

lemma convert_dates_map:
  "convert_dates_to_string d = map (\<lambda>(k, v). (k, date_to_str k v)) d"
  by (induction d) (auto simp: convert_dates_to_string_def convert_date_key_def date_to_str_def
      json_encode_value_def split: pyval.splits)

lemma merged_payload:
  "passenger_helper d = Inr old \<Longrightarrow>
   convert_dates_to_string (dict_merge old (dict_exclude_unset p)) =
     map (\<lambda>(k, v). (k, date_to_str k (case map_of (dict_exclude_unset p) k of Some v' \<Rightarrow> v' | None \<Rightarrow> v))) old"
proof -
  assume h: "passenger_helper d = Inr old"
  then have "set (map fst old) = insert ''id'' (set passenger_fields)"
    by (simp add: helper_keys)
  with exclude_unset_keys [of p] have "set (map fst (dict_exclude_unset p)) \<subseteq> set (map fst old)"
    by blast
  then show ?thesis by (simp add: dict_merge_sub convert_dates_map split: prod.splits)
qed

lemma merged_keys:
  "passenger_helper d = Inr old \<Longrightarrow>
   map fst (convert_dates_to_string (dict_merge old (dict_exclude_unset p))) = ''id'' # passenger_fields"
proof -
  assume h: "passenger_helper d = Inr old"
  have "map fst (map (\<lambda>(k, v). (k, date_to_str k (case map_of (dict_exclude_unset p) k of Some v' \<Rightarrow> v' | None \<Rightarrow> v))) old) = map fst old"
    by (rule map_keys_values)
  with h show ?thesis by (simp only: merged_payload helper_keys)
qed

lemma no_id_in_payload:
  "''_id'' \<notin> set (map fst m) \<Longrightarrow> \<not> list_ex (\<lambda>(f, v). f = ''_id'' \<and> d f \<noteq> Some v) m"
  by (force simp: list_ex_iff)

lemma update_passenger_try_found:
  assumes pid: "objectid_of_str pid = Some oi" and on: "online c"
    and d: "docs c (POid oi) = Some d" and h: "passenger_helper d = Inr old"
  shows "update_passenger_try pid p c =
     (let m = convert_dates_to_string (dict_merge old (dict_exclude_unset p)) in
      if set_changes d m
      then (passenger_helper (set_fields d m), c\<lparr>docs := (docs c)(POid oi \<mapsto> set_fields d m)\<rparr>)
      else (Inl not_found, c))"
proof -
  let ?m = "convert_dates_to_string (dict_merge old (dict_exclude_unset p))"
  have keys: "map fst ?m = ''id'' # passenger_fields" using h by (rule merged_keys)
  then have noid: "\<not> list_ex (\<lambda>(f, v). f = ''_id'' \<and> d f \<noteq> Some v) ?m"
    by (intro no_id_in_payload) simp
  have id': "set_fields d ?m ''_id'' = d ''_id''"
    using keys by (simp add: set_fields_def)
  from h have t: "doc_truthy (Some d)" and i: "d ''_id'' \<noteq> None" by (auto dest: helper_truthy)
  have t': "doc_truthy (Some (set_fields d ?m))"
    using id' i by (auto simp: doc_truthy_def)
  show ?thesis
    using pid on d h t t' noid
    by (simp add: update_passenger_try_def find_one_online update_one_found Let_def)
qed

lemma passenger_dict_date_keys:
  "map_of (passenger_dict p) f = Some v \<Longrightarrow> f \<notin> {''date_of_birth'', ''date_of_expiration''} \<Longrightarrow>
   json_encode_value v = v"
  by (auto simp: passenger_dict_def opt_pystr_def json_encode_value_def split: if_splits option.splits)

lemma wf_doc_no_date_obj:
  "wf_doc k d \<Longrightarrow> date_to_str f (doc_get d f) = doc_get d f"
proof -
  assume w: "wf_doc k d"
  show ?thesis
  proof (cases "f \<in> {''date_of_birth'', ''date_of_expiration''}")
    case True
    with w have "field_ok iso_date_val d f" by (auto simp: wf_doc_def date_fields_def)
    then show ?thesis
      by (auto simp: field_ok_def iso_date_val_def date_to_str_def doc_get_def json_encode_value_def
          split: option.splits pyval.splits)
  next
    case False
    then show ?thesis by (simp add: date_to_str_def)
  qed
qed

lemma updated_field:
  assumes h: "passenger_helper d = Inr old" and f: "f \<in> set passenger_fields"
  shows "doc_get (set_fields d (convert_dates_to_string (dict_merge old (dict_exclude_unset p)))) f =
     date_to_str f (case map_of (dict_exclude_unset p) f of Some v' \<Rightarrow> v' | None \<Rightarrow> doc_get d f)"
proof -
  let ?m = "convert_dates_to_string (dict_merge old (dict_exclude_unset p))"
  have dk: "distinct (map fst ?m)"
    using merged_keys [OF h] distinct_passenger_fields by simp
  have "map_of ?m f = map_option (\<lambda>v. date_to_str f (case map_of (dict_exclude_unset p) f of Some v' \<Rightarrow> v' | None \<Rightarrow> v)) (map_of old f)"
    by (simp only: merged_payload [OF h] map_of_map_values)
  then have "map_of ?m f = Some (date_to_str f (case map_of (dict_exclude_unset p) f of Some v' \<Rightarrow> v' | None \<Rightarrow> doc_get d f))"
    by (simp add: map_of_old_field [OF h f])
  with dk show ?thesis by (simp add: set_fields_lookup doc_get_def)
qed

lemma updated_id:
  assumes h: "passenger_helper d = Inr old"
  shows "doc_get (set_fields d (convert_dates_to_string (dict_merge old (dict_exclude_unset p)))) ''_id'' = doc_get d ''_id''"
  using merged_keys [OF h] by (simp add: set_fields_def doc_get_def)

subsection \<open>Well-formedness of written documents\<close>

lemma iso_date_val_isoformat: "valid_date dt \<Longrightarrow> iso_date_val (PStr (isoformat dt))"
  by (simp add: iso_date_val_def isoformat_roundtrip)

lemma iso_date_val_opt:
  "pred_option valid_date x \<Longrightarrow> iso_date_val (json_encode_value (opt_pydate x))"
  by (cases x) (auto simp: opt_pydate_def json_encode_value_def iso_date_val_def isoformat_roundtrip)

lemma wf_created_doc:
  assumes v: "valid_oid fresh" and dv: "valid_dates p"
  shows "wf_doc (POid fresh) (created_doc fresh p)"
proof -
  have "list_all (field_ok is_str_val (created_doc fresh p)) required_fields"
    by (simp add: field_ok_def created_doc_def jsonable_encode_def passenger_dict_def required_fields_def
        is_str_val_def json_encode_value_def)
  moreover have "list_all (field_ok is_opt_str_val (created_doc fresh p)) optional_str_fields"
    by (simp add: field_ok_def created_doc_def jsonable_encode_def passenger_dict_def optional_str_fields_def
        is_opt_str_val_def json_encode_value_def opt_pystr_def split: option.splits)
  moreover have "list_all (field_ok iso_date_val (created_doc fresh p)) date_fields"
    using dv iso_date_val_opt
    by (simp add: field_ok_def created_doc_def jsonable_encode_def passenger_dict_def date_fields_def valid_dates_def)
  moreover have "dom (created_doc fresh p) \<subseteq> set (''_id'' # ''id'' # passenger_fields)"
  proof -
    have "dom (map_of (jsonable_encode p)) = set passenger_fields"
      by (simp only: dom_map_of_conv_image_fst set_map [symmetric] jsonable_encode_keys)
    then show ?thesis by (auto simp: created_doc_def)
  qed
  moreover have "created_doc fresh p ''id'' = None"
    by (simp add: created_doc_def jsonable_encode_def passenger_dict_def)
  ultimately show ?thesis using v by (simp add: wf_doc_def created_doc_def)
qed

lemma merged_lookup:
  assumes h: "passenger_helper d = Inr old" and f: "f \<in> set passenger_fields"
  shows "map_of (convert_dates_to_string (dict_merge old (dict_exclude_unset p))) f =
     Some (date_to_str f (case map_of (dict_exclude_unset p) f of Some v' \<Rightarrow> v' | None \<Rightarrow> doc_get d f))"
proof -
  have "map_of (convert_dates_to_string (dict_merge old (dict_exclude_unset p))) f =
        map_option (\<lambda>v. date_to_str f (case map_of (dict_exclude_unset p) f of Some v' \<Rightarrow> v' | None \<Rightarrow> v)) (map_of old f)"
    by (simp only: merged_payload [OF h] map_of_map_values)
  then show ?thesis by (simp add: map_of_old_field [OF h f])
qed

lemma updated_field_some:
  assumes h: "passenger_helper d = Inr old" and f: "f \<in> set passenger_fields"
  shows "set_fields d (convert_dates_to_string (dict_merge old (dict_exclude_unset p))) f =
     Some (date_to_str f (case map_of (dict_exclude_unset p) f of Some v' \<Rightarrow> v' | None \<Rightarrow> doc_get d f))"
proof -
  have dk: "distinct (map fst (convert_dates_to_string (dict_merge old (dict_exclude_unset p))))"
    using merged_keys [OF h] distinct_passenger_fields by simp
  show ?thesis by (simp only: set_fields_lookup [OF dk] merged_lookup [OF h f] option.case)
qed

lemma field_ok_updated:
  assumes h: "passenger_helper d = Inr old" and f: "f \<in> set passenger_fields"
    and new: "f \<in> set (fields_set p) \<Longrightarrow> P (date_to_str f (the (map_of (passenger_dict p) f)))"
    and keep: "f \<notin> set (fields_set p) \<Longrightarrow> P (date_to_str f (doc_get d f))"
  shows "field_ok P (set_fields d (convert_dates_to_string (dict_merge old (dict_exclude_unset p)))) f"
proof (cases "f \<in> set (fields_set p)")
  case True
  have "f \<in> set (map fst (passenger_dict p))" using f by (simp add: passenger_dict_keys)
  then obtain v where v: "map_of (passenger_dict p) f = Some v"
    by (cases "map_of (passenger_dict p) f") (auto simp: map_of_eq_None_iff)
  have "field_ok P (set_fields d (convert_dates_to_string (dict_merge old (dict_exclude_unset p)))) f =
        P (date_to_str f v)"
    using True v by (simp add: field_ok_def updated_field_some [OF h f] map_of_exclude_unset)
  with True new v show ?thesis by simp
next
  case False
  have "field_ok P (set_fields d (convert_dates_to_string (dict_merge old (dict_exclude_unset p)))) f =
        P (date_to_str f (doc_get d f))"
    using False by (simp add: field_ok_def updated_field_some [OF h f] map_of_exclude_unset)
  with False keep show ?thesis by simp
qed

lemma dom_set_fields: "dom (set_fields d p) = dom d \<union> set (map fst p)"
  unfolding set_fields_def by (induction p arbitrary: d) auto

lemma required_in_fields: "set required_fields \<subseteq> set passenger_fields"
  by (simp add: required_fields_def passenger_fields_def)

lemma optional_in_fields: "set optional_str_fields \<subseteq> set passenger_fields"
  by (simp add: optional_str_fields_def passenger_fields_def)

lemma dates_in_fields: "set date_fields \<subseteq> set passenger_fields"
  by (simp add: date_fields_def passenger_fields_def)

lemma passenger_dict_no_id: "map_of (passenger_dict p) ''id'' = None"
  by (simp add: passenger_dict_def)

lemma date_to_str_other: "f \<notin> set date_fields \<Longrightarrow> date_to_str f v = v"
  by (simp add: date_to_str_def date_fields_def)

lemma date_to_str_date: "f \<in> set date_fields \<Longrightarrow> date_to_str f v = json_encode_value v"
  by (simp add: date_to_str_def date_fields_def)

lemma field_groups_disjoint:
  "f \<in> set required_fields \<Longrightarrow> f \<notin> set date_fields"
  "f \<in> set optional_str_fields \<Longrightarrow> f \<notin> set date_fields"
  by (auto simp: required_fields_def optional_str_fields_def date_fields_def)

lemma passenger_dict_required:
  "\<forall>f \<in> set required_fields. is_str_val (the (map_of (passenger_dict p) f))"
  by (simp add: required_fields_def passenger_dict_def is_str_val_def)

lemma passenger_dict_optional:
  "\<forall>f \<in> set optional_str_fields. is_opt_str_val (the (map_of (passenger_dict p) f))"
  by (simp add: optional_str_fields_def passenger_dict_def is_opt_str_val_def opt_pystr_def
      split: option.splits)

lemma passenger_dict_dates:
  "valid_dates p \<Longrightarrow> \<forall>f \<in> set date_fields. iso_date_val (json_encode_value (the (map_of (passenger_dict p) f)))"
  by (simp add: date_fields_def passenger_dict_def valid_dates_def iso_date_val_opt)

lemma wf_doc_fields:
  assumes "wf_doc k d"
  shows "f \<in> set required_fields \<Longrightarrow> is_str_val (doc_get d f)"
    and "f \<in> set optional_str_fields \<Longrightarrow> is_opt_str_val (doc_get d f)"
    and "f \<in> set date_fields \<Longrightarrow> iso_date_val (doc_get d f)"
  using assms by (auto simp: wf_doc_def list_all_iff field_ok_def doc_get_def split: option.splits)

lemma merged_id_lookup:
  assumes h: "passenger_helper d = Inr old"
  shows "map_of (convert_dates_to_string (dict_merge old (dict_exclude_unset p))) ''id'' =
           Some (PStr (py_str (doc_get d ''_id'')))"
proof -
  have "map_of (convert_dates_to_string (dict_merge old (dict_exclude_unset p))) ''id'' =
          map_option (\<lambda>v. date_to_str ''id'' (case map_of (dict_exclude_unset p) ''id'' of Some v' \<Rightarrow> v' | None \<Rightarrow> v)) (map_of old ''id'')"
    by (simp only: merged_payload [OF h] map_of_map_values)
  then show ?thesis
    by (simp add: map_of_old_id [OF h] map_of_exclude_unset date_to_str_def passenger_dict_no_id)
qed

lemma wf_doc_updated:
  assumes w: "wf_doc k d" and h: "passenger_helper d = Inr old" and dv: "valid_dates p"
  shows "wf_doc k (set_fields d (convert_dates_to_string (dict_merge old (dict_exclude_unset p))))"
proof -
  let ?m = "convert_dates_to_string (dict_merge old (dict_exclude_unset p))"
  let ?d' = "set_fields d ?m"
  have keys: "map fst ?m = ''id'' # passenger_fields" by (rule merged_keys [OF h])
  have req: "list_all (field_ok is_str_val ?d') required_fields"
    unfolding list_all_iff
  proof
    fix f assume f: "f \<in> set required_fields"
    then have nd: "f \<notin> set date_fields" by (rule field_groups_disjoint)
    show "field_ok is_str_val ?d' f"
      using f required_in_fields passenger_dict_required wf_doc_fields(1) [OF w f]
      by (intro field_ok_updated [OF h]) (auto simp: date_to_str_other [OF nd])
  qed
  have opt: "list_all (field_ok is_opt_str_val ?d') optional_str_fields"
    unfolding list_all_iff
  proof
    fix f assume f: "f \<in> set optional_str_fields"
    then have nd: "f \<notin> set date_fields" by (rule field_groups_disjoint)
    show "field_ok is_opt_str_val ?d' f"
      using f optional_in_fields passenger_dict_optional wf_doc_fields(2) [OF w f]
      by (intro field_ok_updated [OF h]) (auto simp: date_to_str_other [OF nd])
  qed
  have dat: "list_all (field_ok iso_date_val ?d') date_fields"
    unfolding list_all_iff
  proof
    fix f assume f: "f \<in> set date_fields"
    show "field_ok iso_date_val ?d' f"
      using f dates_in_fields passenger_dict_dates [OF dv] wf_doc_fields(3) [OF w f]
        wf_doc_no_date_obj [OF w, of f]
      by (intro field_ok_updated [OF h]) (auto simp: date_to_str_date [OF f])
  qed
  have idk: "?d' ''_id'' = d ''_id''" using keys by (simp add: set_fields_def)
  have idv: "?d' ''id'' = Some (PStr (py_str (doc_get d ''_id'')))"
    using merged_id_lookup [OF h, of p] keys distinct_passenger_fields by (simp add: set_fields_lookup)
  have "dom ?d' \<subseteq> set (''_id'' # ''id'' # passenger_fields)"
    using w keys by (auto simp: dom_set_fields wf_doc_def)
  with w req opt dat idk idv show ?thesis
    by (simp add: wf_doc_def doc_get_def)
qed

end
