(* ===== verification/UpdateSeq.thy ===== *)
theory UpdateSeq
  imports Service
begin

text \<open>
  Sequences of requests around \<open>PUT /passenger/{id}/update\<close> (src/main.py,
  lines 88-123): what one update answers (the merge of the body's set fields
  over the stored record), the first update after a create, an update with the
  create's own body, and an identical update repeated on the record it has just
  written. The last one exposes the \<open>modified_count == 0\<close> branch: MongoDB
  counts a \<open>$set\<close> that changes no value as unmodified, so the repeat raises the
  404 that the handler's \<open>except Exception\<close> turns into a 500.
\<close>

subsection \<open>Sample request\<close>

text \<open>The Jane Doe record of the specification's example with a meal preference added.\<close>

definition ex_update :: passenger_create where
  "ex_update = ex_passenger\<lparr>meal_preference := Some ''vegan'',
                 fields_set := required_fields @ [''meal_preference'']\<rparr>"

subsection \<open>A successful update, unfolded\<close>

lemma update_success_inv:
  assumes u: "update_passenger_try pid p c = (Inr r, c1)"
  shows "\<exists>oi d old. objectid_of_str pid = Some oi \<and> online c \<and> docs c (POid oi) = Some d \<and>
     passenger_helper d = Inr old \<and>
     set_changes d (convert_dates_to_string (dict_merge old (dict_exclude_unset p))) \<and>
     c1 = c\<lparr>docs := (docs c)(POid oi \<mapsto> set_fields d (convert_dates_to_string (dict_merge old (dict_exclude_unset p))))\<rparr> \<and>
     passenger_helper (set_fields d (convert_dates_to_string (dict_merge old (dict_exclude_unset p)))) = Inr r"
proof (cases "objectid_of_str pid")
  case None
  with u show ?thesis by (simp add: update_passenger_try_def)
next
  case (Some oi)
  show ?thesis
  proof (cases "online c")
    case False
    with u Some show ?thesis by (simp add: update_passenger_try_def find_one_def)
  next
    case on: True
    show ?thesis
    proof (cases "docs c (POid oi)")
      case None
      with u Some on show ?thesis by (simp add: update_passenger_try_def find_one_online)
    next
      case (Some d)
      note pid = \<open>objectid_of_str pid = Some oi\<close>
      show ?thesis
      proof (cases "passenger_helper d")
        case (Inl e)
        with u pid on Some show ?thesis
          by (simp add: update_passenger_try_def find_one_online split: if_splits)
      next
        case (Inr old)
        with u update_passenger_try_found [OF pid on Some Inr] pid on Some show ?thesis
          by (auto simp: Let_def split: if_splits)
      qed
    qed
  qed
qed

lemma date_to_str_idem [simp]: "date_to_str f (date_to_str f v) = date_to_str f v"
  by (simp add: date_to_str_def json_encode_value_def split: pyval.splits)

lemma set_changes_all_same:
  "distinct (map fst m) \<Longrightarrow> (\<forall>f \<in> set (map fst m). d f = map_of m f) \<Longrightarrow> \<not> set_changes d m"
  by (force simp: set_changes_def list_ex_iff dest: map_of_is_SomeI)

lemma repeat_no_change:
  assumes h: "passenger_helper d = Inr old"
    and h': "passenger_helper (set_fields d (convert_dates_to_string (dict_merge old (dict_exclude_unset p)))) = Inr r"
  shows "\<not> set_changes (set_fields d (convert_dates_to_string (dict_merge old (dict_exclude_unset p))))
                       (convert_dates_to_string (dict_merge r (dict_exclude_unset p)))"
proof -
  let ?m = "convert_dates_to_string (dict_merge old (dict_exclude_unset p))"
  let ?d' = "set_fields d ?m"
  let ?m' = "convert_dates_to_string (dict_merge r (dict_exclude_unset p))"
  have k': "map fst ?m' = ''id'' # passenger_fields" by (rule merged_keys [OF h'])
  have "?d' f = map_of ?m' f" if f: "f \<in> set (map fst ?m')" for f
  proof (cases "f = ''id''")
    case True
    have "?d' ''id'' = Some (PStr (py_str (doc_get d ''_id'')))"
      using merged_id_lookup [OF h, of p] merged_keys [OF h] distinct_passenger_fields
      by (simp add: set_fields_lookup)
    with True merged_id_lookup [OF h', of p] updated_id [OF h, of p] show ?thesis by simp
  next
    case False
    with f k' have f': "f \<in> set passenger_fields" by simp
    show ?thesis
      using updated_field_some [OF h f', of p] merged_lookup [OF h' f', of p]
        updated_field [OF h f', of p]
      by (simp split: option.splits)
  qed
  moreover have "distinct (map fst ?m')" using k' distinct_passenger_fields by simp
  ultimately show ?thesis by (intro set_changes_all_same) auto
qed
lemma set_changes_new_key: "(k, v) \<in> set m \<Longrightarrow> d k = None \<Longrightarrow> set_changes d m"
  by (force simp: set_changes_def list_ex_iff)

lemma set_fields_keeps: "d k \<noteq> None \<Longrightarrow> set_fields d m k \<noteq> None"
  using dom_set_fields [of d m] by (metis UnI1 domIff)

text \<open>Writing fields never removes the ones \<open>passenger_helper\<close> subscripts.\<close>

lemma helper_set_fields:
  "passenger_helper d = Inr old \<Longrightarrow> \<exists>r. passenger_helper (set_fields d m) = Inr r"
proof -
  assume "passenger_helper d = Inr old"
  then have "list_all (\<lambda>k. d k \<noteq> None) helper_subscripts" by (blast dest: passenger_helper_Inr)
  then have "list_all (\<lambda>k. set_fields d m k \<noteq> None) helper_subscripts"
    unfolding list_all_iff using set_fields_keeps by blast
  then show ?thesis using passenger_helper_fields by blast
qed

text \<open>
  The first update of a record that has no \<open>"id"\<close> field yet (every record
  \<open>create_passenger\<close> wrote) always counts as a modification, because the
  payload carries \<open>"id"\<close>; it writes the merge and answers with the new view.
\<close>

lemma first_update_succeeds:
  assumes pid: "objectid_of_str pid = Some oi" and on: "online c"
    and d: "docs c (POid oi) = Some d" and h: "passenger_helper d = Inr old" and noid: "d ''id'' = None"
  shows "update_passenger pid p c =
     (passenger_helper (set_fields d (convert_dates_to_string (dict_merge old (dict_exclude_unset p)))),
      c\<lparr>docs := (docs c)(POid oi \<mapsto> set_fields d (convert_dates_to_string (dict_merge old (dict_exclude_unset p))))\<rparr>)"
proof -
  let ?m = "convert_dates_to_string (dict_merge old (dict_exclude_unset p))"
  have "''id'' \<in> set (map fst ?m)" by (simp add: merged_keys [OF h])
  then obtain v where "(''id'', v) \<in> set ?m" by auto
  then have ch: "set_changes d ?m" using noid by (rule set_changes_new_key)
  obtain r where hr: "passenger_helper (set_fields d ?m) = Inr r"
    using helper_set_fields [OF h] by blast
  show ?thesis
    using update_passenger_try_found [OF pid on d h] ch hr by (simp add: update_passenger_def Let_def)
qed

lemma date_to_str_dict: "map_of (passenger_dict p) f = Some v \<Longrightarrow> date_to_str f v = json_encode_value v"
  by (cases "f \<in> {''date_of_birth'', ''date_of_expiration''}")
     (simp_all add: date_to_str_def passenger_dict_date_keys)

lemma date_to_str_encoded [simp]: "date_to_str f (json_encode_value v) = json_encode_value v"
  by (simp add: date_to_str_def json_encode_value_def split: pyval.splits)

lemma passenger_dict_lookup:
  "f \<in> set passenger_fields \<Longrightarrow> \<exists>v. map_of (passenger_dict p) f = Some v"
proof -
  assume "f \<in> set passenger_fields"
  then have "f \<in> fst ` set (passenger_dict p)" by (metis passenger_dict_keys list.set_map)
  then show ?thesis by (cases "map_of (passenger_dict p) f") (simp_all add: map_of_eq_None_iff)
qed

lemma created_doc_field:
  "f \<in> set passenger_fields \<Longrightarrow>
   doc_get (created_doc fresh p) f = json_encode_value (the (map_of (passenger_dict p) f))"
proof -
  assume f: "f \<in> set passenger_fields"
  then obtain v where v: "map_of (passenger_dict p) f = Some v" by (blast dest: passenger_dict_lookup)
  have "f \<noteq> ''_id''" using f by auto
  with v show ?thesis
    by (simp add: created_doc_def doc_get_def jsonable_encode_def map_of_map_values)
qed

lemma created_doc_no_id: "created_doc fresh p ''id'' = None"
  by (simp add: created_doc_def jsonable_encode_def passenger_dict_def)

text \<open>
  One field of a well-formed record after the update: the body's value if the
  body set the field, the stored value otherwise.
\<close>

lemma updated_field_value:
  assumes w: "wf_doc k d" and h: "passenger_helper d = Inr old" and f: "f \<in> set passenger_fields"
  shows "doc_get (set_fields d (convert_dates_to_string (dict_merge old (dict_exclude_unset p)))) f =
     (if f \<in> set (fields_set p) then json_encode_value (the (map_of (passenger_dict p) f)) else doc_get d f)"
proof (cases "f \<in> set (fields_set p)")
  case True
  obtain v where v: "map_of (passenger_dict p) f = Some v" using f by (blast dest: passenger_dict_lookup)
  with True show ?thesis by (simp add: updated_field [OF h f] map_of_exclude_unset date_to_str_dict [OF v])
next
  case False
  with wf_doc_no_date_obj [OF w, of f] show ?thesis by (simp add: updated_field [OF h f] map_of_exclude_unset)
qed

subsection \<open>The sample record after its creation\<close>

lemma ex_created:
  "online (snd (create_passenger ex_oid ex_passenger empty_coll))"
  "docs (snd (create_passenger ex_oid ex_passenger empty_coll)) (POid ex_oid) =
     Some (created_doc ex_oid ex_passenger)"
  using create_stores_new [of empty_coll ex_oid ex_passenger] by (simp_all add: empty_coll_def)

lemma ex_first_update:
  "\<exists>r. update_passenger (objectid_str ex_oid) ex_update (snd (create_passenger ex_oid ex_passenger empty_coll)) =
     (Inr r, snd (update_passenger (objectid_str ex_oid) ex_update (snd (create_passenger ex_oid ex_passenger empty_coll))))"
proof -
  let ?d = "created_doc ex_oid ex_passenger"
  let ?old = "(''id'', PStr (objectid_str ex_oid)) # jsonable_encode ex_passenger"
  have h: "passenger_helper ?d = Inr ?old" by (rule passenger_helper_created)
  obtain r where "passenger_helper (set_fields ?d (convert_dates_to_string (dict_merge ?old (dict_exclude_unset ex_update)))) = Inr r"
    using helper_set_fields [OF h] by blast
  then show ?thesis
    using first_update_succeeds [OF objectid_roundtrip [OF ex_oid_valid] ex_created h created_doc_no_id, of ex_update]
    by simp
qed

subsection \<open>Claims\<close>

text \<open>
  C4: Update merges. A successful update of a stored record answers with a
  record whose \<open>"id"\<close> is unchanged, whose fields set in the request body hold
  the body's values (dates in ISO form), and whose other fields hold the values
  the record had before.
\<close>

theorem update_merges_fields:
  assumes pid: "objectid_of_str pid = Some oi" and on: "online c"
    and d: "docs c (POid oi) = Some d" and w: "wf_doc (POid oi) d"
    and h: "passenger_helper d = Inr old"
    and u: "update_passenger pid p c = (Inr r, c')"
  shows "map_of r ''id'' = map_of old ''id'' \<and>
         (\<forall>f \<in> set passenger_fields. map_of r f =
            (if f \<in> set (fields_set p)
             then map_option json_encode_value (map_of (passenger_dict p) f)
             else map_of old f))"
proof -
  let ?m = "convert_dates_to_string (dict_merge old (dict_exclude_unset p))"
  let ?d' = "set_fields d ?m"
  from u have "update_passenger_try pid p c = (Inr r, c')"
    by (simp add: update_passenger_def reraise_500_Inr)
  with update_passenger_try_found [OF pid on d h]
  have hr: "passenger_helper ?d' = Inr r"
    by (simp add: Let_def split: if_splits)
  have idv: "map_of r ''id'' = map_of old ''id''"
    using map_of_old_id [OF hr] map_of_old_id [OF h] updated_id [OF h, of p] by simp
  have "map_of r f =
          (if f \<in> set (fields_set p)
           then map_option json_encode_value (map_of (passenger_dict p) f)
           else map_of old f)" if f: "f \<in> set passenger_fields" for f
    using map_of_old_field [OF hr f] map_of_old_field [OF h f] updated_field_value [OF w h f, of p]
      passenger_dict_lookup [OF f, of p] by auto
  with idv show ?thesis by blast
qed


theorem update_merges_fields_witness:
  "map_of (projr (fst (update_passenger (objectid_str ex_oid) ex_update
      (snd (create_passenger ex_oid ex_passenger empty_coll))))) ''meal_preference'' = Some (PStr ''vegan'') \<and>
   map_of (projr (fst (update_passenger (objectid_str ex_oid) ex_update
      (snd (create_passenger ex_oid ex_passenger empty_coll))))) ''surname'' = Some (PStr ''Doe'')"
proof -
  let ?c = "snd (create_passenger ex_oid ex_passenger empty_coll)"
  let ?d = "created_doc ex_oid ex_passenger"
  have w: "wf_doc (POid ex_oid) ?d"
    using ex_oid_valid by (intro wf_created_doc) (simp_all add: valid_dates_def ex_passenger_def)
  obtain r where u: "update_passenger (objectid_str ex_oid) ex_update ?c =
      (Inr r, snd (update_passenger (objectid_str ex_oid) ex_update ?c))"
    using ex_first_update by blast
  have fs: "''meal_preference'' \<in> set passenger_fields" "''surname'' \<in> set passenger_fields"
    by (simp_all add: passenger_fields_def)
  have "map_of r ''meal_preference'' = Some (PStr ''vegan'') \<and> map_of r ''surname'' = Some (PStr ''Doe'')"
    using update_merges_fields [OF objectid_roundtrip [OF ex_oid_valid] ex_created w passenger_helper_created u] fs
    by (simp add: ex_update_def ex_passenger_def passenger_dict_def required_fields_def
        jsonable_encode_def json_encode_value_def opt_pystr_def)
  moreover have "fst (update_passenger (objectid_str ex_oid) ex_update ?c) = Inr r" by (subst u) simp
  ultimately show ?thesis by simp
qed

text \<open>
  C5: Update with the create's own body. Right after \<open>create_passenger\<close> has
  stored a record under a fresh valid identifier, updating that identifier with
  the same body answers with exactly what the create answered: the merge of a
  record with its own fields is the record.
\<close>

theorem create_update_same_body:
  assumes on: "online c" and v: "valid_oid fresh" and fr: "POid fresh \<notin> dom (docs c)"
    and cr: "create_passenger fresh p c = (r, c1)"
  shows "fst (update_passenger (objectid_str fresh) p c1) = r"
proof -
  let ?cd = "created_doc fresh p"
  let ?old = "(''id'', PStr (objectid_str fresh)) # jsonable_encode p"
  let ?d' = "set_fields ?cd (convert_dates_to_string (dict_merge ?old (dict_exclude_unset p)))"
  from create_stores_new [OF on fr] cr
  have r: "r = Inr ?old" and c1: "c1 = c\<lparr>docs := (docs c)(POid fresh \<mapsto> ?cd)\<rparr>" by simp_all
  have h: "passenger_helper ?cd = Inr ?old" by (rule passenger_helper_created)
  have u: "fst (update_passenger (objectid_str fresh) p c1) = passenger_helper ?d'"
    using first_update_succeeds [OF objectid_roundtrip [OF v], of c1 ?cd ?old p] on c1 h created_doc_no_id
    by simp
  have same: "doc_get ?d' f = doc_get ?cd f" if f: "f \<in> set passenger_fields" for f
  proof (cases "f \<in> set (fields_set p)")
    case True
    obtain w where "map_of (passenger_dict p) f = Some w" using f by (blast dest: passenger_dict_lookup)
    with True f show ?thesis
      by (simp add: updated_field [OF h f] map_of_exclude_unset created_doc_field date_to_str_dict)
  next
    case False
    with f show ?thesis
      by (simp add: updated_field [OF h f] map_of_exclude_unset created_doc_field)
  qed
  have idv: "doc_get ?d' ''_id'' = POid fresh"
    using updated_id [OF h, of p] by (simp add: doc_get_def created_doc_def)
  obtain r' where "passenger_helper ?d' = Inr r'" using helper_set_fields [OF h] by blast
  then have "list_all (\<lambda>k. ?d' k \<noteq> None) helper_subscripts" by (blast dest: passenger_helper_Inr)
  then have "passenger_helper ?d' =
      Inr ((''id'', PStr (objectid_str fresh)) # map (\<lambda>f. (f, doc_get ?cd f)) passenger_fields)"
    using passenger_helper_fields idv same by (simp cong: map_cong)
  with created_doc_view [of fresh p] u r show ?thesis by simp
qed

theorem create_update_same_body_witness:
  "fst (update_passenger (objectid_str ex_oid) ex_passenger (snd (create_passenger ex_oid ex_passenger empty_coll))) =
   fst (create_passenger ex_oid ex_passenger empty_coll)"
  using create_update_same_body [of empty_coll ex_oid ex_passenger
      "fst (create_passenger ex_oid ex_passenger empty_coll)"
      "snd (create_passenger ex_oid ex_passenger empty_coll)"] ex_oid_valid
  by (simp add: empty_coll_def)

text \<open>
  C6: An update that succeeded cannot be repeated. Sending the same update
  again to the record it has just written changes no stored value, so
  \<open>modified_count\<close> is 0 and the handler raises \<open>HTTPException(404)\<close>, which
  \<open>except Exception\<close> turns into a 500 with detail
  \<open>"404: Passenger not found"\<close>; the store is left as it was.
\<close>

theorem update_repeat_fails:
  "update_passenger pid p c = (Inr r, c1) \<Longrightarrow>
   update_passenger pid p c1 = (Inl (HTTPException 500 ''404: Passenger not found''), c1)"
proof -
  assume "update_passenger pid p c = (Inr r, c1)"
  then have "update_passenger_try pid p c = (Inr r, c1)"
    by (simp add: update_passenger_def reraise_500_Inr)
  then obtain oi d old where pid: "objectid_of_str pid = Some oi" and on: "online c"
    and d: "docs c (POid oi) = Some d" and h: "passenger_helper d = Inr old"
    and c1: "c1 = c\<lparr>docs := (docs c)(POid oi \<mapsto> set_fields d (convert_dates_to_string (dict_merge old (dict_exclude_unset p))))\<rparr>"
    and h': "passenger_helper (set_fields d (convert_dates_to_string (dict_merge old (dict_exclude_unset p)))) = Inr r"
    by (blast dest: update_success_inv)
  have on1: "online c1" using on c1 by simp
  have d1: "docs c1 (POid oi) = Some (set_fields d (convert_dates_to_string (dict_merge old (dict_exclude_unset p))))"
    using c1 by simp
  have "update_passenger_try pid p c1 = (Inl not_found, c1)"
    using update_passenger_try_found [OF pid on1 d1 h'] repeat_no_change [OF h h'] by (simp add: Let_def)
  then show ?thesis by (simp add: update_passenger_def exc_str_not_found)
qed

theorem update_repeat_fails_witness:
  "update_passenger (objectid_str ex_oid) ex_update
     (snd (update_passenger (objectid_str ex_oid) ex_update (snd (create_passenger ex_oid ex_passenger empty_coll)))) =
   (Inl (HTTPException 500 ''404: Passenger not found''),
    snd (update_passenger (objectid_str ex_oid) ex_update (snd (create_passenger ex_oid ex_passenger empty_coll))))"
proof -
  obtain r where u: "update_passenger (objectid_str ex_oid) ex_update (snd (create_passenger ex_oid ex_passenger empty_coll)) =
      (Inr r, snd (update_passenger (objectid_str ex_oid) ex_update (snd (create_passenger ex_oid ex_passenger empty_coll))))"
    using ex_first_update by blast
  show ?thesis using update_repeat_fails [OF u] .
qed

end
