(* ===== verification/Api.thy ===== *)
theory Api
  imports UpdateSeq
begin

text \<open>
  The service as FastAPI runs it: a request names one of the five routes of
  src/main.py; for the two routes with a body, FastAPI first validates the JSON
  body into \<open>PassengerCreate\<close> and answers 422 with every error when that
  fails, without calling the handler; otherwise the handler runs on the store and
  its result becomes the response, an \<open>HTTPException\<close> its status and detail.
  On top of this, the states the service can reach from an empty database, and
  the invariant that every stored document is well formed.
\<close>

subsection \<open>Requests and responses\<close>

datatype request =
    GetRoot
  | PostCreate json_obj
  | GetPassenger string
  | PutUpdate string json_obj
  | DeletePassenger string

datatype response =
    Ok pydict
  | Error nat string
  | Unprocessable "val_error list"

definition is_ok :: "response \<Rightarrow> bool" where
  "is_ok r = (case r of Ok _ \<Rightarrow> True | _ \<Rightarrow> False)"

text \<open>
  Starlette turns an \<open>HTTPException\<close> into its status and detail; any other
  exception escaping a handler is answered by the server-error middleware.
\<close>

definition http_response :: "exc + pydict \<Rightarrow> response" where
  "http_response r =
     (case r of
        Inr d \<Rightarrow> Ok d
      | Inl (HTTPException code detail) \<Rightarrow> Error code detail
      | Inl _ \<Rightarrow> Error 500 ''Internal Server Error'')"

text \<open>
  The routes of main.py (\<open>@app.get("/")\<close> line 15, \<open>@app.post\<close> line 43,
  \<open>@app.get\<close> line 71, \<open>@app.put\<close> line 88, \<open>@app.delete\<close> line 126).
  \<open>fresh\<close> is the ObjectId the driver generates if the request inserts.
\<close>

fun dispatch :: "(string \<Rightarrow> bool) \<Rightarrow> oid \<Rightarrow> request \<Rightarrow> collection \<Rightarrow> response \<times> collection" where
  "dispatch email_ok fresh GetRoot c = (Ok root, c)"
| "dispatch email_ok fresh (PostCreate b) c =
     (case validate_passenger_create email_ok b of
        Inl errs \<Rightarrow> (Unprocessable errs, c)
      | Inr passenger \<Rightarrow> apfst http_response (create_passenger fresh passenger c))"
| "dispatch email_ok fresh (GetPassenger pid) c = apfst http_response (get_passenger pid c)"
| "dispatch email_ok fresh (PutUpdate pid b) c =
     (case validate_passenger_create email_ok b of
        Inl errs \<Rightarrow> (Unprocessable errs, c)
      | Inr passenger \<Rightarrow> apfst http_response (update_passenger pid passenger c))"
| "dispatch email_ok fresh (DeletePassenger pid) c = apfst http_response (delete_passenger pid c)"

subsection \<open>Reachable states\<close>

text \<open>
  The service starts on an empty, reachable database; each step is one request
  served with a twelve-byte identifier from the driver, or the database server
  going down or coming back.
\<close>

inductive reachable :: "(string \<Rightarrow> bool) \<Rightarrow> collection \<Rightarrow> bool" for email_ok where
  start: "reachable email_ok \<lparr>docs = Map.empty, online = True\<rparr>"
| request: "reachable email_ok c \<Longrightarrow> valid_oid fresh \<Longrightarrow> dispatch email_ok fresh rq c = (resp, c') \<Longrightarrow>
            reachable email_ok c'"
| connectivity: "reachable email_ok c \<Longrightarrow> reachable email_ok (c\<lparr>online := b\<rparr>)"

subsection \<open>Sample request body\<close>

text \<open>The creation body of the specification's section 8 example.\<close>

definition ex_body :: json_obj where
  "ex_body = [''title'' \<mapsto> JStr ''Mr'', ''given_name'' \<mapsto> JStr ''Jane'', ''surname'' \<mapsto> JStr ''Doe'',
              ''email'' \<mapsto> JStr ''jane@example.com'', ''mobile'' \<mapsto> JStr ''+10000000000'']"

subsection \<open>What each handler does to the store\<close>

text \<open>
  Every handler either leaves the store as it was or performs exactly one write
  and then succeeds; a handler that answers an error has written nothing.
\<close>

lemma create_effect:
  "create_passenger fresh p c = (r, c') \<Longrightarrow>
   c' = c \<or> (online c \<and> POid fresh \<notin> dom (docs c) \<and>
             c' = c\<lparr>docs := (docs c)(POid fresh \<mapsto> created_doc fresh p)\<rparr> \<and> (\<exists>v. r = Inr v))"
proof (cases "online c \<and> POid fresh \<notin> dom (docs c)")
  case True
  then show "create_passenger fresh p c = (r, c') \<Longrightarrow> ?thesis"
    using create_stores_new [of c fresh p] by auto
next
  case False
  then have "snd (create_passenger fresh p c) = c"
    by (simp add: create_passenger_def create_passenger_try_def insert_one_def Let_def jsonable_encode_no_id)
  then show "create_passenger fresh p c = (r, c') \<Longrightarrow> ?thesis" by simp
qed

lemma get_effect: "snd (get_passenger pid c) = c"
  by (simp add: get_passenger_def get_passenger_try_def split: option.splits sum.splits)

lemma delete_effect:
  "delete_passenger pid c = (r, c') \<Longrightarrow>
   c' = c \<or> (\<exists>oi. objectid_of_str pid = Some oi \<and> online c \<and> POid oi \<in> dom (docs c) \<and>
             c' = c\<lparr>docs := (docs c)(POid oi := None)\<rparr> \<and>
             r = Inr [(''message'', PStr ''Passenger deleted successfully'')])"
  by (auto simp: delete_passenger_def delete_passenger_try_def delete_one_def split: option.splits if_splits)

lemma update_untouched:
  assumes "\<not> (\<exists>oi d old. objectid_of_str pid = Some oi \<and> online c \<and> docs c (POid oi) = Some d \<and>
              passenger_helper d = Inr old)"
  shows "snd (update_passenger pid p c) = c"
proof (cases "objectid_of_str pid")
  case None
  then show ?thesis by (simp add: update_passenger_def update_passenger_try_def)
next
  case (Some oi)
  show ?thesis
  proof (cases "online c \<and> docs c (POid oi) \<noteq> None")
    case False
    with Some show ?thesis
      by (auto simp: update_passenger_def update_passenger_try_def find_one_def)
  next
    case True
    then obtain d where on: "online c" and d: "docs c (POid oi) = Some d" by auto
    with Some assms obtain e where "passenger_helper d = Inl e" by (cases "passenger_helper d") auto
    with Some on d show ?thesis
      by (simp add: update_passenger_def update_passenger_try_def find_one_online)
  qed
qed

lemma update_effect:
  "update_passenger pid p c = (r, c') \<Longrightarrow>
   c' = c \<or> (\<exists>oi d old. objectid_of_str pid = Some oi \<and> online c \<and> docs c (POid oi) = Some d \<and>
      passenger_helper d = Inr old \<and>
      c' = c\<lparr>docs := (docs c)(POid oi \<mapsto> set_fields d (convert_dates_to_string (dict_merge old (dict_exclude_unset p))))\<rparr> \<and>
      (\<exists>v. r = Inr v))"
proof -
  assume u: "update_passenger pid p c = (r, c')"
  show ?thesis
  proof (cases "\<exists>oi d old. objectid_of_str pid = Some oi \<and> online c \<and> docs c (POid oi) = Some d \<and>
                  passenger_helper d = Inr old")
    case True
    then obtain oi d old where pid: "objectid_of_str pid = Some oi" and on: "online c"
      and d: "docs c (POid oi) = Some d" and h: "passenger_helper d = Inr old" by blast
    let ?m = "convert_dates_to_string (dict_merge old (dict_exclude_unset p))"
    obtain v where v: "passenger_helper (set_fields d ?m) = Inr v" using helper_set_fields [OF h] by blast
    have "update_passenger pid p c =
        (if set_changes d ?m then (Inr v, c\<lparr>docs := (docs c)(POid oi \<mapsto> set_fields d ?m)\<rparr>)
         else (Inl (HTTPException 500 (exc_str not_found)), c))"
      using update_passenger_try_found [OF pid on d h] v by (simp add: update_passenger_def Let_def)
    with u pid on d h show ?thesis by (auto split: if_splits)
  next
    case False
    with u update_untouched [OF False, of p] show ?thesis by simp
  qed
qed

lemma delete_effect_store:
  "c' = snd (delete_passenger pid c) \<Longrightarrow>
   c' = c \<or> (\<exists>k. c' = c\<lparr>docs := (docs c)(k := None)\<rparr>)"
  using delete_effect [of pid c "fst (delete_passenger pid c)" c'] by auto

lemma http_reraise:
  "http_response (reraise_500 x) = (case x of Inr d \<Rightarrow> Ok d | Inl e \<Rightarrow> Error 500 (exc_str e))"
  by (cases x) (simp_all add: http_response_def)

lemma ex_body_valid:
  "\<exists>p. validate_passenger_create email_ok ex_body = Inr p \<and> email p = ''jane@example.com''"
  if "email_ok ''jane@example.com''"
  using that
  by (simp add: validate_passenger_create_def Let_def ex_body_def req_str_def opt_str_def opt_date_def
      req_email_def err_of_def py_strip_def is_py_space_def email_address_def pretty_email_match_def
      email_normalize_def py_lower_def)

lemma response_failure:
  assumes "apfst http_response x = (resp, c')" and "\<not> is_ok resp"
  obtains e where "x = (Inl e, c')"
  using assms by (cases x) (auto simp: is_ok_def http_response_def split: sum.splits)

lemma http_error_not_ok [simp]: "\<not> is_ok (http_response (Inl e))"
  by (simp add: is_ok_def http_response_def split: exc.split)

lemma error_response:
  "x = (Inl e, c) \<Longrightarrow> apfst http_response x = (resp, c') \<Longrightarrow> c' = c \<and> \<not> is_ok resp"
  by (auto simp: is_ok_def http_response_def split: exc.splits)

lemma reraised_status:
  "apfst http_response (apfst reraise_500 x) = (Error code detail, c') \<Longrightarrow> code = 500"
  by (cases x) (auto simp: http_reraise split: sum.splits)

lemma offline_handlers:
  assumes "\<not> online c"
  shows "\<exists>e. create_passenger fresh p c = (Inl e, c)" "\<exists>e. get_passenger pid c = (Inl e, c)"
    "\<exists>e. update_passenger pid p c = (Inl e, c)" "\<exists>e. delete_passenger pid c = (Inl e, c)"
  using assms
  by (simp_all add: create_passenger_def create_passenger_try_def get_passenger_def get_passenger_try_def
      update_passenger_def update_passenger_try_def delete_passenger_def delete_passenger_try_def
      store_offline Let_def split: option.splits)

subsection \<open>The invariant\<close>

lemma wf_store_write: "wf_store c \<Longrightarrow> wf_doc k d \<Longrightarrow> wf_store (c\<lparr>docs := (docs c)(k \<mapsto> d)\<rparr>)"
  by (simp add: wf_store_def)

lemma wf_store_remove: "wf_store c \<Longrightarrow> wf_store (c\<lparr>docs := (docs c)(k := None)\<rparr>)"
  by (simp add: wf_store_def)

lemma wf_store_online [simp]: "wf_store (c\<lparr>online := b\<rparr>) = wf_store c"
  by (simp add: wf_store_def)

lemma create_wf:
  assumes w: "wf_store c" and v: "valid_oid fresh" and dv: "valid_dates p"
  shows "wf_store (snd (create_passenger fresh p c))"
  using create_effect [of fresh p c "fst (create_passenger fresh p c)" "snd (create_passenger fresh p c)"]
    w wf_store_write [OF w wf_created_doc [OF v dv]] by auto

lemma update_wf:
  assumes w: "wf_store c" and dv: "valid_dates p"
  shows "wf_store (snd (update_passenger pid p c))"
proof -
  note e = update_effect [of pid p c "fst (update_passenger pid p c)" "snd (update_passenger pid p c)"]
  show ?thesis
  proof (cases "snd (update_passenger pid p c) = c")
    case True
    with w show ?thesis by simp
  next
    case False
    with e obtain oi d old where d: "docs c (POid oi) = Some d" and h: "passenger_helper d = Inr old"
      and c': "snd (update_passenger pid p c) =
        c\<lparr>docs := (docs c)(POid oi \<mapsto> set_fields d (convert_dates_to_string (dict_merge old (dict_exclude_unset p))))\<rparr>"
      by auto
    from w d have "wf_doc (POid oi) d" by (simp add: wf_store_def)
    from wf_doc_updated [OF this h dv] c' w show ?thesis by (simp add: wf_store_write)
  qed
qed

lemma dispatch_wf:
  "wf_store c \<Longrightarrow> valid_oid fresh \<Longrightarrow> wf_store (snd (dispatch email_ok fresh rq c))"
proof (cases rq)
  case (PostCreate b)
  assume "wf_store c" "valid_oid fresh"
  with PostCreate show ?thesis
    by (auto simp: create_wf validate_valid_dates split: sum.splits)
next
  case (PutUpdate pid b)
  assume "wf_store c"
  with PutUpdate show ?thesis
    by (auto simp: update_wf validate_valid_dates split: sum.splits)
next
  case (DeletePassenger pid)
  assume "wf_store c"
  with DeletePassenger show ?thesis
    using delete_effect_store [of _ pid c] wf_store_remove by auto
qed (simp_all add: get_effect)

subsection \<open>Claims\<close>

lemma reachable_wf: "reachable email_ok c \<Longrightarrow> wf_store c"
proof (induction rule: reachable.induct)
  case start
  then show ?case by (simp add: wf_store_def)
next
  case (request c fresh rq resp c')
  then show ?case using dispatch_wf [of c fresh email_ok rq] by simp
next
  case (connectivity c b)
  then show ?case by simp
qed

text \<open>
  C9: Invariant. In every state the service can reach from an empty database,
  whatever the requests, identifiers and outages on the way, every stored
  document is well formed: it is keyed by a twelve-byte ObjectId equal to its
  \<open>_id\<close>, its five required fields hold strings, its optional fields strings
  or null, its dates null or a valid ISO date, and it has no other field
  than these and the \<open>"id"\<close> that update writes.
\<close>

theorem reachable_wf_store: "reachable email_ok c \<Longrightarrow> wf_store c"
  by (rule reachable_wf)

theorem reachable_wf_store_witness:
  "reachable (\<lambda>_. True) (snd (dispatch (\<lambda>_. True) ex_oid (PostCreate ex_body) \<lparr>docs = Map.empty, online = True\<rparr>)) \<and>
   wf_store (snd (dispatch (\<lambda>_. True) ex_oid (PostCreate ex_body) \<lparr>docs = Map.empty, online = True\<rparr>))"
proof -
  have r: "reachable (\<lambda>_. True) (snd (dispatch (\<lambda>_. True) ex_oid (PostCreate ex_body) \<lparr>docs = Map.empty, online = True\<rparr>))"
    by (rule reachable.request [OF reachable.start ex_oid_valid surjective_pairing])
  with reachable_wf_store [OF r] show ?thesis by simp
qed

text \<open>
  C11: No request is ever answered 404. Every error a passenger endpoint
  answers, a missing record included, has status 500: each handler's
  \<open>except Exception\<close> also catches the handler's own \<open>HTTPException(404)\<close>.
  (Invalid bodies are answered 422 by FastAPI before the handler runs.)
\<close>

theorem errors_are_500:
  "dispatch email_ok fresh rq c = (Error code detail, c') \<Longrightarrow> code = 500"
  by (cases rq)
     (auto simp: create_passenger_def get_passenger_def update_passenger_def delete_passenger_def
       split: sum.splits dest: reraised_status)

theorem errors_are_500_witness:
  "\<exists>code detail c'. dispatch (\<lambda>_. True) ex_oid (DeletePassenger ''654a1f00ff1009abcdef0102'') empty_coll =
     (Error code detail, c') \<and> code = 500"
proof -
  have "dispatch (\<lambda>_. True) ex_oid (DeletePassenger ''654a1f00ff1009abcdef0102'') empty_coll =
     (Error 500 ''404: Passenger not found'', empty_coll)"
    by (simp add: delete_passenger_def delete_passenger_try_def ex_pid_parse delete_one_def empty_coll_def
        http_response_def exc_str_not_found)
  with errors_are_500 [OF this] show ?thesis by blast
qed

text \<open>
  C12: Delete, then read. Deleting a stored record answers the confirmation
  message and removes exactly that record; reading its identifier afterwards
  answers 500 with detail \<open>"404: Passenger not found"\<close> (the specification's
  example expects 404).
\<close>

theorem delete_then_read:
  assumes pid: "objectid_of_str pid = Some oi" and on: "online c" and d: "docs c (POid oi) \<noteq> None"
  shows "dispatch email_ok fresh (DeletePassenger pid) c =
           (Ok [(''message'', PStr ''Passenger deleted successfully'')], c\<lparr>docs := (docs c)(POid oi := None)\<rparr>) \<and>
         dispatch email_ok fresh' (GetPassenger pid) (c\<lparr>docs := (docs c)(POid oi := None)\<rparr>) =
           (Error 500 ''404: Passenger not found'', c\<lparr>docs := (docs c)(POid oi := None)\<rparr>)"
  using pid on d
  by (auto simp: delete_passenger_def delete_passenger_try_def delete_one_def get_passenger_def
      get_passenger_try_def find_one_def http_response_def exc_str_not_found)

theorem delete_then_read_witness:
  "dispatch (\<lambda>_. True) ex_oid (DeletePassenger (objectid_str ex_oid)) (snd (create_passenger ex_oid ex_passenger empty_coll)) =
     (Ok [(''message'', PStr ''Passenger deleted successfully'')],
      (snd (create_passenger ex_oid ex_passenger empty_coll))\<lparr>docs := (docs (snd (create_passenger ex_oid ex_passenger empty_coll)))(POid ex_oid := None)\<rparr>) \<and>
   dispatch (\<lambda>_. True) ex_oid (GetPassenger (objectid_str ex_oid))
     ((snd (create_passenger ex_oid ex_passenger empty_coll))\<lparr>docs := (docs (snd (create_passenger ex_oid ex_passenger empty_coll)))(POid ex_oid := None)\<rparr>) =
     (Error 500 ''404: Passenger not found'',
      (snd (create_passenger ex_oid ex_passenger empty_coll))\<lparr>docs := (docs (snd (create_passenger ex_oid ex_passenger empty_coll)))(POid ex_oid := None)\<rparr>)"
  by (rule delete_then_read [OF objectid_roundtrip [OF ex_oid_valid] ex_created(1)]) (simp add: ex_created(2))

text \<open>
  C13: Malformed identifiers. A path identifier that \<open>ObjectId(id)\<close>
  refuses (not 24 characters, or not pairs of hexadecimal digits separated by
  nothing but white space) makes it raise \<open>InvalidId\<close>; read, delete, and
  update with a valid body all answer 500 with bson's message, the
  \<open>repr\<close> of the identifier and a fixed explanation, as detail, and leave
  the store unchanged.
\<close>

theorem invalid_id_500:
  assumes pid: "objectid_of_str pid = None" and b: "validate_passenger_create email_ok b = Inr p"
  shows "dispatch email_ok fresh (GetPassenger pid) c =
           (Error 500 (py_repr pid @
              '' is not a valid ObjectId, it must be a 12-byte input or a 24-character hex string''), c) \<and>
         dispatch email_ok fresh (DeletePassenger pid) c =
           (Error 500 (py_repr pid @
              '' is not a valid ObjectId, it must be a 12-byte input or a 24-character hex string''), c) \<and>
         dispatch email_ok fresh (PutUpdate pid b) c =
           (Error 500 (py_repr pid @
              '' is not a valid ObjectId, it must be a 12-byte input or a 24-character hex string''), c)"
  using pid b
  by (simp add: get_passenger_def get_passenger_try_def delete_passenger_def delete_passenger_try_def
      update_passenger_def update_passenger_try_def http_response_def)

theorem invalid_id_500_witness:
  "dispatch (\<lambda>_. True) ex_oid (GetPassenger ''a'b'') empty_coll =
     (Error 500 ([CHR 34] @ ''a'b'' @ [CHR 34] @
        '' is not a valid ObjectId, it must be a 12-byte input or a 24-character hex string''), empty_coll) \<and>
   dispatch (\<lambda>_. True) ex_oid (DeletePassenger ''a'b'') empty_coll =
     (Error 500 ([CHR 34] @ ''a'b'' @ [CHR 34] @
        '' is not a valid ObjectId, it must be a 12-byte input or a 24-character hex string''), empty_coll) \<and>
   dispatch (\<lambda>_. True) ex_oid (PutUpdate ''a'b'' ex_body) empty_coll =
     (Error 500 ([CHR 34] @ ''a'b'' @ [CHR 34] @
        '' is not a valid ObjectId, it must be a 12-byte input or a 24-character hex string''), empty_coll)"
proof -
  obtain p where b: "validate_passenger_create (\<lambda>_. True) ex_body = Inr p"
    using ex_body_valid [of "\<lambda>_. True"] by blast
  have "objectid_of_str ''a'b'' = None" by (simp add: objectid_of_str_def)
  moreover have "py_repr ''a'b'' = [CHR 34] @ ''a'b'' @ [CHR 34]"
    by (simp add: py_repr_def repr_quote_def repr_char_def Let_def)
  ultimately show ?thesis using invalid_id_500 [of "''a'b''" "\<lambda>_. True" ex_body p ex_oid empty_coll] b by simp
qed

end
