(* ===== verification/Contract.thy ===== *)
theory Contract
  imports Api
begin

text \<open>
  The contract of the specification (sections 3 and 4) as an abstract machine
  over the visible records, keyed by identifier: create adds a record under a
  new identifier, read returns one, update overlays the fields a body sets,
  delete removes one. \<open>abs_store\<close> reads a collection as such a store, and
  \<open>dispatch_refines\<close> shows that every successful request of the modelled
  service is a step of this machine.
\<close>

subsection \<open>The abstract contract\<close>

text \<open>
  The visible record of a stored document: the seventeen passenger fields, in
  declaration order, as \<open>passenger_helper\<close> reads them.
\<close>

definition record_view :: "doc \<Rightarrow> pydict" where
  "record_view d = map (\<lambda>f. (f, doc_get d f)) passenger_fields"

type_synonym astore = "oid \<rightharpoonup> pydict"

definition abs_store :: "collection \<Rightarrow> astore" where
  "abs_store c oi = map_option record_view (docs c (POid oi))"

datatype aop = ACreate passenger_create | ARead oid | AUpdate oid passenger_create | ADelete oid

text \<open>The overlay of a body's set fields on a visible record (specification, section 4, Update).\<close>

definition upd_view :: "pydict \<Rightarrow> passenger_create \<Rightarrow> pydict" where
  "upd_view v p =
     map (\<lambda>(f, x). (f, if f \<in> set (fields_set p)
                       then json_encode_value (the (map_of (passenger_dict p) f)) else x)) v"

fun astep :: "oid \<Rightarrow> aop \<Rightarrow> astore \<Rightarrow> (pydict \<times> astore) option" where
  "astep fresh (ACreate p) m =
     (if fresh \<in> dom m then None
      else Some ((''id'', PStr (objectid_str fresh)) # jsonable_encode p, m(fresh \<mapsto> jsonable_encode p)))"
| "astep fresh (ARead oi) m = map_option (\<lambda>v. ((''id'', PStr (objectid_str oi)) # v, m)) (m oi)"
| "astep fresh (AUpdate oi p) m =
     map_option (\<lambda>v. ((''id'', PStr (objectid_str oi)) # upd_view v p, m(oi \<mapsto> upd_view v p))) (m oi)"
| "astep fresh (ADelete oi) m =
     map_option (\<lambda>_. ([(''message'', PStr ''Passenger deleted successfully'')], m(oi := None))) (m oi)"

definition abs_request :: "(string \<Rightarrow> bool) \<Rightarrow> request \<Rightarrow> aop option" where
  "abs_request email_ok rq =
     (case rq of
        GetRoot \<Rightarrow> None
      | PostCreate b \<Rightarrow>
          (case validate_passenger_create email_ok b of Inr p \<Rightarrow> Some (ACreate p) | Inl _ \<Rightarrow> None)
      | GetPassenger pid \<Rightarrow> map_option ARead (objectid_of_str pid)
      | PutUpdate pid b \<Rightarrow>
          (case (objectid_of_str pid, validate_passenger_create email_ok b) of
             (Some oi, Inr p) \<Rightarrow> Some (AUpdate oi p)
           | _ \<Rightarrow> None)
      | DeletePassenger pid \<Rightarrow> map_option ADelete (objectid_of_str pid))"

text \<open>An update body of the sample record that sets a meal preference.\<close>
definition ex_body2 :: json_obj where
  "ex_body2 = ex_body(''meal_preference'' \<mapsto> JStr ''vegan'')"

subsection \<open>Successful handlers\<close>

lemma http_ok: "apfst http_response x = (Ok body, c') \<longleftrightarrow> x = (Inr body, c')"
  by (cases x) (auto simp: http_response_def split: sum.splits exc.splits)

lemma create_success:
  "create_passenger fresh p c = (Inr r, c') \<Longrightarrow>
   online c \<and> POid fresh \<notin> dom (docs c) \<and>
   c' = c\<lparr>docs := (docs c)(POid fresh \<mapsto> created_doc fresh p)\<rparr> \<and>
   r = (''id'', PStr (objectid_str fresh)) # jsonable_encode p"
proof (cases "online c \<and> POid fresh \<notin> dom (docs c)")
  case True
  then show "create_passenger fresh p c = (Inr r, c') \<Longrightarrow> ?thesis"
    using create_stores_new [of c fresh p] by auto
next
  case False
  then have "\<exists>e. fst (create_passenger fresh p c) = Inl e"
    by (auto simp: create_passenger_def create_passenger_try_def insert_one_def Let_def jsonable_encode_no_id)
  then show "create_passenger fresh p c = (Inr r, c') \<Longrightarrow> ?thesis" by auto
qed

lemma reraise_500_eq_Inr: "reraise_500 x = Inr r \<longleftrightarrow> x = Inr r"
  by (cases x) simp_all

lemma get_success:
  "get_passenger pid c = (Inr r, c') \<Longrightarrow>
   \<exists>oi d. objectid_of_str pid = Some oi \<and> docs c (POid oi) = Some d \<and> passenger_helper d = Inr r \<and> c' = c"
  by (auto simp: get_passenger_def get_passenger_try_def find_one_def reraise_500_eq_Inr
      split: option.splits sum.splits if_splits)

lemma delete_success:
  "delete_passenger pid c = (Inr r, c') \<Longrightarrow>
   \<exists>oi. objectid_of_str pid = Some oi \<and> POid oi \<in> dom (docs c) \<and>
        c' = c\<lparr>docs := (docs c)(POid oi := None)\<rparr> \<and>
        r = [(''message'', PStr ''Passenger deleted successfully'')]"
  by (auto simp: delete_passenger_def delete_passenger_try_def delete_one_def split: option.splits if_splits)

lemma helper_view:
  "passenger_helper d = Inr r \<Longrightarrow> wf_doc (POid oi) d \<Longrightarrow>
   r = (''id'', PStr (objectid_str oi)) # record_view d"
  by (auto simp: record_view_def wf_doc_def doc_get_def dest: passenger_helper_Inr)

lemma abs_store_write [simp]:
  "abs_store (c\<lparr>docs := (docs c)(POid oi \<mapsto> d)\<rparr>) = (abs_store c)(oi \<mapsto> record_view d)"
  by (auto simp: abs_store_def)

lemma abs_store_remove [simp]:
  "abs_store (c\<lparr>docs := (docs c)(POid oi := None)\<rparr>) = (abs_store c)(oi := None)"
  by (auto simp: abs_store_def)

lemma updated_view:
  assumes w: "wf_doc k d" and h: "passenger_helper d = Inr old"
  shows "record_view (set_fields d (convert_dates_to_string (dict_merge old (dict_exclude_unset p)))) =
         upd_view (record_view d) p"
  using updated_field_value [OF w h]
  by (simp add: record_view_def upd_view_def cong: map_cong)

lemma wf_doc_oid: "wf_doc (POid oi) d \<Longrightarrow> valid_oid oi \<and> d ''_id'' = Some (POid oi)"
  by (simp add: wf_doc_def)

lemma wf_helper:
  assumes w: "wf_doc (POid oi) d"
  shows "passenger_helper d = Inr ((''id'', PStr (objectid_str oi)) # record_view d)"
proof -
  from w have "list_all (\<lambda>k. d k \<noteq> None) helper_subscripts"
    by (auto simp: wf_doc_def helper_subscripts_def required_fields_def field_ok_def split: option.splits)
  from passenger_helper_fields [OF this] w show ?thesis
    by (simp add: record_view_def wf_doc_def doc_get_def)
qed

lemma ex_body2_valid: "validate_passenger_create (\<lambda>_. True) ex_body2 = Inr ex_update"
  by (simp add: validate_passenger_create_def Let_def ex_body2_def ex_body_def req_str_def opt_str_def
      opt_date_def req_email_def err_of_def py_strip_def is_py_space_def email_normalize_def py_lower_def
      email_address_def pretty_email_match_def
      ex_update_def ex_passenger_def required_fields_def passenger_fields_def)

lemma ex_created_wf: "wf_store (snd (create_passenger ex_oid ex_passenger empty_coll))"
proof -
  have "wf_store empty_coll" by (simp add: wf_store_def empty_coll_def)
  from wf_store_write [OF this wf_created_doc [OF ex_oid_valid]]
  show ?thesis
    using create_stores_new [of empty_coll ex_oid ex_passenger]
    by (simp add: empty_coll_def valid_dates_def ex_passenger_def)
qed

lemma ex_create_dispatch:
  assumes v: "validate_passenger_create email_ok ex_body = Inr p"
  shows "dispatch email_ok ex_oid (PostCreate ex_body) \<lparr>docs = Map.empty, online = True\<rparr> =
      (Ok ((''id'', PStr (objectid_str ex_oid)) # jsonable_encode p),
       \<lparr>docs = [POid ex_oid \<mapsto> created_doc ex_oid p], online = True\<rparr>)"
proof -
  have "create_passenger ex_oid p \<lparr>docs = Map.empty, online = True\<rparr> =
      (Inr ((''id'', PStr (objectid_str ex_oid)) # jsonable_encode p),
       \<lparr>docs = [POid ex_oid \<mapsto> created_doc ex_oid p], online = True\<rparr>)"
    using create_stores_new [of "\<lparr>docs = Map.empty, online = True\<rparr>" ex_oid p] by simp
  with v show ?thesis by (simp add: http_response_def)
qed

subsection \<open>Refinement\<close>

text \<open>
  C14: The service implements the CRUD contract. From a state where every
  stored document is well formed, every request answered with success is
  either \<open>GET /\<close>, which changes nothing, or one step of the abstract
  contract on the visible records: create adds the encoded input under the
  new identifier, read returns a record, update overlays the body's set fields,
  delete removes a record. The answer is the step's answer and the new
  visible store is the step's new store.
\<close>

theorem dispatch_refines:
  assumes w: "wf_store c" and d: "dispatch email_ok fresh rq c = (Ok body, c')"
  shows "(rq = GetRoot \<and> body = root \<and> c' = c) \<or>
         (\<exists>op. abs_request email_ok rq = Some op \<and> astep fresh op (abs_store c) = Some (body, abs_store c'))"
proof (cases rq)
  case GetRoot
  with d show ?thesis by simp
next
  case (PostCreate b)
  with d obtain p where v: "validate_passenger_create email_ok b = Inr p"
    and cr: "create_passenger fresh p c = (Inr body, c')"
    by (auto simp: http_ok split: sum.splits)
  from create_success [OF cr]
  have fr: "POid fresh \<notin> dom (docs c)"
    and c': "c' = c\<lparr>docs := (docs c)(POid fresh \<mapsto> created_doc fresh p)\<rparr>"
    and r: "body = (''id'', PStr (objectid_str fresh)) # jsonable_encode p" by simp_all
  have "fresh \<notin> dom (abs_store c)" using fr by (simp add: abs_store_def domIff)
  with PostCreate v c' r show ?thesis
    by (simp add: abs_request_def record_view_def created_doc_view)
next
  case (GetPassenger pid)
  with d have "get_passenger pid c = (Inr body, c')" by (simp add: http_ok)
  from get_success [OF this] obtain oi dd where pid: "objectid_of_str pid = Some oi"
    and dd: "docs c (POid oi) = Some dd" and h: "passenger_helper dd = Inr body" and c': "c' = c"
    by blast
  from w dd have "wf_doc (POid oi) dd" by (simp add: wf_store_def)
  from helper_view [OF h this] GetPassenger pid dd c' show ?thesis
    by (simp add: abs_request_def abs_store_def)
next
  case (PutUpdate pid b)
  with d obtain p where v: "validate_passenger_create email_ok b = Inr p"
    and u: "update_passenger pid p c = (Inr body, c')"
    by (auto simp: http_ok split: sum.splits)
  from u have "update_passenger_try pid p c = (Inr body, c')"
    by (simp add: update_passenger_def reraise_500_Inr)
  then obtain oi dd old where pid: "objectid_of_str pid = Some oi"
    and dd: "docs c (POid oi) = Some dd" and h: "passenger_helper dd = Inr old"
    and c': "c' = c\<lparr>docs := (docs c)(POid oi \<mapsto> set_fields dd (convert_dates_to_string (dict_merge old (dict_exclude_unset p))))\<rparr>"
    and h': "passenger_helper (set_fields dd (convert_dates_to_string (dict_merge old (dict_exclude_unset p)))) = Inr body"
    by (blast dest: update_success_inv)
  from w dd have wd: "wf_doc (POid oi) dd" by (simp add: wf_store_def)
  have "body = (''id'', PStr (objectid_str oi)) #
      record_view (set_fields dd (convert_dates_to_string (dict_merge old (dict_exclude_unset p))))"
    using helper_view [OF h' wf_doc_updated [OF wd h validate_valid_dates [OF v]]] .
  with PutUpdate v pid dd c' updated_view [OF wd h, of p] show ?thesis
    by (simp add: abs_request_def abs_store_def)
next
  case (DeletePassenger pid)
  with d have "delete_passenger pid c = (Inr body, c')" by (simp add: http_ok)
  from delete_success [OF this] obtain oi where pid: "objectid_of_str pid = Some oi"
    and dd: "POid oi \<in> dom (docs c)" and c': "c' = c\<lparr>docs := (docs c)(POid oi := None)\<rparr>"
    and r: "body = [(''message'', PStr ''Passenger deleted successfully'')]" by blast
  from DeletePassenger pid dd c' r show ?thesis
    by (auto simp: abs_request_def abs_store_def)
qed

theorem dispatch_refines_witness:
  "\<exists>body c'. dispatch (\<lambda>_. True) ex_oid (PostCreate ex_body) \<lparr>docs = Map.empty, online = True\<rparr> = (Ok body, c') \<and>
     (\<exists>op. abs_request (\<lambda>_. True) (PostCreate ex_body) = Some op \<and>
           astep ex_oid op (abs_store \<lparr>docs = Map.empty, online = True\<rparr>) = Some (body, abs_store c'))"
proof -
  obtain p where v: "validate_passenger_create (\<lambda>_. True) ex_body = Inr p" using ex_body_valid [of "\<lambda>_. True"] by blast
  note d = ex_create_dispatch [OF v]
  have w: "wf_store \<lparr>docs = Map.empty, online = True\<rparr>" by (simp add: wf_store_def)
  from dispatch_refines [OF w d] d show ?thesis by auto
qed

subsection \<open>Liveness\<close>

text \<open>
  C18: The contract's steps are served. On a well-formed store with the
  database reachable, reading a stored record answers its view, deleting it
  answers the confirmation and removes it, and an update whose body changes the
  visible record answers the overlaid view: each is the abstract step's answer.
\<close>

theorem contract_steps_served:
  assumes w: "wf_store c" and on: "online c" and d: "docs c (POid oi) = Some doc"
    and v: "validate_passenger_create email_ok b = Inr p"
    and ch: "upd_view (record_view doc) p \<noteq> record_view doc"
  shows "dispatch email_ok fresh (GetPassenger (objectid_str oi)) c =
           (Ok ((''id'', PStr (objectid_str oi)) # record_view doc), c) \<and>
         fst (dispatch email_ok fresh (PutUpdate (objectid_str oi) b) c) =
           Ok ((''id'', PStr (objectid_str oi)) # upd_view (record_view doc) p) \<and>
         dispatch email_ok fresh (DeletePassenger (objectid_str oi)) c =
           (Ok [(''message'', PStr ''Passenger deleted successfully'')], c\<lparr>docs := (docs c)(POid oi := None)\<rparr>)"
proof -
  from w d have wd: "wf_doc (POid oi) doc" by (simp add: wf_store_def)
  note oid = wf_doc_oid [OF wd]
  have pid: "objectid_of_str (objectid_str oi) = Some oi" using oid by (simp add: objectid_roundtrip)
  have h: "passenger_helper doc = Inr ((''id'', PStr (objectid_str oi)) # record_view doc)"
    by (rule wf_helper [OF wd])
  have t: "doc_truthy (Some doc)" using helper_truthy [OF h] by simp
  let ?old = "(''id'', PStr (objectid_str oi)) # record_view doc"
  let ?m = "convert_dates_to_string (dict_merge ?old (dict_exclude_unset p))"
  have wd': "wf_doc (POid oi) (set_fields doc ?m)"
    by (rule wf_doc_updated [OF wd h validate_valid_dates [OF v]])
  have "record_view (set_fields doc ?m) \<noteq> record_view doc" using ch updated_view [OF wd h, of p] by simp
  then have "set_fields doc ?m \<noteq> doc" by auto
  then have sc: "set_changes doc ?m"
    using merged_keys [OF h, of p] distinct_passenger_fields by (simp add: set_changes_iff)
  have upd: "fst (update_passenger (objectid_str oi) p c) =
      Inr ((''id'', PStr (objectid_str oi)) # upd_view (record_view doc) p)"
    using update_passenger_try_found [OF pid on d h, of p] sc wf_helper [OF wd'] updated_view [OF wd h, of p]
    by (simp add: update_passenger_def Let_def)
  show ?thesis
    using pid on d h t upd v
    by (simp add: get_passenger_def get_passenger_try_def find_one_online delete_passenger_def
        delete_passenger_try_def delete_one_online http_response_def apfst_def map_prod_def split_def)
qed

theorem contract_steps_served_witness:
  "dispatch (\<lambda>_. True) ex_oid (GetPassenger (objectid_str ex_oid)) (snd (create_passenger ex_oid ex_passenger empty_coll)) =
     (Ok ((''id'', PStr (objectid_str ex_oid)) # record_view (created_doc ex_oid ex_passenger)),
      snd (create_passenger ex_oid ex_passenger empty_coll)) \<and>
   fst (dispatch (\<lambda>_. True) ex_oid (PutUpdate (objectid_str ex_oid) ex_body2) (snd (create_passenger ex_oid ex_passenger empty_coll))) =
     Ok ((''id'', PStr (objectid_str ex_oid)) # upd_view (record_view (created_doc ex_oid ex_passenger)) ex_update) \<and>
   dispatch (\<lambda>_. True) ex_oid (DeletePassenger (objectid_str ex_oid)) (snd (create_passenger ex_oid ex_passenger empty_coll)) =
     (Ok [(''message'', PStr ''Passenger deleted successfully'')],
      (snd (create_passenger ex_oid ex_passenger empty_coll))\<lparr>docs :=
         (docs (snd (create_passenger ex_oid ex_passenger empty_coll)))(POid ex_oid := None)\<rparr>)"
proof -
  let ?v = "record_view (created_doc ex_oid ex_passenger)"
  have m1: "map_of (upd_view ?v ex_update) ''meal_preference'' = Some (PStr ''vegan'')"
    by (simp add: upd_view_def record_view_def map_of_map_values map_of_map_key passenger_fields_def
        ex_update_def ex_passenger_def required_fields_def passenger_dict_def opt_pystr_def json_encode_value_def)
  have m2: "map_of ?v ''meal_preference'' = Some (doc_get (created_doc ex_oid ex_passenger) ''meal_preference'')"
    by (simp add: record_view_def map_of_map_key passenger_fields_def)
  have "doc_get (created_doc ex_oid ex_passenger) ''meal_preference'' = PNone"
    by (simp add: created_doc_def doc_get_def jsonable_encode_def passenger_dict_def ex_passenger_def
        opt_pystr_def json_encode_value_def)
  with m1 m2 have ch: "upd_view ?v ex_update \<noteq> ?v" by auto
  from contract_steps_served [OF ex_created_wf ex_created ex_body2_valid ch] show ?thesis .
qed

end
