(* ===== verification/Models.thy ===== *)
theory Models
  imports Schemas
begin

text \<open>
  The pydantic models of the repository as data: a model is the list of its
  declared fields with their types, and one validator, \<open>validate_model\<close>,
  checks a JSON body against any such list the way pydantic (v1) does, field by
  field in declaration order, collecting every error. \<open>PassengerCreate\<close>
  (schemas.py), the ORM model \<open>Passenger\<close> (models.py, never used by
  main.py) and the response model \<open>PassengerResponse\<close> (schemas.py, which
  adds \<open>id: str\<close>) are three such lists.
\<close>

subsection \<open>Models as field lists\<close>

datatype ftype = FStr | FOptStr | FOptDate | FEmail

type_synonym model_schema = "(string \<times> ftype) list"

text \<open>\<open>class PassengerCreate(BaseModel)\<close>, schemas.py lines 6-23.\<close>

definition passenger_create_schema :: model_schema where
  "passenger_create_schema =
     [(''title'', FStr), (''given_name'', FStr), (''surname'', FStr), (''passport_number'', FOptStr),
      (''date_of_birth'', FOptDate), (''date_of_expiration'', FOptDate), (''email'', FEmail),
      (''mobile'', FStr), (''emergency_contact'', FOptStr), (''organization_name'', FOptStr),
      (''designation'', FOptStr), (''frequent_flyer_number'', FOptStr), (''recent_route'', FOptStr),
      (''favourite_carrier'', FOptStr), (''meal_preference'', FOptStr), (''accessibility'', FOptStr),
      (''baggage_preference'', FOptStr)]"

text \<open>
  \<open>class Passenger(BaseModel)\<close>, models.py lines 6-26; \<open>orm_mode\<close> only adds
  \<open>from_orm\<close> and does not change how a dict is validated.
\<close>

definition passenger_schema :: model_schema where
  "passenger_schema =
     [(''title'', FStr), (''given_name'', FStr), (''surname'', FStr), (''passport_number'', FOptStr),
      (''date_of_birth'', FOptDate), (''date_of_expiration'', FOptDate), (''email'', FEmail),
      (''mobile'', FStr), (''emergency_contact'', FOptStr), (''organization_name'', FOptStr),
      (''designation'', FOptStr), (''frequent_flyer_number'', FOptStr), (''recent_route'', FOptStr),
      (''favourite_carrier'', FOptStr), (''meal_preference'', FOptStr), (''accessibility'', FOptStr),
      (''baggage_preference'', FOptStr)]"

text \<open>\<open>class PassengerResponse(PassengerCreate): id: str\<close>, schemas.py lines 26-27.\<close>

definition passenger_response_schema :: model_schema where
  "passenger_response_schema = passenger_create_schema @ [(''id'', FStr)]"

subsection \<open>Validation against a model\<close>

text \<open>One field: the field validators of Schemas, the value as \<open>.dict()\<close> holds it.\<close>

fun validate_field :: "(string \<Rightarrow> bool) \<Rightarrow> json_obj \<Rightarrow> string \<times> ftype \<Rightarrow> val_error + pyval" where
  "validate_field email_ok b (k, FStr) = map_sum id PStr (req_str b k)"
| "validate_field email_ok b (k, FOptStr) = map_sum id opt_pystr (opt_str b k)"
| "validate_field email_ok b (k, FOptDate) = map_sum id opt_pydate (opt_date b k)"
| "validate_field email_ok b (k, FEmail) = map_sum id PStr (req_email email_ok b k)"

text \<open>\<open>Model(**b).dict()\<close>, or every field's errors in declaration order.\<close>

definition validate_model :: "(string \<Rightarrow> bool) \<Rightarrow> model_schema \<Rightarrow> json_obj \<Rightarrow> val_error list + pydict" where
  "validate_model email_ok sch b =
     (let rs = map (validate_field email_ok b) sch;
          errs = concat (map err_of rs)
      in if errs \<noteq> [] then Inl errs else Inr (zip (map fst sch) (map projr rs)))"

subsection \<open>Lemmas\<close>

lemma err_of_map_sum [simp]: "err_of (map_sum id f r) = err_of r"
  by (cases r) (simp_all add: err_of_def)

lemma projr_map_sum: "err_of r = [] \<Longrightarrow> projr (map_sum id f r) = f (projr r)"
  by (cases r) (simp_all add: err_of_def)

text \<open>
  One validator for the three models. Validating a body against the field
  list of \<open>PassengerCreate\<close> gives exactly the errors of the dedicated
  validator, or the \<open>.dict()\<close> of the model it builds; and the ORM model
  \<open>Passenger\<close> of models.py accepts and rejects exactly the same bodies.
\<close>

theorem models_validate_alike:
  "validate_model email_ok passenger_create_schema b =
     map_sum id passenger_dict (validate_passenger_create email_ok b) \<and>
   validate_model email_ok passenger_schema b = validate_model email_ok passenger_create_schema b"
proof
  show "validate_model email_ok passenger_create_schema b =
     map_sum id passenger_dict (validate_passenger_create email_ok b)"
    unfolding validate_model_def validate_passenger_create_def passenger_create_schema_def Let_def
    by (simp del: err_of_Nil add: projr_map_sum passenger_dict_def)
  show "validate_model email_ok passenger_schema b = validate_model email_ok passenger_create_schema b"
    by (simp add: passenger_schema_def passenger_create_schema_def)
qed

end
