(* ===== verification/Responses.thy ===== *)
theory Responses
  imports Contract Models
begin

text \<open>
  FastAPI's response model. Create, read and update are declared with
  \<open>response_model=PassengerResponse\<close> (main.py lines 43, 71, 88): FastAPI
  validates the dict a handler returns against \<open>PassengerResponse\<close>, answers
  500 when that fails, and otherwise sends the model's fields in declaration
  order, dates as ISO strings. Delete and \<open>GET /\<close> have no response model.
\<close>

subsection \<open>Serialising a returned dict\<close>

text \<open>
  The Python values of a returned dict as the validator sees them. A date
  object never occurs in a dict these handlers return (dates are stored as ISO
  strings), and is read like any other non-string object.
\<close>

definition json_of_pyval :: "pyval \<Rightarrow> json" where
  "json_of_pyval v = (case v of PNone \<Rightarrow> JNull | PStr s \<Rightarrow> JStr s | _ \<Rightarrow> JOther)"

definition dict_json :: "pydict \<Rightarrow> json_obj" where
  "dict_json r k = map_option json_of_pyval (map_of r k)"

text \<open>\<open>serialize_response\<close>: validation against the model, then \<open>jsonable_encoder\<close>.\<close>

definition serialize_response :: "(string \<Rightarrow> bool) \<Rightarrow> model_schema \<Rightarrow> pydict \<Rightarrow> val_error list + pydict" where
  "serialize_response email_ok sch r =
     map_sum id (map (\<lambda>(k, v). (k, json_encode_value v))) (validate_model email_ok sch (dict_json r))"

definition has_response_model :: "request \<Rightarrow> bool" where
  "has_response_model rq =
     (case rq of PostCreate _ \<Rightarrow> True | GetPassenger _ \<Rightarrow> True | PutUpdate _ _ \<Rightarrow> True | _ \<Rightarrow> False)"

text \<open>A request served end to end: the handler's answer passed through the response model.\<close>

definition serve :: "(string \<Rightarrow> bool) \<Rightarrow> oid \<Rightarrow> request \<Rightarrow> collection \<Rightarrow> response \<times> collection" where
  "serve email_ok fresh rq c =
     (case dispatch email_ok fresh rq c of
        (Ok body, c') \<Rightarrow>
          (if has_response_model rq
           then (case serialize_response email_ok passenger_response_schema body of
                   Inl _ \<Rightarrow> Error 500 ''Internal Server Error''
                 | Inr body' \<Rightarrow> Ok body')
           else Ok body, c')
      | (resp, c') \<Rightarrow> (resp, c'))"

subsection \<open>Stored e-mails\<close>

text \<open>A stored e-mail is one that validates to itself.\<close>

definition email_fixed :: "(string \<Rightarrow> bool) \<Rightarrow> doc \<Rightarrow> bool" where
  "email_fixed email_ok d =
     (case d ''email'' of
        Some (PStr e) \<Rightarrow> req_email email_ok [''email'' \<mapsto> JStr e] ''email'' = Inr e
      | _ \<Rightarrow> False)"

text \<open>
  What the development assumes of the address checker of \<open>email_validator\<close>:
  lowering the domain of an address it accepts gives an address it accepts,
  and it accepts no address containing \<open><\<close>.
\<close>

definition email_check_stable :: "(string \<Rightarrow> bool) \<Rightarrow> bool" where
  "email_check_stable email_ok \<longleftrightarrow>
     (\<forall>x. email_ok x \<longrightarrow> email_ok (email_normalize x) \<and> CHR ''<'' \<notin> set x)"

text \<open>A sample checker for the examples: it refuses every address with \<open><\<close>.\<close>

definition ex_email_ok :: "string \<Rightarrow> bool" where
  "ex_email_ok x \<longleftrightarrow> CHR ''<'' \<notin> set x"

definition emails_fixed :: "(string \<Rightarrow> bool) \<Rightarrow> collection \<Rightarrow> bool" where
  "emails_fixed email_ok c \<longleftrightarrow> (\<forall>k d. docs c k = Some d \<longrightarrow> email_fixed email_ok d)"

subsection \<open>Validating one field of a stored record\<close>

lemma req_email_local: "b k = b' k \<Longrightarrow> req_email email_ok b k = req_email email_ok b' k"
  by (simp add: req_email_def req_str_def)

lemma validate_field_str:
  "B f = Some (json_of_pyval v) \<Longrightarrow> is_str_val v \<Longrightarrow> validate_field email_ok B (f, FStr) = Inr v"
  by (auto simp: req_str_def json_of_pyval_def is_str_val_def split: pyval.splits)

lemma validate_field_opt_str:
  "B f = Some (json_of_pyval v) \<Longrightarrow> is_opt_str_val v \<Longrightarrow> validate_field email_ok B (f, FOptStr) = Inr v"
  by (auto simp: opt_str_def json_of_pyval_def is_opt_str_val_def opt_pystr_def split: pyval.splits)

lemma validate_field_date:
  "B f = Some (json_of_pyval v) \<Longrightarrow> iso_date_val v \<Longrightarrow>
   \<exists>w. validate_field email_ok B (f, FOptDate) = Inr w \<and> json_encode_value w = v"
  by (auto simp: opt_date_def json_of_pyval_def iso_date_val_def opt_pydate_def json_encode_value_def
      parse_date_text_iso split: pyval.splits option.splits)

lemma validate_field_email:
  "B ''email'' = Some (JStr e) \<Longrightarrow> req_email email_ok [''email'' \<mapsto> JStr e] ''email'' = Inr e \<Longrightarrow>
   validate_field email_ok B (''email'', FEmail) = Inr (PStr e)"
  using req_email_local [of B "''email''" "[''email'' \<mapsto> JStr e]" email_ok] by simp

subsection \<open>Validating a whole record\<close>

lemma validated_fields:
  "\<forall>(f, t) \<in> set sch. \<exists>w. validate_field email_ok B (f, t) = Inr w \<and> json_encode_value w = g f \<Longrightarrow>
   concat (map (err_of \<circ> validate_field email_ok B) sch) = [] \<and>
   map (\<lambda>(k, v). (k, json_encode_value v)) (zip (map fst sch) (map (projr \<circ> validate_field email_ok B) sch)) =
     map (\<lambda>(f, t). (f, g f)) sch"
  by (induction sch) (auto simp: err_of_def)

lemma serialize_all_ok:
  "\<forall>(f, t) \<in> set sch. \<exists>w. validate_field email_ok B (f, t) = Inr w \<and> json_encode_value w = g f \<Longrightarrow>
   map_sum id (map (\<lambda>(k, v). (k, json_encode_value v))) (validate_model email_ok sch B) =
     Inr (map (\<lambda>(f, t). (f, g f)) sch)"
  by (drule validated_fields) (simp add: validate_model_def Let_def)

lemma schema_field_types:
  "(f, t) \<in> set passenger_create_schema \<Longrightarrow>
   (t = FStr \<and> f \<in> set required_fields \<and> f \<noteq> ''email'') \<or> (t = FOptStr \<and> f \<in> set optional_str_fields) \<or>
   (t = FOptDate \<and> f \<in> set date_fields) \<or> (t = FEmail \<and> f = ''email'')"
  by (auto simp: passenger_create_schema_def required_fields_def optional_str_fields_def date_fields_def)

lemma create_schema_keys: "map fst passenger_create_schema = passenger_fields"
  by (simp add: passenger_create_schema_def passenger_fields_def)

lemma field_ok_doc_get: "field_ok P d f \<Longrightarrow> d f = Some (doc_get d f) \<and> P (doc_get d f)"
  by (auto simp: field_ok_def doc_get_def split: option.splits)

text \<open>
  The dict a handler returns for a well-formed record with a fixed e-mail
  passes the response model; the body sent has the same entries, \<open>"id"\<close>
  last.
\<close>

lemma serialize_view:
  assumes w: "wf_doc k d" and e: "email_fixed email_ok d"
  shows "serialize_response email_ok passenger_response_schema ((''id'', PStr s) # record_view d) =
           Inr (record_view d @ [(''id'', PStr s)])"
proof -
  let ?B = "dict_json ((''id'', PStr s) # record_view d)"
  let ?g = "\<lambda>f. if f = ''id'' then PStr s else doc_get d f"
  have lk: "?B f = Some (json_of_pyval (doc_get d f))" if "f \<in> set passenger_fields" for f
    using that by (auto simp: dict_json_def record_view_def map_of_map_key)
  from w have req: "\<forall>f \<in> set required_fields. field_ok is_str_val d f"
    and opt: "\<forall>f \<in> set optional_str_fields. field_ok is_opt_str_val d f"
    and dat: "\<forall>f \<in> set date_fields. field_ok iso_date_val d f"
    by (simp_all add: wf_doc_def list_all_iff)
  have ok: "\<exists>v. validate_field email_ok ?B (f, t) = Inr v \<and> json_encode_value v = ?g f"
    if ft: "(f, t) \<in> set passenger_response_schema" for f t
  proof (cases "(f, t) \<in> set passenger_create_schema")
    case True
    have f1: "f \<in> set passenger_fields"
      using True create_schema_keys by (metis fst_conv image_eqI list.set_map)
    then have f: "f \<in> set passenger_fields" "f \<noteq> ''id''" by auto
    from schema_field_types [OF True] show ?thesis
    proof (elim disjE conjE)
      assume t: "t = FStr" and r: "f \<in> set required_fields"
      have v: "is_str_val (doc_get d f)" using req field_ok_doc_get r by blast
      then have "json_encode_value (doc_get d f) = doc_get d f"
        by (auto simp: is_str_val_def json_encode_value_def split: pyval.splits)
      with validate_field_str [where B = "dict_json ((''id'', PStr s) # record_view d)" and f = f, OF lk [OF f(1)] v] t f(2) show ?thesis by auto
    next
      assume t: "t = FOptStr" and r: "f \<in> set optional_str_fields"
      have v: "is_opt_str_val (doc_get d f)" using opt field_ok_doc_get r by blast
      then have "json_encode_value (doc_get d f) = doc_get d f"
        by (auto simp: is_opt_str_val_def json_encode_value_def split: pyval.splits)
      with validate_field_opt_str [where B = "dict_json ((''id'', PStr s) # record_view d)" and f = f, OF lk [OF f(1)] v] t f(2) show ?thesis by auto
    next
      assume t: "t = FOptDate" and r: "f \<in> set date_fields"
      have v: "iso_date_val (doc_get d f)" using dat field_ok_doc_get r by blast
      with validate_field_date [where B = "dict_json ((''id'', PStr s) # record_view d)" and f = f, OF lk [OF f(1)] v] t f(2) show ?thesis by auto
    next
      assume t: "t = FEmail" and fe: "f = ''email''"
      obtain em where em: "d ''email'' = Some (PStr em)" and fx: "req_email email_ok [''email'' \<mapsto> JStr em] ''email'' = Inr em"
        using e by (auto simp: email_fixed_def split: option.splits pyval.splits)
      have "?B ''email'' = Some (JStr em)"
        using lk [of "''email''"] em by (simp add: passenger_fields_def doc_get_def json_of_pyval_def)
      from validate_field_email [where B = "dict_json ((''id'', PStr s) # record_view d)", OF this fx] t fe em show ?thesis
        by (simp add: json_encode_value_def doc_get_def)
    qed
  next
    case False
    with ft have "f = ''id''" "t = FStr" by (auto simp: passenger_response_schema_def)
    moreover have "?B ''id'' = Some (JStr s)" by (simp add: dict_json_def json_of_pyval_def)
    ultimately show ?thesis by (simp add: req_str_def json_encode_value_def)
  qed
  then have "serialize_response email_ok passenger_response_schema ((''id'', PStr s) # record_view d) =
      Inr (map (\<lambda>(f, t). (f, ?g f)) passenger_response_schema)"
    unfolding serialize_response_def by (intro serialize_all_ok) blast
  moreover have "map (\<lambda>(f, t). (f, ?g f)) passenger_response_schema = record_view d @ [(''id'', PStr s)]"
  proof -
    have "map (\<lambda>(f, t). (f, ?g f)) passenger_create_schema = map (\<lambda>f. (f, ?g f)) passenger_fields"
      by (simp add: create_schema_keys [symmetric] case_prod_beta)
    also have "\<dots> = record_view d"
      by (simp add: record_view_def)
    finally show ?thesis by (simp add: passenger_response_schema_def)
  qed
  ultimately show ?thesis by simp
qed

subsection \<open>The stored e-mails stay fixed\<close>

lemma email_fixed_PStr:
  assumes ok: "email_check_stable email_ok"
    and d: "d ''email'' = Some (PStr e)" and v: "req_email email_ok b ''email'' = Inr e"
  shows "email_fixed email_ok d"
proof -
  have ok': "\<And>x. email_ok x \<Longrightarrow> email_ok (email_normalize x) \<and> CHR ''<'' \<notin> set x"
    using ok unfolding email_check_stable_def by blast
  have b': "([''email'' \<mapsto> JStr e] :: json_obj) ''email'' = Some (JStr e)" by simp
  have "req_email email_ok [''email'' \<mapsto> JStr e] ''email'' = Inr e"
    using req_email_refix [of email_ok b "''email''" e "[''email'' \<mapsto> JStr e]" "''email''"] ok' v b'
    by blast
  with d show ?thesis by (simp add: email_fixed_def)
qed

lemma created_email_fixed:
  assumes ok: "email_check_stable email_ok" and v: "validate_passenger_create email_ok b = Inr p"
  shows "email_fixed email_ok (created_doc fresh p)"
proof (rule email_fixed_PStr [OF ok])
  show "created_doc fresh p ''email'' = Some (PStr (email p))"
    by (simp add: created_doc_def jsonable_encode_def passenger_dict_def json_encode_value_def)
  show "req_email email_ok b ''email'' = Inr (email p)" using validate_fields [OF v] by simp
qed

lemma email_fixed_D: "email_fixed email_ok d \<Longrightarrow> \<exists>e. d ''email'' = Some (PStr e)"
  by (auto simp: email_fixed_def split: option.splits pyval.splits)

lemma updated_email_fixed:
  assumes ok: "email_check_stable email_ok" and v: "validate_passenger_create email_ok b = Inr p"
    and w: "wf_doc k d" and h: "passenger_helper d = Inr old" and e: "email_fixed email_ok d"
  shows "email_fixed email_ok (set_fields d (convert_dates_to_string (dict_merge old (dict_exclude_unset p))))"
proof -
  let ?d' = "set_fields d (convert_dates_to_string (dict_merge old (dict_exclude_unset p)))"
  have f: "''email'' \<in> set passenger_fields" by (simp add: passenger_fields_def)
  obtain em where em: "d ''email'' = Some (PStr em)" using email_fixed_D [OF e] by blast
  then have "?d' ''email'' \<noteq> None" by (intro set_fields_keeps) simp
  then have d': "?d' ''email'' = Some (doc_get ?d' ''email'')" by (auto simp: doc_get_def)
  note upd = updated_field_value [OF w h f, of p]
  show ?thesis
  proof (cases "''email'' \<in> set (fields_set p)")
    case True
    with upd d' have "?d' ''email'' = Some (PStr (email p))"
      by (simp add: passenger_dict_def json_encode_value_def)
    moreover have "req_email email_ok b ''email'' = Inr (email p)" using validate_fields [OF v] by simp
    ultimately show ?thesis by (rule email_fixed_PStr [OF ok])
  next
    case False
    with upd have "doc_get ?d' ''email'' = doc_get d ''email''" by simp
    moreover have "doc_get d ''email'' = PStr em" using em by (simp add: doc_get_def)
    ultimately have "?d' ''email'' = d ''email''" using d' em by simp
    with e show ?thesis by (simp add: email_fixed_def)
  qed
qed

lemma emails_fixed_write:
  "emails_fixed email_ok c \<Longrightarrow> email_fixed email_ok d \<Longrightarrow> emails_fixed email_ok (c\<lparr>docs := (docs c)(k \<mapsto> d)\<rparr>)"
  by (simp add: emails_fixed_def)

lemma emails_fixed_remove: "emails_fixed email_ok c \<Longrightarrow> emails_fixed email_ok (c\<lparr>docs := (docs c)(k := None)\<rparr>)"
  by (simp add: emails_fixed_def)

lemma create_emails_fixed:
  assumes ok: "email_check_stable email_ok" and e: "emails_fixed email_ok c"
    and v: "validate_passenger_create email_ok b = Inr p"
  shows "emails_fixed email_ok (snd (create_passenger fresh p c))"
proof -
  note eff = create_effect [of fresh p c "fst (create_passenger fresh p c)" "snd (create_passenger fresh p c)"]
  show ?thesis
  proof (cases "snd (create_passenger fresh p c) = c")
    case False
    with eff have "snd (create_passenger fresh p c) = c\<lparr>docs := (docs c)(POid fresh \<mapsto> created_doc fresh p)\<rparr>"
      by simp
    with emails_fixed_write [OF e created_email_fixed [OF ok v]] show ?thesis by simp
  qed (use e in simp)
qed

lemma update_emails_fixed:
  assumes ok: "email_check_stable email_ok" and w: "wf_store c" and e: "emails_fixed email_ok c"
    and v: "validate_passenger_create email_ok b = Inr p"
  shows "emails_fixed email_ok (snd (update_passenger pid p c))"
proof (cases "snd (update_passenger pid p c) = c")
  case False
  with update_effect [of pid p c "fst (update_passenger pid p c)" "snd (update_passenger pid p c)"]
  obtain oi d old where d: "docs c (POid oi) = Some d" and h: "passenger_helper d = Inr old"
    and c': "snd (update_passenger pid p c) =
      c\<lparr>docs := (docs c)(POid oi \<mapsto> set_fields d (convert_dates_to_string (dict_merge old (dict_exclude_unset p))))\<rparr>"
    by auto
  from w d have wd: "wf_doc (POid oi) d" by (simp add: wf_store_def)
  from e d have "email_fixed email_ok d" by (simp add: emails_fixed_def)
  from emails_fixed_write [OF e updated_email_fixed [OF ok v wd h this]] c' show ?thesis by simp
qed (use e in simp)

lemma dispatch_emails_fixed:
  assumes ok: "email_check_stable email_ok" and w: "wf_store c" and e: "emails_fixed email_ok c"
  shows "emails_fixed email_ok (snd (dispatch email_ok fresh rq c))"
proof (cases rq)
  case (PostCreate b)
  with e create_emails_fixed [OF ok e] show ?thesis by (simp split: sum.splits)
next
  case (PutUpdate pid b)
  with e update_emails_fixed [OF ok w e] show ?thesis by (simp split: sum.splits)
next
  case (DeletePassenger pid)
  with e show ?thesis using delete_effect_store [of _ pid c] emails_fixed_remove by auto
qed (use e in \<open>simp_all add: get_effect\<close>)

lemma reachable_stores_good:
  assumes ok: "email_check_stable email_ok"
  shows "reachable email_ok c \<Longrightarrow> wf_store c \<and> emails_fixed email_ok c"
proof (induction rule: reachable.induct)
  case start
  then show ?case by (simp add: wf_store_def emails_fixed_def)
next
  case (request c fresh rq resp c')
  then show ?case
    using dispatch_wf [of c fresh email_ok rq] dispatch_emails_fixed [OF ok, of c fresh rq] by simp
next
  case (connectivity c b)
  then show ?case by (simp add: emails_fixed_def)
qed

text \<open>A successful answer of a route with a response model is the view of a stored record.\<close>

lemma dispatch_ok_view:
  assumes w: "wf_store c" and vo: "valid_oid fresh" and d: "dispatch email_ok fresh rq c = (Ok body, c')"
    and m: "has_response_model rq"
  shows "\<exists>oi d'. docs c' (POid oi) = Some d' \<and> wf_doc (POid oi) d' \<and>
           body = (''id'', PStr (objectid_str oi)) # record_view d'"
proof (cases rq)
  case (PostCreate b)
  with d obtain p where v: "validate_passenger_create email_ok b = Inr p"
    and cr: "create_passenger fresh p c = (Inr body, c')"
    by (auto simp: http_ok split: sum.splits)
  note cs = create_success [OF cr]
  have "record_view (created_doc fresh p) = jsonable_encode p"
    by (simp add: record_view_def created_doc_view)
  moreover note wf_created_doc [OF vo validate_valid_dates [OF v]]
  ultimately show ?thesis using cs by auto
next
  case (GetPassenger pid)
  with d have "get_passenger pid c = (Inr body, c')" by (simp add: http_ok)
  from get_success [OF this] obtain oi dd where dd: "docs c (POid oi) = Some dd"
    and h: "passenger_helper dd = Inr body" and c': "c' = c" by blast
  from w dd have wd: "wf_doc (POid oi) dd" by (simp add: wf_store_def)
  from helper_view [OF h wd] dd c' wd show ?thesis by blast
next
  case (PutUpdate pid b)
  with d obtain p where v: "validate_passenger_create email_ok b = Inr p"
    and u: "update_passenger pid p c = (Inr body, c')"
    by (auto simp: http_ok split: sum.splits)
  from u have "update_passenger_try pid p c = (Inr body, c')"
    by (simp add: update_passenger_def reraise_500_Inr)
  then obtain oi dd old where dd: "docs c (POid oi) = Some dd" and h: "passenger_helper dd = Inr old"
    and c': "c' = c\<lparr>docs := (docs c)(POid oi \<mapsto> set_fields dd (convert_dates_to_string (dict_merge old (dict_exclude_unset p))))\<rparr>"
    and h': "passenger_helper (set_fields dd (convert_dates_to_string (dict_merge old (dict_exclude_unset p)))) = Inr body"
    by (blast dest: update_success_inv)
  from w dd have wd: "wf_doc (POid oi) dd" by (simp add: wf_store_def)
  note wd' = wf_doc_updated [OF wd h validate_valid_dates [OF v]]
  from helper_view [OF h' wd'] c' wd' show ?thesis by auto
qed (use m in \<open>simp_all add: has_response_model_def\<close>)

subsection \<open>Claims\<close>

text \<open>
  C17: Every answer passes the response model. In every state reachable from
  an empty database (with an address checker that accepts a lowered domain
  whenever it accepts the address), a create, read or update that the handler
  answers with success also passes FastAPI's validation against
  \<open>PassengerResponse\<close>: the body sent is the handler's dict with the same
  entries, \<open>"id"\<close> moved from first to last, and never a 500 from response
  validation.
\<close>

theorem responses_pass_model:
  assumes ok: "email_check_stable email_ok" and r: "reachable email_ok c" and vo: "valid_oid fresh"
    and d: "dispatch email_ok fresh rq c = (Ok body, c')" and m: "has_response_model rq"
  shows "serve email_ok fresh rq c = (Ok (tl body @ [hd body]), c')"
proof -
  from reachable_stores_good [OF ok r] have w: "wf_store c" and e: "emails_fixed email_ok c" by simp_all
  have w': "wf_store c'" using dispatch_wf [OF w vo, of email_ok rq] d by simp
  have e': "emails_fixed email_ok c'" using dispatch_emails_fixed [OF ok w e, of fresh rq] d by simp
  obtain oi d' where dk: "docs c' (POid oi) = Some d'" and wd: "wf_doc (POid oi) d'"
    and b: "body = (''id'', PStr (objectid_str oi)) # record_view d'"
    using dispatch_ok_view [OF w vo d m] by blast
  from e' dk have "email_fixed email_ok d'" by (simp add: emails_fixed_def)
  from serialize_view [OF wd this, of "objectid_str oi"] b d m show ?thesis by (simp add: serve_def)
qed

theorem responses_pass_model_witness:
  "serve ex_email_ok ex_oid (PostCreate ex_body) \<lparr>docs = Map.empty, online = True\<rparr> =
     (Ok (jsonable_encode (projr (validate_passenger_create ex_email_ok ex_body)) @
          [(''id'', PStr (objectid_str ex_oid))]),
      \<lparr>docs = [POid ex_oid \<mapsto> created_doc ex_oid (projr (validate_passenger_create ex_email_ok ex_body))],
       online = True\<rparr>)"
proof -
  obtain p where v: "validate_passenger_create ex_email_ok ex_body = Inr p"
    using ex_body_valid [of ex_email_ok] by (auto simp: ex_email_ok_def)
  note d = ex_create_dispatch [OF v]
  have ok: "email_check_stable ex_email_ok" by (simp add: email_check_stable_def ex_email_ok_def email_normalize_no_lt)
  have m: "has_response_model (PostCreate ex_body)" by (simp add: has_response_model_def)
  from responses_pass_model [OF ok reachable.start ex_oid_valid d m] v show ?thesis by simp
qed

text \<open>
  C19: Identifiers in answers. Every successful create, read or update, in
  any reachable state, answers with an \<open>"id"\<close> of exactly 24 characters, all
  lower-case hexadecimal digits: the printed form of a twelve-byte ObjectId.
\<close>

theorem answer_ids_are_hex:
  assumes r: "reachable email_ok c" and vo: "valid_oid fresh"
    and d: "dispatch email_ok fresh rq c = (Ok body, c')" and m: "has_response_model rq"
  shows "\<exists>s. hd body = (''id'', PStr s) \<and> length s = 24 \<and> set s \<subseteq> set ''0123456789abcdef''"
proof -
  obtain oi d' where wd: "wf_doc (POid oi) d'" and b: "body = (''id'', PStr (objectid_str oi)) # record_view d'"
    using dispatch_ok_view [OF reachable_wf [OF r] vo d m] by blast
  from wd have "valid_oid oi" by (simp add: wf_doc_def)
  then have "length (objectid_str oi) = 24" by (simp add: length_objectid_str valid_oid_def)
  moreover have "set (objectid_str oi) \<subseteq> set ''0123456789abcdef''"
    using set_hexlify [of "oid_binary oi"] by (simp add: objectid_str_def hexdigits_def)
  ultimately show ?thesis using b by simp
qed

theorem answer_ids_are_hex_witness:
  "\<exists>s. hd ((''id'', PStr (objectid_str ex_oid)) # jsonable_encode (projr (validate_passenger_create (\<lambda>_. True) ex_body))) =
     (''id'', PStr s) \<and> length s = 24 \<and> set s \<subseteq> set ''0123456789abcdef''"
proof -
  obtain p where v: "validate_passenger_create (\<lambda>_. True) ex_body = Inr p" using ex_body_valid [of "\<lambda>_. True"] by blast
  note d = ex_create_dispatch [OF v]
  have m: "has_response_model (PostCreate ex_body)" by (simp add: has_response_model_def)
  from answer_ids_are_hex [OF reachable.start ex_oid_valid d m] v show ?thesis by simp
qed

end
