(* ===== verification/Database.thy ===== *)
theory Database
  imports DocStore
begin

text \<open>
  The configuration in database.py: \<open>load_dotenv()\<close> adds the variables of
  the \<open>.env\<close> file to the environment without overriding one already set,
  \<open>os.getenv("MONGO_URL")\<close> reads the connection string (None when unset),
  \<open>AsyncIOMotorClient\<close> targets it (pymongo's \<open>localhost:27017\<close> when it is
  None), and the handlers use the collection \<open>passenger_collection\<close> of the
  database \<open>passenger_db\<close> there. A cluster maps a server address, a database
  name and a collection name to a collection. The lemmas resolve the
  configuration: the environment wins over the file, and the collection is
  named by the client address and the two fixed names.
\<close>

type_synonym environ = "string \<rightharpoonup> string"

text \<open>python-dotenv: the file's assignments as a dict (a later line wins).\<close>

definition dotenv_values :: "(string \<times> string) list \<Rightarrow> environ" where
  "dotenv_values entries = map_of (rev entries)"

text \<open>\<open>load_dotenv(override=False)\<close>: a variable already in \<open>os.environ\<close> keeps its value.\<close>

definition load_dotenv :: "(string \<times> string) list \<Rightarrow> environ \<Rightarrow> environ" where
  "load_dotenv entries env = dotenv_values entries ++ env"

text \<open>\<open>AsyncIOMotorClient(host)\<close>: pymongo's \<open>HOST\<close> and \<open>PORT\<close> when host is None.\<close>

definition motor_client :: "string option \<Rightarrow> string" where
  "motor_client host = (case host of None \<Rightarrow> ''localhost:27017'' | Some h \<Rightarrow> h)"

record store_config =
  mongo_details :: "string option"
  client_address :: string
  database_name :: string
  collection_name :: string

text \<open>The module body, lines 6-19, on the \<open>.env\<close> file and the process environment.\<close>

definition database_module :: "(string \<times> string) list \<Rightarrow> environ \<Rightarrow> environ \<times> store_config" where
  "database_module dotenv_file environ0 =
     (let environ = load_dotenv dotenv_file environ0;
          MONGO_DETAILS = environ ''MONGO_URL'';
          client = motor_client MONGO_DETAILS
      in (environ, \<lparr>mongo_details = MONGO_DETAILS, client_address = client,
                    database_name = ''passenger_db'', collection_name = ''passenger_collection''\<rparr>))"

type_synonym cluster = "string \<times> string \<times> string \<Rightarrow> collection"

definition store_key :: "store_config \<Rightarrow> string \<times> string \<times> string" where
  "store_key cfg = (client_address cfg, database_name cfg, collection_name cfg)"

text \<open>\<open>client.passenger_db.get_collection("passenger_collection")\<close> on a cluster.\<close>

definition passenger_collection :: "store_config \<Rightarrow> cluster \<Rightarrow> collection" where
  "passenger_collection cfg srv = srv (store_key cfg)"

subsection \<open>Configuration\<close>

lemma load_dotenv_lookup:
  "load_dotenv entries env k = (case env k of Some v \<Rightarrow> Some v | None \<Rightarrow> dotenv_values entries k)"
  by (simp add: load_dotenv_def map_add_def split: option.splits)

lemma database_module_key:
  "store_key (snd (database_module f env)) =
     (motor_client (load_dotenv f env ''MONGO_URL''), ''passenger_db'', ''passenger_collection'')"
  by (simp add: database_module_def store_key_def Let_def)

end
