(* ===== verification/Commute.thy ===== *)
theory Commute
  imports Api
begin

text \<open>
  Ordering of requests. Each handler of main.py reads and writes one document
  only, the one its path identifier names (create: the identifier the driver
  generates), and otherwise only observes whether the server is reachable.
  \<open>touches\<close> names that document; \<open>agree\<close> says two collections look alike
  to a request. The lemmas prove the frame (no other document changes) and
  the congruence (collections that agree give the same answer and agree
  afterwards) for every route, and that two step functions local to different
  keys commute; so requests on different records may be served in either
  order with the same answers and the same final collection.
\<close>

fun touches :: "oid \<Rightarrow> request \<Rightarrow> pyval option" where
  "touches fresh GetRoot = None"
| "touches fresh (PostCreate b) = Some (POid fresh)"
| "touches fresh (GetPassenger pid) = map_option POid (objectid_of_str pid)"
| "touches fresh (PutUpdate pid b) = map_option POid (objectid_of_str pid)"
| "touches fresh (DeletePassenger pid) = map_option POid (objectid_of_str pid)"

definition independent :: "oid \<Rightarrow> request \<Rightarrow> oid \<Rightarrow> request \<Rightarrow> bool" where
  "independent f1 rq1 f2 rq2 =
     (case (touches f1 rq1, touches f2 rq2) of (Some k1, Some k2) \<Rightarrow> k1 \<noteq> k2 | _ \<Rightarrow> True)"

definition agree :: "pyval option \<Rightarrow> collection \<Rightarrow> collection \<Rightarrow> bool" where
  "agree ko c1 c2 = (online c1 = online c2 \<and> (case ko of None \<Rightarrow> True | Some k \<Rightarrow> docs c1 k = docs c2 k))"

lemma get_agree:
  assumes on: "online c1 = online c2"
    and k: "\<And>oi. objectid_of_str pid = Some oi \<Longrightarrow> docs c1 (POid oi) = docs c2 (POid oi)"
  shows "fst (get_passenger pid c1) = fst (get_passenger pid c2)"
proof (cases "objectid_of_str pid")
  case None
  then show ?thesis by (simp add: get_passenger_def get_passenger_try_def)
next
  case (Some oi)
  then show ?thesis using on k [OF Some]
    by (simp add: get_passenger_def get_passenger_try_def find_one_def doc_truthy_def split: option.splits)
qed

lemma delete_agree:
  assumes on: "online c1 = online c2" and oi: "objectid_of_str pid = Some oi"
    and k: "docs c1 (POid oi) = docs c2 (POid oi)"
  shows "fst (delete_passenger pid c1) = fst (delete_passenger pid c2) \<and>
    docs (snd (delete_passenger pid c1)) (POid oi) = docs (snd (delete_passenger pid c2)) (POid oi)"
  using on oi k by (simp add: delete_passenger_def delete_passenger_try_def delete_one_def split: option.splits)

lemma update_agree:
  assumes on: "online c1 = online c2" and oi: "objectid_of_str pid = Some oi"
    and k: "docs c1 (POid oi) = docs c2 (POid oi)"
  shows "fst (update_passenger pid p c1) = fst (update_passenger pid p c2) \<and>
    docs (snd (update_passenger pid p c1)) (POid oi) = docs (snd (update_passenger pid p c2)) (POid oi)"
  using on oi k
  by (simp add: update_passenger_def update_passenger_try_def update_one_def find_one_def doc_truthy_def Let_def
      split: option.splits sum.splits)

lemma create_agree:
  assumes on: "online c1 = online c2" and k: "docs c1 (POid fresh) = docs c2 (POid fresh)"
  shows "fst (create_passenger fresh p c1) = fst (create_passenger fresh p c2) \<and>
    docs (snd (create_passenger fresh p c1)) (POid fresh) = docs (snd (create_passenger fresh p c2)) (POid fresh)"
  using on k
  by (simp add: create_passenger_def create_passenger_try_def insert_one_def find_one_def Let_def
      jsonable_encode_no_id domIff)

lemma dispatch_local:
  "snd (dispatch e fresh rq c) = c \<or>
   (\<exists>k v. touches fresh rq = Some k \<and> snd (dispatch e fresh rq c) = c\<lparr>docs := (docs c)(k := v)\<rparr>)"
proof (cases rq)
  case (PostCreate b)
  show ?thesis
  proof (cases "validate_passenger_create e b")
    case (Inr p)
    obtain r c' where cr: "create_passenger fresh p c = (r, c')" by fastforce
    have "c' = c \<or> c' = c\<lparr>docs := (docs c)(POid fresh := Some (created_doc fresh p))\<rparr>"
      using create_effect [OF cr] by blast
    then show ?thesis using PostCreate Inr cr by auto
  qed (simp add: PostCreate)
next
  case (GetPassenger pid)
  then show ?thesis using get_effect [of pid c] by (simp split: prod.splits)
next
  case (PutUpdate pid b)
  show ?thesis
  proof (cases "validate_passenger_create e b")
    case (Inr p)
    obtain r c' where u: "update_passenger pid p c = (r, c')" by fastforce
    have "c' = c \<or> (\<exists>oi v. objectid_of_str pid = Some oi \<and> c' = c\<lparr>docs := (docs c)(POid oi := v)\<rparr>)"
      using update_effect [OF u] by blast
    then show ?thesis using PutUpdate Inr u by auto
  qed (simp add: PutUpdate)
next
  case (DeletePassenger pid)
  obtain r c' where d: "delete_passenger pid c = (r, c')" by fastforce
  have "c' = c \<or> (\<exists>oi. objectid_of_str pid = Some oi \<and> c' = c\<lparr>docs := (docs c)(POid oi := None)\<rparr>)"
    using delete_effect [OF d] by blast
  then show ?thesis using DeletePassenger d by auto
qed simp

lemma dispatch_online [simp]: "online (snd (dispatch e fresh rq c)) = online c"
  using dispatch_local [of e fresh rq c] by auto

lemma dispatch_agree:
  assumes a: "agree (touches fresh rq) c1 c2"
  shows "fst (dispatch e fresh rq c1) = fst (dispatch e fresh rq c2) \<and>
    agree (touches fresh rq) (snd (dispatch e fresh rq c1)) (snd (dispatch e fresh rq c2))"
proof (cases rq)
  case GetRoot
  then show ?thesis using a by (simp add: agree_def)
next
  case (PostCreate b)
  have on: "online c1 = online c2" and k: "docs c1 (POid fresh) = docs c2 (POid fresh)"
    using a PostCreate by (simp_all add: agree_def)
  show ?thesis
  proof (cases "validate_passenger_create e b")
    case (Inl errs)
    then show ?thesis using a PostCreate by simp
  next
    case (Inr p)
    then show ?thesis
      using PostCreate create_agree [OF on k, of p] on
        dispatch_online [of e fresh "PostCreate b" c1] dispatch_online [of e fresh "PostCreate b" c2]
      by (simp add: agree_def)
  qed
next
  case (GetPassenger pid)
  have on: "online c1 = online c2" using a by (simp add: agree_def)
  have k: "docs c1 (POid oi) = docs c2 (POid oi)" if "objectid_of_str pid = Some oi" for oi
    using a GetPassenger that by (simp add: agree_def)
  show ?thesis using GetPassenger get_agree [OF on k] a by (simp add: get_effect)
next
  case (PutUpdate pid b)
  have on: "online c1 = online c2" using a by (simp add: agree_def)
  show ?thesis
  proof (cases "validate_passenger_create e b")
    case (Inl errs)
    then show ?thesis using a PutUpdate by simp
  next
    case (Inr p)
    show ?thesis
    proof (cases "objectid_of_str pid")
      case None
      then show ?thesis using PutUpdate Inr on
        by (simp add: agree_def update_passenger_def update_passenger_try_def)
    next
      case (Some oi)
      have k: "docs c1 (POid oi) = docs c2 (POid oi)" using a PutUpdate Some by (simp add: agree_def)
      show ?thesis
        using PutUpdate Inr Some update_agree [OF on Some k, of p] on
          dispatch_online [of e fresh rq c1] dispatch_online [of e fresh rq c2]
        by (simp add: agree_def)
    qed
  qed
next
  case (DeletePassenger pid)
  have on: "online c1 = online c2" using a by (simp add: agree_def)
  show ?thesis
  proof (cases "objectid_of_str pid")
    case None
    then show ?thesis using DeletePassenger on
      by (simp add: agree_def delete_passenger_def delete_passenger_try_def)
  next
    case (Some oi)
    have k: "docs c1 (POid oi) = docs c2 (POid oi)" using a DeletePassenger Some by (simp add: agree_def)
    show ?thesis
      using DeletePassenger Some delete_agree [OF on Some k] on
        dispatch_online [of e fresh rq c1] dispatch_online [of e fresh rq c2]
      by (simp add: agree_def)
  qed
qed

lemma dispatch_frame:
  "touches fresh rq \<noteq> Some k \<Longrightarrow> docs (snd (dispatch e fresh rq c)) k = docs c k"
  using dispatch_local [of e fresh rq c] by auto

lemma local_steps_commute:
  fixes g1 g2 :: "collection \<Rightarrow> 'a \<times> collection"
  assumes on1: "\<And>c. online (snd (g1 c)) = online c" and on2: "\<And>c. online (snd (g2 c)) = online c"
    and fr1: "\<And>c k. ka \<noteq> Some k \<Longrightarrow> docs (snd (g1 c)) k = docs c k"
    and fr2: "\<And>c k. kb \<noteq> Some k \<Longrightarrow> docs (snd (g2 c)) k = docs c k"
    and ag1: "\<And>c c'. agree ka c c' \<Longrightarrow> fst (g1 c) = fst (g1 c') \<and> agree ka (snd (g1 c)) (snd (g1 c'))"
    and ag2: "\<And>c c'. agree kb c c' \<Longrightarrow> fst (g2 c) = fst (g2 c') \<and> agree kb (snd (g2 c)) (snd (g2 c'))"
    and ind: "\<And>k. ka = Some k \<Longrightarrow> kb \<noteq> Some k"
  shows "fst (g1 (snd (g2 c))) = fst (g1 c) \<and> fst (g2 (snd (g1 c))) = fst (g2 c) \<and>
    snd (g1 (snd (g2 c))) = snd (g2 (snd (g1 c)))"
proof -
  have a1: "agree ka (snd (g2 c)) c" using on2 fr2 ind by (auto simp: agree_def split: option.splits)
  have a2: "agree kb (snd (g1 c)) c" using on1 fr1 ind by (auto simp: agree_def split: option.splits)
  from ag1 [OF a1] have r1: "fst (g1 (snd (g2 c))) = fst (g1 c)"
    and s1: "agree ka (snd (g1 (snd (g2 c)))) (snd (g1 c))" by simp_all
  from ag2 [OF a2] have r2: "fst (g2 (snd (g1 c))) = fst (g2 c)"
    and s2: "agree kb (snd (g2 (snd (g1 c)))) (snd (g2 c))" by simp_all
  have d: "docs (snd (g1 (snd (g2 c)))) k = docs (snd (g2 (snd (g1 c)))) k" for k
  proof (cases "ka = Some k")
    case True
    then show ?thesis using s1 fr2 [of k] ind by (simp add: agree_def)
  next
    case ka: False
    show ?thesis
    proof (cases "kb = Some k")
      case True
      then show ?thesis using s2 fr1 [of k] ka by (simp add: agree_def)
    next
      case False
      then show ?thesis using fr1 [OF ka] fr2 [OF False] by simp
    qed
  qed
  have "snd (g1 (snd (g2 c))) = snd (g2 (snd (g1 c)))"
    by (rule collection.equality) (simp_all add: d on1 on2 fun_eq_iff)
  with r1 r2 show ?thesis by simp
qed

text \<open>
  C20: Requests on different records commute. Two requests that touch
  different records (or a request that touches none) give the same answers and
  leave the same collection whichever is served first: each handler reads and
  writes only the document its identifier names.
\<close>

theorem requests_commute:
  "independent f1 rq1 f2 rq2 \<Longrightarrow>
   fst (dispatch e f1 rq1 (snd (dispatch e f2 rq2 c))) = fst (dispatch e f1 rq1 c) \<and>
   fst (dispatch e f2 rq2 (snd (dispatch e f1 rq1 c))) = fst (dispatch e f2 rq2 c) \<and>
   snd (dispatch e f1 rq1 (snd (dispatch e f2 rq2 c))) = snd (dispatch e f2 rq2 (snd (dispatch e f1 rq1 c)))"
  by (rule local_steps_commute [where ka = "touches f1 rq1" and kb = "touches f2 rq2"])
     (auto simp: dispatch_frame dispatch_agree independent_def split: option.splits)

theorem requests_commute_witness:
  "fst (dispatch (\<lambda>_. True) ex_oid (DeletePassenger (objectid_str ex_oid))
      (snd (dispatch (\<lambda>_. True) (ObjectId (replicate 12 0)) (PostCreate ex_body) (snd (create_passenger ex_oid ex_passenger empty_coll))))) =
     fst (dispatch (\<lambda>_. True) ex_oid (DeletePassenger (objectid_str ex_oid)) (snd (create_passenger ex_oid ex_passenger empty_coll))) \<and>
   fst (dispatch (\<lambda>_. True) (ObjectId (replicate 12 0)) (PostCreate ex_body)
      (snd (dispatch (\<lambda>_. True) ex_oid (DeletePassenger (objectid_str ex_oid)) (snd (create_passenger ex_oid ex_passenger empty_coll))))) =
     fst (dispatch (\<lambda>_. True) (ObjectId (replicate 12 0)) (PostCreate ex_body) (snd (create_passenger ex_oid ex_passenger empty_coll))) \<and>
   snd (dispatch (\<lambda>_. True) ex_oid (DeletePassenger (objectid_str ex_oid))
      (snd (dispatch (\<lambda>_. True) (ObjectId (replicate 12 0)) (PostCreate ex_body) (snd (create_passenger ex_oid ex_passenger empty_coll))))) =
     snd (dispatch (\<lambda>_. True) (ObjectId (replicate 12 0)) (PostCreate ex_body)
      (snd (dispatch (\<lambda>_. True) ex_oid (DeletePassenger (objectid_str ex_oid)) (snd (create_passenger ex_oid ex_passenger empty_coll)))))"
proof -
  have "independent ex_oid (DeletePassenger (objectid_str ex_oid)) (ObjectId (replicate 12 0)) (PostCreate ex_body)"
    using objectid_roundtrip [OF ex_oid_valid] by (simp add: independent_def ex_oid_def eval_nat_numeral)
  then show ?thesis by (rule requests_commute)
qed

end
