(* ===== verification/Coercion.thy ===== *)
theory Coercion
  imports Api
begin





end
