(* ===== verification/Concurrency.thy ===== *)
theory Concurrency
  imports Contract
begin

text \<open>
  Concurrent requests. The handlers of main.py are \<open>async\<close>: the event loop
  runs one of them until it reaches an \<open>await\<close> on the collection, and may
  then run other requests before resuming it. A handler in flight is a
  \<open>task\<close> whose constructor says which collection call it makes next, holding
  the locals it needs; \<open>task_step\<close> makes that call (an atomic server
  operation) together with the code up to the next \<open>await\<close>. Create has two
  such steps, update three, read and delete one. A schedule is the list of
  tasks that move, one step each; a list of events (\<open>run_events\<close>) adds
  the server going down and coming back between two steps, so that a call
  fails after an earlier call of the same handler has written.
\<close>

subsection \<open>Tasks and their steps\<close>

datatype task =
    CreateInsert oid passenger_create
  | CreateFind pyval
  | GetFind string
  | UpdateFind string passenger_create
  | UpdateWrite oid passenger_create "doc option"
  | UpdateReread oid update_result
  | DeleteOne string
  | Done "exc + pydict"

text \<open>
  Each equation is the code between two \<open>await\<close>s: create lines 47-48 and
  49-55, read lines 76-84, update lines 93-94, 95-111 and 113-120, delete
  lines 130-136.
\<close>

fun task_step :: "task \<Rightarrow> collection \<Rightarrow> task \<times> collection" where
  "task_step (CreateInsert fresh passenger) c =
     (case insert_one fresh (jsonable_encode passenger) c of
        Inl e \<Rightarrow> (Done (Inl e), c)
      | Inr (new_id, c1) \<Rightarrow> (CreateFind new_id, c1))"
| "task_step (CreateFind new_id) c =
     (case find_one new_id c of
        Inl e \<Rightarrow> (Done (Inl e), c)
      | Inr None \<Rightarrow> (Done (Inl (HTTPException 404 ''Passenger not found after creation'')), c)
      | Inr (Some created) \<Rightarrow> (Done (passenger_helper created), c))"
| "task_step (GetFind pid) c = (Done (fst (get_passenger_try pid c)), snd (get_passenger_try pid c))"
| "task_step (UpdateFind pid passenger) c =
     (case objectid_of_str pid of
        None \<Rightarrow> (Done (Inl (InvalidId pid)), c)
      | Some oi \<Rightarrow>
          (case find_one (POid oi) c of
             Inl e \<Rightarrow> (Done (Inl e), c)
           | Inr found \<Rightarrow> (UpdateWrite oi passenger found, c)))"
| "task_step (UpdateWrite oi passenger found) c =
     (case found of
        None \<Rightarrow> (Done (Inl not_found), c)
      | Some existing_passenger \<Rightarrow>
          if \<not> doc_truthy found then (Done (Inl not_found), c)
          else
            (case passenger_helper existing_passenger of
               Inl e \<Rightarrow> (Done (Inl e), c)
             | Inr existing_passenger_data \<Rightarrow>
                 (let merged_data = convert_dates_to_string
                                      (dict_merge existing_passenger_data (dict_exclude_unset passenger))
                  in case update_one (POid oi) merged_data c of
                       Inl e \<Rightarrow> (Done (Inl e), c)
                     | Inr (update_result, c1) \<Rightarrow> (UpdateReread oi update_result, c1))))"
| "task_step (UpdateReread oi update_result) c =
     (if modified_count update_result = 1 then
        (case find_one (POid oi) c of
           Inl e \<Rightarrow> (Done (Inl e), c)
         | Inr found' \<Rightarrow>
             (case found' of
                Some updated_passenger \<Rightarrow>
                  if doc_truthy found' then (Done (passenger_helper updated_passenger), c)
                  else (Done (Inl not_found), c)
              | None \<Rightarrow> (Done (Inl not_found), c)))
      else (Done (Inl not_found), c))"
| "task_step (DeleteOne pid) c = (Done (fst (delete_passenger_try pid c)), snd (delete_passenger_try pid c))"
| "task_step (Done r) c = (Done r, c)"

text \<open>A task run alone for \<open>n\<close> steps.\<close>

primrec steps :: "nat \<Rightarrow> task \<Rightarrow> collection \<Rightarrow> task \<times> collection" where
  "steps 0 t c = (t, c)"
| "steps (Suc n) t c = (case task_step t c of (t', c') \<Rightarrow> steps n t' c')"

text \<open>The answer of a finished task: the \<open>except Exception\<close> clause applied to its result.\<close>

fun answer :: "task \<Rightarrow> (exc + pydict) option" where
  "answer (Done r) = Some (reraise_500 r)"
| "answer _ = None"

subsection \<open>Interleaved runs\<close>

text \<open>
  The tasks in flight and the collection; a schedule names, step by step, the
  task the event loop resumes. An index past the list, or a finished task,
  makes no step.
\<close>

type_synonym sys = "task list \<times> collection"

definition sched_step :: "nat \<Rightarrow> sys \<Rightarrow> sys" where
  "sched_step i s =
     (if i < length (fst s)
      then (case task_step (fst s ! i) (snd s) of (t', c') \<Rightarrow> ((fst s)[i := t'], c'))
      else s)"

definition run :: "nat list \<Rightarrow> sys \<Rightarrow> sys" where
  "run sched s = fold sched_step sched s"

text \<open>A handler run as a task with no other task interleaved.\<close>

definition solo :: "nat \<Rightarrow> task \<Rightarrow> collection \<Rightarrow> (exc + pydict) option \<times> collection" where
  "solo n t c = apfst answer (steps n t c)"

text \<open>A second update of the sample record, changing the surname only.\<close>

text \<open>
  The environment between two steps: the connection to the server is lost
  (every later collection call raises \<open>ServerSelectionTimeoutError\<close>) or
  comes back. A run is a list of events: a task resumed, an outage, a recovery.
\<close>

datatype event = Resume nat | Outage | Recover

definition ev_step :: "event \<Rightarrow> sys \<Rightarrow> sys" where
  "ev_step e s =
     (case e of
        Resume i \<Rightarrow> sched_step i s
      | Outage \<Rightarrow> (fst s, (snd s)\<lparr>online := False\<rparr>)
      | Recover \<Rightarrow> (fst s, (snd s)\<lparr>online := True\<rparr>))"

definition run_events :: "event list \<Rightarrow> sys \<Rightarrow> sys" where
  "run_events evs s = fold ev_step evs s"

definition ex_update2 :: passenger_create where
  "ex_update2 = ex_passenger\<lparr>surname := ''Smith''\<rparr>"

subsection \<open>Steps of an update task\<close>

lemma set_fields_absorb:
  assumes d1: "distinct (map fst m1)" and d2: "distinct (map fst m2)"
    and sub: "set (map fst m1) \<subseteq> set (map fst m2)"
  shows "set_fields (set_fields d m1) m2 = set_fields d m2"
proof
  fix f
  show "set_fields (set_fields d m1) m2 f = set_fields d m2 f"
  proof (cases "map_of m2 f")
    case None
    then have "f \<notin> set (map fst m1)" using sub by (auto simp: map_of_eq_None_iff)
    then have "map_of m1 f = None" by (simp add: map_of_eq_None_iff)
    with None d1 d2 show ?thesis by (simp add: set_fields_lookup)
  qed (simp add: d2 set_fields_lookup)
qed

text \<open>\<open>update_one\<close> with a payload that has distinct keys and no \<open>_id\<close> writes \<open>set_fields\<close>.\<close>

lemma update_one_writes:
  assumes on: "online c" and d: "docs c k = Some d"
    and noid: "''_id'' \<notin> set (map fst m)" and dist: "distinct (map fst m)"
  shows "\<exists>res. update_one k m c = Inr (res, c\<lparr>docs := (docs c)(k \<mapsto> set_fields d m)\<rparr>)"
proof (cases "set_changes d m")
  case True
  with on d no_id_in_payload [OF noid] show ?thesis by (simp add: update_one_found)
next
  case False
  with dist have "set_fields d m = d" by (simp add: set_changes_iff)
  with False on d no_id_in_payload [OF noid, of d] show ?thesis
    by (simp add: update_one_found fun_upd_idem)
qed

lemma update_find_step:
  "objectid_of_str pid = Some oi \<Longrightarrow> online c \<Longrightarrow>
   task_step (UpdateFind pid p) c = (UpdateWrite oi p (docs c (POid oi)), c)"
  by (simp add: find_one_online)

text \<open>
  The write step merges into what the task read, \<open>d\<close>, and writes the merge
  over what the collection holds now, \<open>d'\<close>.
\<close>

lemma update_write_step:
  assumes on: "online c" and d': "docs c (POid oi) = Some d'" and h: "passenger_helper d = Inr old"
  shows "\<exists>res. task_step (UpdateWrite oi p (Some d)) c =
     (UpdateReread oi res,
      c\<lparr>docs := (docs c)(POid oi \<mapsto> set_fields d' (convert_dates_to_string (dict_merge old (dict_exclude_unset p))))\<rparr>)"
proof -
  let ?m = "convert_dates_to_string (dict_merge old (dict_exclude_unset p))"
  have keys: "map fst ?m = ''id'' # passenger_fields" by (rule merged_keys [OF h])
  obtain res where "update_one (POid oi) ?m c = Inr (res, c\<lparr>docs := (docs c)(POid oi \<mapsto> set_fields d' ?m)\<rparr>)"
    using update_one_writes [OF on d', of ?m] keys distinct_passenger_fields by auto
  moreover have "doc_truthy (Some d)" using helper_truthy [OF h] by simp
  ultimately show ?thesis using h by (simp add: Let_def)
qed

lemma update_write_missing:
  "online c \<Longrightarrow> docs c (POid oi) = None \<Longrightarrow> passenger_helper d = Inr old \<Longrightarrow>
   task_step (UpdateWrite oi p (Some d)) c = (UpdateReread oi \<lparr>matched_count = 0, modified_count = 0\<rparr>, c)"
  by (auto simp: Let_def update_one_missing dest: helper_truthy)

lemma reread_step:
  "\<exists>r. task_step (UpdateReread oi res) c = (Done r, c)"
  by (simp split: sum.splits option.splits)

lemma insert_step:
  "online c \<Longrightarrow> POid fresh \<notin> dom (docs c) \<Longrightarrow>
   task_step (CreateInsert fresh p) c = (CreateFind (POid fresh), c\<lparr>docs := (docs c)(POid fresh \<mapsto> created_doc fresh p)\<rparr>)"
  by (simp add: insert_one_online jsonable_encode_no_id flip: created_doc_def)

lemma reread_offline:
  "\<not> online c \<Longrightarrow> \<exists>e. task_step (UpdateReread oi res) c = (Done (Inl e), c)"
  by (simp add: find_one_def)

lemma create_find_offline:
  "\<not> online c \<Longrightarrow> task_step (CreateFind k) c = (Done (Inl server_down), c)"
  by (simp add: find_one_def)

lemma sched_step_nth:
  "i < length ts \<Longrightarrow> task_step (ts ! i) c = (t', c') \<Longrightarrow> sched_step i (ts, c) = (ts[i := t'], c')"
  by (simp add: sched_step_def)

subsection \<open>Claims\<close>

text \<open>
  The task model is the handlers. A handler run as a task with no other
  request interleaved (create two steps, read one, update three, delete one)
  answers and leaves the collection exactly as the sequential handler does, so
  the split at each \<open>await\<close> loses and adds nothing.
\<close>

theorem tasks_alone_are_handlers:
  "solo 2 (CreateInsert fresh p) c = apfst Some (create_passenger fresh p c) \<and>
   solo 1 (GetFind pid) c = apfst Some (get_passenger pid c) \<and>
   solo 3 (UpdateFind pid p) c = apfst Some (update_passenger pid p c) \<and>
   solo 1 (DeleteOne pid) c = apfst Some (delete_passenger pid c)"
proof (intro conjI)
  show "solo 2 (CreateInsert fresh p) c = apfst Some (create_passenger fresh p c)"
    by (simp add: solo_def create_passenger_def create_passenger_try_def Let_def eval_nat_numeral
        split: sum.splits option.splits prod.splits)
  show "solo 1 (GetFind pid) c = apfst Some (get_passenger pid c)"
    by (cases "get_passenger_try pid c") (simp add: solo_def get_passenger_def)
  show "solo 3 (UpdateFind pid p) c = apfst Some (update_passenger pid p c)"
    by (simp add: solo_def update_passenger_def update_passenger_try_def Let_def eval_nat_numeral
        split: sum.splits option.splits prod.splits)
  show "solo 1 (DeleteOne pid) c = apfst Some (delete_passenger pid c)"
    by (cases "delete_passenger_try pid c") (simp add: solo_def delete_passenger_def)
qed

text \<open>
  C15: Lost update. Two updates of the same record whose reads both happen
  before either write (schedule: read, read, write, write, re-read, re-read)
  both finish, and the record ends as the second update alone would have left
  it: each write carries the whole merged record computed from what its task
  read, so the second write puts back the stored values of every field the
  first update changed and the second did not set.
\<close>

theorem concurrent_updates_lose_first:
  assumes pid: "objectid_of_str pid = Some oi" and on: "online c"
    and d: "docs c (POid oi) = Some d" and h: "passenger_helper d = Inr old"
  shows "docs (snd (run [0, 1, 0, 1, 0, 1] ([UpdateFind pid p1, UpdateFind pid p2], c))) (POid oi) =
           Some (set_fields d (convert_dates_to_string (dict_merge old (dict_exclude_unset p2)))) \<and>
         list_all (\<lambda>t. answer t \<noteq> None) (fst (run [0, 1, 0, 1, 0, 1] ([UpdateFind pid p1, UpdateFind pid p2], c)))"
proof -
  let ?m1 = "convert_dates_to_string (dict_merge old (dict_exclude_unset p1))"
  let ?m2 = "convert_dates_to_string (dict_merge old (dict_exclude_unset p2))"
  let ?c1 = "c\<lparr>docs := (docs c)(POid oi \<mapsto> set_fields d ?m1)\<rparr>"
  let ?c2 = "?c1\<lparr>docs := (docs ?c1)(POid oi \<mapsto> set_fields (set_fields d ?m1) ?m2)\<rparr>"
  have s1: "sched_step 0 ([UpdateFind pid p1, UpdateFind pid p2], c) =
      ([UpdateWrite oi p1 (Some d), UpdateFind pid p2], c)"
    using update_find_step [OF pid on, of p1] d by (simp add: sched_step_def)
  have s2: "sched_step 1 ([UpdateWrite oi p1 (Some d), UpdateFind pid p2], c) =
      ([UpdateWrite oi p1 (Some d), UpdateWrite oi p2 (Some d)], c)"
    using update_find_step [OF pid on, of p2] d by (simp add: sched_step_def)
  obtain r1 where w1: "task_step (UpdateWrite oi p1 (Some d)) c = (UpdateReread oi r1, ?c1)"
    using update_write_step [OF on d h, of p1] by blast
  have s3: "sched_step 0 ([UpdateWrite oi p1 (Some d), UpdateWrite oi p2 (Some d)], c) =
      ([UpdateReread oi r1, UpdateWrite oi p2 (Some d)], ?c1)"
    using w1 by (simp add: sched_step_def)
  have on1: "online ?c1" and d1: "docs ?c1 (POid oi) = Some (set_fields d ?m1)" using on by simp_all
  obtain r2 where w2: "task_step (UpdateWrite oi p2 (Some d)) ?c1 = (UpdateReread oi r2, ?c2)"
    using update_write_step [OF on1 d1 h, of p2] by auto
  have s4: "sched_step 1 ([UpdateReread oi r1, UpdateWrite oi p2 (Some d)], ?c1) =
      ([UpdateReread oi r1, UpdateReread oi r2], ?c2)"
    using w2 by (simp add: sched_step_def)
  obtain a1 where a1: "task_step (UpdateReread oi r1) ?c2 = (Done a1, ?c2)" using reread_step by blast
  obtain a2 where a2: "task_step (UpdateReread oi r2) ?c2 = (Done a2, ?c2)" using reread_step by blast
  have fin: "run [0, 1, 0, 1, 0, 1] ([UpdateFind pid p1, UpdateFind pid p2], c) = ([Done a1, Done a2], ?c2)"
    using s1 s2 s3 s4 a1 a2 by (simp add: run_def sched_step_def)
  have "set_fields (set_fields d ?m1) ?m2 = set_fields d ?m2"
    using merged_keys [OF h, of p1] merged_keys [OF h, of p2] distinct_passenger_fields
    by (intro set_fields_absorb) simp_all
  with fin show ?thesis by simp
qed

theorem concurrent_updates_lose_first_witness:
  "docs (snd (run [0, 1, 0, 1, 0, 1]
      ([UpdateFind (objectid_str ex_oid) ex_update, UpdateFind (objectid_str ex_oid) ex_update2],
       snd (create_passenger ex_oid ex_passenger empty_coll)))) (POid ex_oid) =
     Some (set_fields (created_doc ex_oid ex_passenger)
       (convert_dates_to_string (dict_merge ((''id'', PStr (objectid_str ex_oid)) # jsonable_encode ex_passenger)
          (dict_exclude_unset ex_update2)))) \<and>
   list_all (\<lambda>t. answer t \<noteq> None) (fst (run [0, 1, 0, 1, 0, 1]
      ([UpdateFind (objectid_str ex_oid) ex_update, UpdateFind (objectid_str ex_oid) ex_update2],
       snd (create_passenger ex_oid ex_passenger empty_coll)))) \<and>
   doc_get (set_fields (created_doc ex_oid ex_passenger)
       (convert_dates_to_string (dict_merge ((''id'', PStr (objectid_str ex_oid)) # jsonable_encode ex_passenger)
          (dict_exclude_unset ex_update2)))) ''meal_preference'' = PNone"
proof -
  have w: "wf_doc (POid ex_oid) (created_doc ex_oid ex_passenger)"
    using ex_oid_valid by (intro wf_created_doc) (simp_all add: valid_dates_def ex_passenger_def)
  have f: "''meal_preference'' \<in> set passenger_fields" by (simp add: passenger_fields_def)
  have "doc_get (set_fields (created_doc ex_oid ex_passenger)
       (convert_dates_to_string (dict_merge ((''id'', PStr (objectid_str ex_oid)) # jsonable_encode ex_passenger)
          (dict_exclude_unset ex_update2)))) ''meal_preference'' = PNone"
    using updated_field_value [OF w passenger_helper_created f, of ex_update2] created_doc_field [OF f]
    by (simp add: ex_update2_def ex_passenger_def required_fields_def passenger_dict_def opt_pystr_def
        json_encode_value_def)
  with concurrent_updates_lose_first [OF objectid_roundtrip [OF ex_oid_valid] ex_created passenger_helper_created,
      of ex_update ex_update2]
  show ?thesis by simp
qed

text \<open>
  C16: Delete during an update. When a delete removes the record between an
  update's read and its write, the update's \<open>$set\<close> matches nothing (no
  upsert), so the record stays deleted: the delete answers its confirmation and
  the update answers 500 with detail \<open>"404: Passenger not found"\<close>.
\<close>

theorem delete_during_update:
  assumes pid: "objectid_of_str pid = Some oi" and on: "online c"
    and d: "docs c (POid oi) = Some d" and h: "passenger_helper d = Inr old"
  shows "map answer (fst (run [0, 1, 0, 0] ([UpdateFind pid p, DeleteOne pid], c))) =
           [Some (Inl (HTTPException 500 ''404: Passenger not found'')),
            Some (Inr [(''message'', PStr ''Passenger deleted successfully'')])] \<and>
         snd (run [0, 1, 0, 0] ([UpdateFind pid p, DeleteOne pid], c)) = c\<lparr>docs := (docs c)(POid oi := None)\<rparr>"
proof -
  let ?c1 = "c\<lparr>docs := (docs c)(POid oi := None)\<rparr>"
  have del: "task_step (DeleteOne pid) c = (Done (Inr [(''message'', PStr ''Passenger deleted successfully'')]), ?c1)"
    using pid on d by (simp add: delete_passenger_try_def delete_one_online)
  have on1: "online ?c1" and d1: "docs ?c1 (POid oi) = None" using on by simp_all
  have "run [0, 1, 0, 0] ([UpdateFind pid p, DeleteOne pid], c) =
      ([Done (Inl not_found), Done (Inr [(''message'', PStr ''Passenger deleted successfully'')])], ?c1)"
    using update_find_step [OF pid on, of p] d del update_write_missing [OF on1 d1 h, of p]
    by (simp add: run_def sched_step_def)
  then show ?thesis by (simp add: exc_str_not_found)
qed

theorem delete_during_update_witness:
  "map answer (fst (run [0, 1, 0, 0] ([UpdateFind (objectid_str ex_oid) ex_update, DeleteOne (objectid_str ex_oid)],
      snd (create_passenger ex_oid ex_passenger empty_coll)))) =
     [Some (Inl (HTTPException 500 ''404: Passenger not found'')),
      Some (Inr [(''message'', PStr ''Passenger deleted successfully'')])] \<and>
   snd (run [0, 1, 0, 0] ([UpdateFind (objectid_str ex_oid) ex_update, DeleteOne (objectid_str ex_oid)],
      snd (create_passenger ex_oid ex_passenger empty_coll))) =
     (snd (create_passenger ex_oid ex_passenger empty_coll))\<lparr>docs :=
        (docs (snd (create_passenger ex_oid ex_passenger empty_coll)))(POid ex_oid := None)\<rparr>"
  by (rule delete_during_update [OF objectid_roundtrip [OF ex_oid_valid] ex_created passenger_helper_created])

text \<open>
  C10: Writes survive a failed re-read. Create and update are not atomic:
  when the connection is lost after \<open>insert_one\<close> (create) or after
  \<open>update_one\<close> (update) and before the re-read, the handler answers 500 and
  the record it wrote stays in the collection: the new record after a create,
  the merged record after an update.
\<close>

theorem writes_survive_failed_reread:
  assumes on: "online c" and fr: "POid fresh \<notin> dom (docs c)"
    and pid: "objectid_of_str pid = Some oi" and d: "docs c (POid oi) = Some d"
    and h: "passenger_helper d = Inr old"
  shows "map answer (fst (run_events [Resume 0, Outage, Resume 0] ([CreateInsert fresh p], c))) =
           [Some (Inl (HTTPException 500 (exc_str server_down)))] \<and>
         docs (snd (run_events [Resume 0, Outage, Resume 0] ([CreateInsert fresh p], c))) (POid fresh) =
           Some (created_doc fresh p) \<and>
         (\<exists>e. map answer (fst (run_events [Resume 0, Resume 0, Outage, Resume 0] ([UpdateFind pid q], c))) =
           [Some (Inl (HTTPException 500 (exc_str e)))]) \<and>
         docs (snd (run_events [Resume 0, Resume 0, Outage, Resume 0] ([UpdateFind pid q], c))) (POid oi) =
           Some (set_fields d (convert_dates_to_string (dict_merge old (dict_exclude_unset q))))"
proof -
  let ?c1 = "c\<lparr>docs := (docs c)(POid fresh \<mapsto> created_doc fresh p)\<rparr>"
  have off1: "\<not> online (?c1\<lparr>online := False\<rparr>)" by simp
  have cr: "run_events [Resume 0, Outage, Resume 0] ([CreateInsert fresh p], c) =
      ([Done (Inl server_down)], ?c1\<lparr>online := False\<rparr>)"
    using insert_step [OF on fr, of p] create_find_offline [OF off1, of "POid fresh"]
    by (simp add: run_events_def ev_step_def sched_step_def)
  let ?m = "convert_dates_to_string (dict_merge old (dict_exclude_unset q))"
  let ?c2 = "c\<lparr>docs := (docs c)(POid oi \<mapsto> set_fields d ?m)\<rparr>"
  obtain res where w: "task_step (UpdateWrite oi q (Some d)) c = (UpdateReread oi res, ?c2)"
    using update_write_step [OF on d h, of q] by blast
  have off2: "\<not> online (?c2\<lparr>online := False\<rparr>)" by simp
  obtain e where rr: "task_step (UpdateReread oi res) (?c2\<lparr>online := False\<rparr>) =
      (Done (Inl e), ?c2\<lparr>online := False\<rparr>)"
    using reread_offline [OF off2] by blast
  have up: "run_events [Resume 0, Resume 0, Outage, Resume 0] ([UpdateFind pid q], c) =
      ([Done (Inl e)], ?c2\<lparr>online := False\<rparr>)"
    using update_find_step [OF pid on, of q] d w rr by (simp add: run_events_def ev_step_def sched_step_def)
  show ?thesis using cr up by auto
qed

theorem writes_survive_failed_reread_witness:
  "map answer (fst (run_events [Resume 0, Outage, Resume 0]
      ([CreateInsert (ObjectId (replicate 12 0)) ex_passenger], snd (create_passenger ex_oid ex_passenger empty_coll)))) =
     [Some (Inl (HTTPException 500 (exc_str server_down)))] \<and>
   docs (snd (run_events [Resume 0, Outage, Resume 0]
      ([CreateInsert (ObjectId (replicate 12 0)) ex_passenger], snd (create_passenger ex_oid ex_passenger empty_coll))))
      (POid (ObjectId (replicate 12 0))) = Some (created_doc (ObjectId (replicate 12 0)) ex_passenger) \<and>
   (\<exists>e. map answer (fst (run_events [Resume 0, Resume 0, Outage, Resume 0]
      ([UpdateFind (objectid_str ex_oid) ex_update], snd (create_passenger ex_oid ex_passenger empty_coll)))) =
     [Some (Inl (HTTPException 500 (exc_str e)))]) \<and>
   docs (snd (run_events [Resume 0, Resume 0, Outage, Resume 0]
      ([UpdateFind (objectid_str ex_oid) ex_update], snd (create_passenger ex_oid ex_passenger empty_coll)))) (POid ex_oid) =
     Some (set_fields (created_doc ex_oid ex_passenger)
       (convert_dates_to_string (dict_merge ((''id'', PStr (objectid_str ex_oid)) # jsonable_encode ex_passenger)
          (dict_exclude_unset ex_update))))"
proof -
  have on: "online (snd (create_passenger ex_oid ex_passenger empty_coll))"
    and d: "docs (snd (create_passenger ex_oid ex_passenger empty_coll)) (POid ex_oid) = Some (created_doc ex_oid ex_passenger)"
    using ex_created by simp_all
  have fr: "POid (ObjectId (replicate 12 0)) \<notin> dom (docs (snd (create_passenger ex_oid ex_passenger empty_coll)))"
    using create_stores_new [of empty_coll ex_oid ex_passenger]
    by (simp add: empty_coll_def ex_oid_def eval_nat_numeral)
  show ?thesis
    using writes_survive_failed_reread [OF on fr objectid_roundtrip [OF ex_oid_valid] d passenger_helper_created,
        of ex_passenger ex_update] .
qed

end
