(* ===== verification/Spec2Isabelle.thy ===== *)
theory Spec2Isabelle
  imports Responses Database Commute Coercion Concurrency
begin

text \<open>
  \<^bold>\<open>A verification development of the passenger-profile service\<close>
  (src/main.py, src/schemas.py, src/database.py, src/models.py).

  \<^bold>\<open>The program.\<close> A FastAPI application (main.py) serves five routes over
  one MongoDB collection (database.py, \<open>passenger_collection\<close>): \<open>GET /\<close>,
  \<open>POST /passenger/create\<close>, \<open>GET /passenger/{id}\<close>,
  \<open>PUT /passenger/{id}/update\<close> and \<open>DELETE /passenger/{id}/delete\<close>. FastAPI
  validates the body of create and update into the pydantic model
  \<open>PassengerCreate\<close> (schemas.py) before the handler runs. Each handler wraps its
  work in \<open>try ... except Exception\<close>, turning every exception, its own
  \<open>HTTPException(404)\<close> included, into an \<open>HTTPException(500)\<close>.

  \<^bold>\<open>Theories, bottom up.\<close>
  \<^item> \<open>Prelude\<close>: the byte type; Python's \<open>str.lower\<close> and \<open>str.strip\<close> on
    the 8-bit range of \<open>char\<close> (Latin-1: \<open>py_lower\<close> lowers A-Z and
    the accented capitals, \<open>is_py_space\<close> includes \<open>\x85\<close> and
    \<open>\xa0\<close>); dicts as association lists; the shared lemma collections.
  \<^item> \<open>ObjectId\<close>: BSON identifiers (12 bytes as \<open>8 word list\<close>), \<open>str()\<close> as
    hexlify and the parser \<open>ObjectId(str)\<close>: 24 characters, then
    \<open>bytes.fromhex\<close>, which skips ASCII whitespace before each pair of
    digits. The round trip \<open>objectid_roundtrip\<close>, the acceptance of
    upper-case digits, and that a 24-character string with spaces yields a
    shorter identifier (\<open>objectid_parse_spaced\<close>) are proved here (library
    code, so these are lemmas, not claims).
  \<^item> \<open>Dates\<close>: \<open>datetime.date\<close> validity, \<open>isoformat\<close> and the
    regular-expression branch of pydantic's date parser, with the round trip
    \<open>isoformat_roundtrip\<close>.
  \<^item> \<open>Numbers\<close>: Python's \<open>str(int)\<close>, \<open>int(str)\<close> and \<open>float(str)\<close>
    (signs, underscores, exponents, \<open>inf\<close>, \<open>nan\<close>), pydantic's
    \<open>from_unix_seconds\<close> (the \<open>MS_WATERSHED\<close> loop is the \<open>function\<close>
    \<open>watershed\<close>, terminating by a measure; microseconds rounded half to
    even) and day counts to dates; pydantic's \<open>parse_date\<close> on a string
    (\<open>parse_date_text\<close>: \<open>get_numeric\<close> first, then the pattern).
  \<^item> \<open>Values\<close>: the Python values a document holds (\<open>pyval\<close>), \<open>str()\<close> on
    them, Python's \<open>repr\<close> of a string (\<open>py_repr\<close>: quote choice, escapes),
    and the exceptions the handlers see with their \<open>str(e)\<close>: bson's
    \<open>InvalidId\<close> message built with \<open>%r\<close>, a \<open>KeyError\<close> as the repr of
    its key, an \<open>HTTPException\<close> as starlette's \<open>"status: detail"\<close>.
  \<^item> \<open>DocStore\<close>: the collection as a record (documents keyed by \<open>_id\<close>, and
    whether the server is reachable) with the four Motor methods main.py calls,
    each one atomic step with MongoDB's semantics (\<open>$set\<close> counts a document
    as modified only when a value changes; \<open>_id\<close> is immutable; duplicate keys
    are refused).
  \<^item> \<open>Schemas\<close>: \<open>PassengerCreate\<close> validation of a JSON body (required and
    optional strings, dates, \<open>EmailStr\<close>, all errors collected, the set of
    fields present kept for \<open>exclude_unset\<close>), \<open>.dict(exclude_unset=True)\<close> and
    \<open>jsonable_encoder\<close>; pydantic's \<open>str_validator\<close> (an integer or a
    boolean becomes \<open>str(v)\<close>), \<open>parse_date\<close> on a JSON value
    (\<open>parse_date_json\<close>) and \<open>validate_email\<close> (the length limit, the
    pretty form \<open>Name <addr>\<close> reduced to \<open>addr\<close>, strip, the domain
    lowered). Claims C7 and C8.
  \<^item> \<open>Service\<close>: the handlers of main.py, each the body of its \<open>try\<close> block
    (\<open>*_try\<close>) with every store call, guard and raise, composed with the
    shared \<open>except\<close> clause \<open>reraise_500\<close>; \<open>passenger_helper\<close>,
    \<open>convert_dates_to_string\<close>, the dict merge \<open>{**a, **b}\<close>; the
    well-formedness \<open>wf_doc\<close> of stored documents and its preservation by
    create and update. Claims C1-C3.
  \<^item> \<open>UpdateSeq\<close>: sequences around update: what one update answers, an update
    with the create's own body, an identical repeated update. Claims C4-C6.
  \<^item> \<open>Api\<close>: requests and responses, \<open>dispatch\<close> (FastAPI's validation then
    the handler, an \<open>HTTPException\<close> becoming status and detail), the states
    reachable from an empty database under requests and outages, and what
    each handler does to the store. Claims C9 and C11-C13: the invariant,
    every error is a 500, delete then read, malformed identifiers.
  \<^item> \<open>Contract\<close>: the specification's CRUD contract as an abstract machine on
    visible records (\<open>astep\<close>, read through \<open>abs_store\<close>); the simulation
    \<open>dispatch_refines\<close> (C14: every success is a contract step) and its
    converse \<open>contract_steps_served\<close> (C18: read, delete and every update
    that changes the visible record always succeed).
  \<^item> \<open>Concurrency\<close>: the async handlers split at their \<open>await\<close>s into
    tasks (\<open>task\<close>, \<open>task_step\<close>: create two steps, read one, update
    three, delete one), each Motor call an atomic server operation;
    explicit schedules over the tasks in flight (\<open>run\<close>), and event lists
    (\<open>run_events\<close>) in which the server may also go down or come back
    between two steps. A task run alone is the handler
    (\<open>tasks_alone_are_handlers\<close>). C10: create and update are not atomic:
    when the re-read after the write fails, the answer is a 500 and the write
    stays. C15: two updates that both read before either writes lose the
    first. C16: a delete between an update's read and write stays.
  \<^item> \<open>Models\<close>: the pydantic models as field lists (\<open>PassengerCreate\<close>,
    the unused ORM model \<open>Passenger\<close> of models.py, \<open>PassengerResponse\<close>)
    and one generic validator, which agrees with the dedicated one.
  \<^item> \<open>Responses\<close>: FastAPI's response model (\<open>serve\<close>: the returned dict
    validated against \<open>PassengerResponse\<close> and re-encoded in its field order),
    the invariant that every stored e-mail validates to itself, C17: every
    successful answer passes the response model (the body is the handler's dict
    with \<open>"id"\<close> last), C19: every answered \<open>"id"\<close> is 24 lower-case hex
    digits.
  \<^item> \<open>Database\<close>: the module body of database.py (\<open>database_module\<close>):
    \<open>load_dotenv\<close> without override, \<open>os.getenv("MONGO_URL")\<close>, the Motor
    client's default host, the database \<open>passenger_db\<close> and collection
    \<open>passenger_collection\<close>; a cluster maps address, database and collection
    name to a collection. Lemmas only: the environment wins over \<open>.env\<close>,
    and the collection is named by the client address and the fixed names.
  \<^item> \<open>Commute\<close>: ordering. \<open>touches\<close> names the one document a request
    reads and writes; frame (\<open>dispatch_local\<close>) and congruence
    (\<open>dispatch_agree\<close>) lemmas for every route, and a generic lemma that
    two step functions local to different keys commute. C20: requests on
    different records give the same answers and the same collection in either
    order.
  \<^item> \<open>Coercion\<close>: numbers in a create body. C21: a string of digits as
    \<open>date_of_birth\<close> and an integer as \<open>mobile\<close> pass validation and are
    stored and answered as the date that many seconds after 1970-01-01
    (\<open>"20240101"\<close> gives 1970-08-23) and as the integer's decimal string.

  \<^bold>\<open>Correspondence.\<close> The collection is \<open>collection\<close> (\<open>docs\<close>, a map from
  \<open>_id\<close> values to documents, a document a map from field names to
  \<open>pyval\<close>); a handler is a function of its arguments and the collection
  returning its result (\<open>exc + pydict\<close>, \<open>Inl\<close> a raised exception) beside
  the new collection. \<open>create_passenger\<close>, \<open>get_passenger\<close>,
  \<open>update_passenger\<close>, \<open>delete_passenger\<close> and \<open>root\<close> carry the names of
  main.py's functions; \<open>dispatch\<close> is the routing of the decorators
  (main.py lines 12-15, 43, 71, 88, 126), and the response model of those
  decorators is applied separately by \<open>serve\<close>. \<open>dispatch\<close> runs a
  handler as one step; the interleavings and outages inside a handler are
  the \<open>task\<close> model of \<open>Concurrency\<close>. The identifier MongoDB generates
  on insert is an argument (\<open>fresh\<close>); \<open>reachable\<close> takes any
  twelve-byte one.

  \<^bold>\<open>No fuel.\<close> No handler loops; every definition is total and executable,
  so no fuel is needed. The loops that do occur are \<open>function\<close>s with a
  measure: pydantic's watershed division (how far the value is above
  \<open>MS_WATERSHED\<close> times the divisor), the year and month counting of
  \<open>date_of_days\<close>; \<open>fromhex\<close> recurses on the tail of the string.
  Interleavings are finite schedules or event lists.

  \<^bold>\<open>Assumptions.\<close> The e-mail checker of \<open>email_validator\<close> is the
  parameter \<open>email_ok\<close>; C17 and C19 assume only that whenever it accepts
  an address it accepts the address with its domain lowered, and that it
  accepts no address containing \<open><\<close> (\<open>email_check_stable\<close>).
  \<open>reachable\<close> starts from an empty, reachable database and takes any
  twelve-byte generated identifier.

  \<^bold>\<open>Not modelled.\<close> Logging (no effect on results or state); the Motor
  client's connection pool and server selection (the reachability flag
  \<open>online\<close> stands for them) and the parsing of the URI itself; a date
  object inside a returned dict (the handlers never return one: dates are
  stored as ISO strings); JSON numbers with a fraction or an exponent (Python
  floats, whose \<open>str()\<close> is the shortest round-trip repr) in string fields,
  and the rounding of numeric literals to doubles (values are kept exact, which
  can differ only for literals of more than fifteen significant digits);
  characters outside the 8-bit range of Isabelle's \<open>char\<close> (so \<open>strip\<close>,
  \<open>lower\<close> and \<open>repr\<close> are modelled on Latin-1 only); the BSON encoding of
  the shorter identifier a spaced id string gives (it is modelled as naming
  no stored document, since every stored \<open>_id\<close> has twelve bytes);
  starlette's \<open>HTTPException.__str__\<close> is taken as \<open>"status: detail"\<close>;
  the e-mail validator itself, which is the parameter \<open>email_ok\<close>.
\<close>

end
